theory Spec2Isabelle
  imports Main "HOL-Library.Sublist"
begin

section \<open>Errors\<close>

text \<open>
  Errors returned by the cluster clients (the \<open>k8serrors\<close> status reasons the
  repositories distinguish, and everything else as a transport failure).
\<close>

datatype k8s_error =
    K8sNotFound
  | K8sForbidden
  | K8sUnauthorized
  | K8sAlreadyExists
  | K8sAdmissionDenied string
  | K8sTransport string

datatype fmt_arg = IntArg int | DurationArg nat | StrArg string

text \<open>
  Go \<open>error\<close> values. \<open>Errorf f args w\<close> is \<open>fmt.Errorf(f, args..., w)\<close> where
  \<open>w\<close> is the operand of the \<open>%w\<close> verb (\<open>None\<close> when the format has no \<open>%w\<close> or
  its operand is nil); the other arguments are kept in order. \<open>NotFoundError\<close>,
  \<open>ForbiddenError\<close> and \<open>UnprocessableEntityError\<close> are the \<open>apierrors\<close> types
  built by \<open>NewNotFoundError(cause, resourceType)\<close> and its siblings.
\<close>

datatype error =
    StatusError k8s_error
  | ErrorString string
  | Errorf string "fmt_arg list" "error option"
  | NotFoundError "error option" string
  | ForbiddenError "error option" string
  | UnprocessableEntityError error string

text \<open>Modelled from the spec: \<open>apierrors.FromK8sError\<close> is not under src/. The spec
  (sections 6 and 7) says cluster-call failures are translated at the repository
  boundary: an absent object is reported as NotFound\{resourceType\}, a forbidden one as a
  Forbidden error that lookups may mask, anything else stays a generic error.
\<close>

fun FromK8sError :: "error \<Rightarrow> string \<Rightarrow> error" where
  "FromK8sError (StatusError K8sNotFound) resourceType =
     NotFoundError (Some (StatusError K8sNotFound)) resourceType"
| "FromK8sError (StatusError K8sForbidden) resourceType =
     ForbiddenError (Some (StatusError K8sForbidden)) resourceType"
| "FromK8sError err resourceType = err"

text \<open>Modelled from the spec: \<open>apierrors.ForbiddenAsNotFound\<close> is not under src/. The spec
  (section 4.4, section 6 "Forbidden-masked-as-NotFound") says a forbidden lookup is
  reported as NotFound; every other error is returned as it is.
\<close>

fun ForbiddenAsNotFound :: "error \<Rightarrow> error" where
  "ForbiddenAsNotFound (ForbiddenError cause resourceType) = NotFoundError cause resourceType"
| "ForbiddenAsNotFound err = err"

text \<open>\<open>k8serrors.IsForbidden\<close> on an error as a client returns it.\<close>

fun IsForbidden :: "error \<Rightarrow> bool" where
  "IsForbidden (StatusError K8sForbidden) = True"
| "IsForbidden err = False"

text \<open>Modelled from the spec: \<open>webhooks.WebhookErrorToValidationError\<close> is not under src/.
  The spec (section 4.1) says an admission rejection surfaces as a Validation error
  carrying the admission message; the rejection is looked for through the \<open>%w\<close> chain.
\<close>

fun WebhookErrorToValidationError :: "error \<Rightarrow> string option" where
  "WebhookErrorToValidationError (StatusError (K8sAdmissionDenied msg)) = Some msg"
| "WebhookErrorToValidationError (Errorf f args (Some err)) = WebhookErrorToValidationError err"
| "WebhookErrorToValidationError err = None"

section \<open>Cluster objects\<close>

type_synonym Info = string

type_synonym nsmap = "(string \<times> bool) list"

datatype SubnamespaceAnchorState = Pending | Ok | Missing | Conflict

record SubnamespaceAnchor =
  anchor_Name :: string
  anchor_Namespace :: string
  anchor_Labels :: "(string \<times> string) list"
  anchor_CreationTimestamp :: nat
  anchor_State :: SubnamespaceAnchorState

datatype ConditionStatus = ConditionTrue | ConditionFalse | ConditionUnknown

record Condition =
  cond_Type :: string
  cond_Status :: ConditionStatus

record CFOrg =
  cforg_Name :: string
  cforg_Namespace :: string
  cforg_CreationTimestamp :: nat
  cforg_SpecName :: string
  cforg_Conditions :: "Condition list"

record HierarchyConfiguration =
  hc_Name :: string
  hc_Namespace :: string
  hc_AllowCascadingDeletion :: bool

record ServiceAccount =
  sa_Name :: string
  sa_Namespace :: string
  sa_ImagePullSecrets :: "string list"
  sa_Secrets :: "string list"

record CFServiceBinding =
  binding_Name :: string
  binding_Namespace :: string
  binding_Labels :: "(string \<times> string) list"
  binding_CreationTimestamp :: nat
  binding_UpdatedTimestamp :: "nat option"
  binding_SpecName :: "string option"
  binding_ServiceName :: string
  binding_AppRefName :: string

datatype watch_object =
    AnchorObject SubnamespaceAnchor
  | CFOrgObject CFOrg
  | OtherObject

section \<open>The cluster and the collaborators\<close>

datatype client = Privileged | User Info

datatype verb = VGet | VList | VWatch | VCreate | VDelete

datatype kind =
    KSubnamespaceAnchor
  | KCFOrg
  | KHierarchyConfiguration
  | KServiceAccount
  | KCFServiceBinding

text \<open>
  The state the repositories work against. The stored objects are lists, in the order
  the API server lists them. \<open>faults\<close> stands for everything that makes the API
  server refuse a request (RBAC, admission, transport): the client, the verb, the kind,
  the namespace (empty for a cluster-wide list) and the object name (empty for a list)
  decide. \<open>watchEvents\<close> gives the objects a namespace+name-filtered watch of a kind
  delivers before its channel is closed by the timeout context. The two
  \<open>authorized...Namespaces\<close> fields are \<open>NamespacePermissions\<close>: the map it returns
  for a caller at a time of the model clock (milliseconds); keys are distinct in a Go
  map and the list order is the order a \<open>range\<close> loop happens to visit them in.
  \<open>buildClientFailure\<close> is \<open>UserK8sClientFactory.BuildClient\<close> and \<open>namespaceFor\<close>
  is \<open>NamespaceRetriever.NamespaceFor\<close>.
\<close>

record cluster =
  anchors :: "SubnamespaceAnchor list"
  cfOrgs :: "CFOrg list"
  hierarchyConfigurations :: "HierarchyConfiguration list"
  serviceAccounts :: "ServiceAccount list"
  cfServiceBindings :: "CFServiceBinding list"
  clock :: nat
  faults :: "client \<Rightarrow> verb \<Rightarrow> kind \<Rightarrow> string \<Rightarrow> string \<Rightarrow> k8s_error option"
  watchEvents :: "kind \<Rightarrow> string \<Rightarrow> string \<Rightarrow> watch_object list"
  authorizedOrgNamespaces :: "nat \<Rightarrow> Info \<Rightarrow> error + nsmap"
  authorizedSpaceNamespaces :: "nat \<Rightarrow> Info \<Rightarrow> error + nsmap"
  buildClientFailure :: "Info \<Rightarrow> error option"
  namespaceFor :: "string \<Rightarrow> string \<Rightarrow> error + string"

definition GetAuthorizedOrgNamespaces :: "cluster \<Rightarrow> Info \<Rightarrow> error + nsmap" where
  "GetAuthorizedOrgNamespaces c info = authorizedOrgNamespaces c (clock c) info"

definition GetAuthorizedSpaceNamespaces :: "cluster \<Rightarrow> Info \<Rightarrow> error + nsmap" where
  "GetAuthorizedSpaceNamespaces c info = authorizedSpaceNamespaces c (clock c) info"

definition BuildClient :: "cluster \<Rightarrow> Info \<Rightarrow> error + client" where
  "BuildClient c info =
     (case buildClientFailure c info of Some err \<Rightarrow> Inl err | None \<Rightarrow> Inr (User info))"

text \<open>Go's \<open>m[k]\<close> on a \<open>map[string]bool\<close> (false when the key is absent) and \<open>_, ok := m[k]\<close>.\<close>

definition index_bool :: "nsmap \<Rightarrow> string \<Rightarrow> bool" where
  "index_bool m k = (case map_of m k of Some b \<Rightarrow> b | None \<Rightarrow> False)"

definition has_key :: "nsmap \<Rightarrow> string \<Rightarrow> bool" where
  "has_key m k = (case map_of m k of Some b \<Rightarrow> True | None \<Rightarrow> False)"

text \<open>Go's \<open>m[k]\<close> on a \<open>map[string]string\<close> (the empty string when the key is absent).\<close>

definition index_string :: "(string \<times> string) list \<Rightarrow> string \<Rightarrow> string" where
  "index_string m k = (case map_of m k of Some v \<Rightarrow> v | None \<Rightarrow> [])"

subsection \<open>Client calls on subnamespace anchors\<close>

text \<open>
  A label selector \<open>key in (values)\<close> matches an object that has the label with one of
  the values. \<open>client.InNamespace\<close> is the \<open>Some ns\<close> argument of the list call;
  \<open>client.InNamespace("")\<close> lists every namespace, as a list without the option does.
\<close>

definition selects :: "(string \<times> string list) option \<Rightarrow> (string \<times> string) list \<Rightarrow> bool" where
  "selects sel lbls =
     (case sel of
        None \<Rightarrow> True
      | Some (key, vals) \<Rightarrow>
          (case map_of lbls key of None \<Rightarrow> False | Some v \<Rightarrow> v \<in> set vals))"

definition in_namespace :: "string option \<Rightarrow> string \<Rightarrow> bool" where
  "in_namespace nsopt ns = (case nsopt of None \<Rightarrow> True | Some n \<Rightarrow> n = [] \<or> ns = n)"

definition namespace_key :: "string option \<Rightarrow> string" where
  "namespace_key nsopt = (case nsopt of None \<Rightarrow> [] | Some n \<Rightarrow> n)"

definition List_anchors ::
  "cluster \<Rightarrow> client \<Rightarrow> string option \<Rightarrow> (string \<times> string list) option
     \<Rightarrow> error + SubnamespaceAnchor list" where
  "List_anchors c cl nsopt sel =
     (case faults c cl VList KSubnamespaceAnchor (namespace_key nsopt) [] of
        Some k \<Rightarrow> Inl (StatusError k)
      | None \<Rightarrow>
          Inr (filter (\<lambda>a. in_namespace nsopt (anchor_Namespace a) \<and> selects sel (anchor_Labels a))
                 (anchors c)))"

definition List_cfOrgs :: "cluster \<Rightarrow> client \<Rightarrow> string option \<Rightarrow> error + CFOrg list" where
  "List_cfOrgs c cl nsopt =
     (case faults c cl VList KCFOrg (namespace_key nsopt) [] of
        Some k \<Rightarrow> Inl (StatusError k)
      | None \<Rightarrow> Inr (filter (\<lambda>org. in_namespace nsopt (cforg_Namespace org)) (cfOrgs c)))"

text \<open>
  \<open>labels.NewRequirement(key, selection.In, values)\<close> of the Kubernetes library refuses
  values that are not label values: at most 63 characters, alphanumeric at both ends,
  alphanumerics and \<open>-\<close>, \<open>_\<close>, \<open>.\<close> between (the empty value is allowed).
\<close>

definition alnum :: "char \<Rightarrow> bool" where
  "alnum ch = (ch \<in> set ''abcdefghijklmnopqrstuvwxyzABCDEFGHIJKLMNOPQRSTUVWXYZ0123456789'')"

definition IsValidLabelValue :: "string \<Rightarrow> bool" where
  "IsValidLabelValue v =
     (length v \<le> 63 \<and>
      (v = [] \<or> (alnum (hd v) \<and> alnum (last v) \<and> (\<forall>ch \<in> set v. alnum ch \<or> ch \<in> set ''-_.''))))"

definition NewRequirement :: "string \<Rightarrow> string list \<Rightarrow> error + (string \<times> string list)" where
  "NewRequirement key vals =
     (if list_all IsValidLabelValue vals then Inr (key, vals)
      else Inl (ErrorString ''invalid label value''))"

section \<open>The organization and space repository (org\_repository.go)\<close>

definition OrgNameLabel :: string where
  "OrgNameLabel = ''cloudfoundry.org/org-name''"

definition SpaceNameLabel :: string where
  "SpaceNameLabel = ''cloudfoundry.org/space-name''"

definition hierarchyMetadataName :: string where
  "hierarchyMetadataName = ''hierarchy''"

definition OrgResourceType :: string where
  "OrgResourceType = ''Org''"

definition SpaceResourceType :: string where
  "SpaceResourceType = ''Space''"

definition SpacePrefix :: string where
  "SpacePrefix = ''cf-space-''"

record CreateSpaceMessage =
  Name :: string
  OrganizationGUID :: string
  ImageRegistryCredentials :: string

record ListOrgsMessage =
  Names :: "string list"
  GUIDs :: "string list"

record ListSpacesMessage =
  Names :: "string list"
  GUIDs :: "string list"
  OrganizationGUIDs :: "string list"

record DeleteOrgMessage =
  GUID :: string

record DeleteSpaceMessage =
  GUID :: string
  OrganizationGUID :: string

record OrgRecord =
  Name :: string
  GUID :: string
  Suspended :: bool
  Labels :: "(string \<times> string) list"
  Annotations :: "(string \<times> string) list"
  CreatedAt :: nat
  UpdatedAt :: nat

record SpaceRecord =
  Name :: string
  GUID :: string
  OrganizationGUID :: string
  Labels :: "(string \<times> string) list"
  Annotations :: "(string \<times> string) list"
  CreatedAt :: nat
  UpdatedAt :: nat

text \<open>
  The \<open>OrgRepo\<close> struct: its root namespace and its timeout (milliseconds). The
  clients and \<open>nsPerms\<close> it points to are the cluster above.
\<close>

record OrgRepo =
  rootNamespace :: string
  timeout :: nat

definition toMap :: "string list \<Rightarrow> string set" where
  "toMap elements = fold (\<lambda>element result. insert element result) elements {}"

definition matchFilter :: "string set \<Rightarrow> string \<Rightarrow> bool" where
  "matchFilter flt v = (if flt = {} then True else v \<in> flt)"

definition anchorToOrgRecord :: "SubnamespaceAnchor \<Rightarrow> OrgRecord" where
  "anchorToOrgRecord anchor =
     \<lparr> OrgRecord.Name = index_string (anchor_Labels anchor) OrgNameLabel,
       GUID = anchor_Name anchor,
       Suspended = False,
       Labels = [],
       Annotations = [],
       CreatedAt = anchor_CreationTimestamp anchor,
       UpdatedAt = anchor_CreationTimestamp anchor \<rparr>"

definition ListOrgs ::
  "OrgRepo \<Rightarrow> cluster \<Rightarrow> Info \<Rightarrow> ListOrgsMessage \<Rightarrow> error + OrgRecord list" where
  "ListOrgs r c info flt =
     (case (if 0 < length (ListOrgsMessage.Names flt)
            then (case NewRequirement OrgNameLabel (ListOrgsMessage.Names flt) of
                    Inl err \<Rightarrow> Inl err
                  | Inr namesRequirement \<Rightarrow> Inr (Some namesRequirement))
            else Inr None) of
        Inl err \<Rightarrow> Inl err
      | Inr namesSelector \<Rightarrow>
          (case List_anchors c Privileged (Some (rootNamespace r)) namesSelector of
             Inl err \<Rightarrow> Inl (FromK8sError err OrgResourceType)
           | Inr items \<Rightarrow>
               (let guidFilter = toMap (ListOrgsMessage.GUIDs flt);
                    records = map anchorToOrgRecord
                      (filter (\<lambda>anchor. anchor_State anchor = Ok
                                  \<and> matchFilter guidFilter (anchor_Name anchor)) items)
                in case GetAuthorizedOrgNamespaces c info of
                     Inl err \<Rightarrow> Inl err
                   | Inr authorizedNamespaces \<Rightarrow>
                       Inr (filter (\<lambda>org. index_bool authorizedNamespaces (OrgRecord.GUID org))
                              records))))"

definition GetOrg :: "OrgRepo \<Rightarrow> cluster \<Rightarrow> Info \<Rightarrow> string \<Rightarrow> error + OrgRecord" where
  "GetOrg r c info orgGUID =
     (case ListOrgs r c info \<lparr> ListOrgsMessage.Names = [], GUIDs = [orgGUID] \<rparr> of
        Inl err \<Rightarrow> Inl err
      | Inr orgRecords \<Rightarrow>
          (case orgRecords of
             [] \<Rightarrow> Inl (NotFoundError None OrgResourceType)
           | rec # rest \<Rightarrow> Inr rec))"

definition anchorToSpaceRecord :: "SubnamespaceAnchor \<Rightarrow> SpaceRecord" where
  "anchorToSpaceRecord anchor =
     \<lparr> SpaceRecord.Name = index_string (anchor_Labels anchor) SpaceNameLabel,
       GUID = anchor_Name anchor,
       OrganizationGUID = anchor_Namespace anchor,
       Labels = [],
       Annotations = [],
       CreatedAt = anchor_CreationTimestamp anchor,
       UpdatedAt = anchor_CreationTimestamp anchor \<rparr>"

text \<open>The first pass of \<open>ListSpaces\<close>: the names of the anchors under the root namespace
  that pass the organization filter.\<close>

definition orgUIDs_of :: "OrgRepo \<Rightarrow> string set \<Rightarrow> SubnamespaceAnchor list \<Rightarrow> string set" where
  "orgUIDs_of r orgsFilter items =
     fold (\<lambda>anchor orgUIDs.
             if anchor_Namespace anchor \<noteq> rootNamespace r then orgUIDs
             else if \<not> matchFilter orgsFilter (anchor_Name anchor) then orgUIDs
             else insert (anchor_Name anchor) orgUIDs)
          items {}"

definition ListSpaces ::
  "OrgRepo \<Rightarrow> cluster \<Rightarrow> Info \<Rightarrow> ListSpacesMessage \<Rightarrow> error + SpaceRecord list" where
  "ListSpaces r c info message =
     (case List_anchors c Privileged None None of
        Inl err \<Rightarrow> Inl (FromK8sError err SpaceResourceType)
      | Inr items \<Rightarrow>
          (let orgsFilter = toMap (ListSpacesMessage.OrganizationGUIDs message);
               orgUIDs = orgUIDs_of r orgsFilter items;
               nameFilter = toMap (ListSpacesMessage.Names message);
               guidFilter = toMap (ListSpacesMessage.GUIDs message);
               records = map anchorToSpaceRecord
                 (filter (\<lambda>anchor. anchor_State anchor = Ok
                             \<and> matchFilter nameFilter (index_string (anchor_Labels anchor) SpaceNameLabel)
                             \<and> matchFilter guidFilter (anchor_Name anchor)
                             \<and> anchor_Namespace anchor \<in> orgUIDs) items)
           in case GetAuthorizedSpaceNamespaces c info of
                Inl err \<Rightarrow> Inl err
              | Inr authorizedNamespaces \<Rightarrow>
                  Inr (filter (\<lambda>space. index_bool authorizedNamespaces (SpaceRecord.GUID space))
                         records)))"

definition GetSpace :: "OrgRepo \<Rightarrow> cluster \<Rightarrow> Info \<Rightarrow> string \<Rightarrow> error + SpaceRecord" where
  "GetSpace r c info spaceGUID =
     (case ListSpaces r c info
             \<lparr> ListSpacesMessage.Names = [], GUIDs = [spaceGUID], OrganizationGUIDs = [] \<rparr> of
        Inl err \<Rightarrow> Inl err
      | Inr spaceRecords \<Rightarrow>
          (case spaceRecords of
             [] \<Rightarrow> Inl (NotFoundError (Some (Errorf ''space %q not found'' [StrArg spaceGUID] None))
                          SpaceResourceType)
           | rec # rest \<Rightarrow> Inr rec))"

subsection \<open>Writes: the provisioning wait, CreateSpace, DeleteOrg, DeleteSpace\<close>

text \<open>
  A create stores the object (its creation timestamp set by the server) unless the
  request is refused or an object of that name is already there; a delete removes it, and
  reports NotFound when there is none; a get returns the stored object or NotFound.
\<close>

definition Create_anchor ::
  "cluster \<Rightarrow> client \<Rightarrow> SubnamespaceAnchor \<Rightarrow> error option \<times> cluster" where
  "Create_anchor c cl anchor =
     (case faults c cl VCreate KSubnamespaceAnchor (anchor_Namespace anchor) (anchor_Name anchor) of
        Some k \<Rightarrow> (Some (StatusError k), c)
      | None \<Rightarrow>
          if list_ex (\<lambda>a. anchor_Namespace a = anchor_Namespace anchor
                          \<and> anchor_Name a = anchor_Name anchor) (anchors c)
          then (Some (StatusError K8sAlreadyExists), c)
          else (None, c\<lparr> anchors := anchors c @ [anchor\<lparr> anchor_CreationTimestamp := clock c \<rparr>] \<rparr>))"

definition Delete_anchor ::
  "cluster \<Rightarrow> client \<Rightarrow> string \<Rightarrow> string \<Rightarrow> error option \<times> cluster" where
  "Delete_anchor c cl ns nm =
     (case faults c cl VDelete KSubnamespaceAnchor ns nm of
        Some k \<Rightarrow> (Some (StatusError k), c)
      | None \<Rightarrow>
          if list_ex (\<lambda>a. anchor_Namespace a = ns \<and> anchor_Name a = nm) (anchors c)
          then (None, c\<lparr> anchors :=
                           filter (\<lambda>a. \<not> (anchor_Namespace a = ns \<and> anchor_Name a = nm)) (anchors c) \<rparr>)
          else (Some (StatusError K8sNotFound), c))"

definition Create_cfOrg :: "cluster \<Rightarrow> client \<Rightarrow> CFOrg \<Rightarrow> error option \<times> cluster" where
  "Create_cfOrg c cl org =
     (case faults c cl VCreate KCFOrg (cforg_Namespace org) (cforg_Name org) of
        Some k \<Rightarrow> (Some (StatusError k), c)
      | None \<Rightarrow>
          if list_ex (\<lambda>a. cforg_Namespace a = cforg_Namespace org \<and> cforg_Name a = cforg_Name org)
               (cfOrgs c)
          then (Some (StatusError K8sAlreadyExists), c)
          else (None, c\<lparr> cfOrgs := cfOrgs c @ [org\<lparr> cforg_CreationTimestamp := clock c \<rparr>] \<rparr>))"

definition Create_serviceAccount ::
  "cluster \<Rightarrow> client \<Rightarrow> ServiceAccount \<Rightarrow> error option \<times> cluster" where
  "Create_serviceAccount c cl sa =
     (case faults c cl VCreate KServiceAccount (sa_Namespace sa) (sa_Name sa) of
        Some k \<Rightarrow> (Some (StatusError k), c)
      | None \<Rightarrow>
          if list_ex (\<lambda>a. sa_Namespace a = sa_Namespace sa \<and> sa_Name a = sa_Name sa)
               (serviceAccounts c)
          then (Some (StatusError K8sAlreadyExists), c)
          else (None, c\<lparr> serviceAccounts := serviceAccounts c @ [sa] \<rparr>))"

definition Get_hierarchyConfiguration ::
  "cluster \<Rightarrow> client \<Rightarrow> string \<Rightarrow> string \<Rightarrow> error + HierarchyConfiguration" where
  "Get_hierarchyConfiguration c cl ns nm =
     (case faults c cl VGet KHierarchyConfiguration ns nm of
        Some k \<Rightarrow> Inl (StatusError k)
      | None \<Rightarrow>
          (case find (\<lambda>h. hc_Namespace h = ns \<and> hc_Name h = nm) (hierarchyConfigurations c) of
             None \<Rightarrow> Inl (StatusError K8sNotFound)
           | Some h \<Rightarrow> Inr h))"

definition Watch ::
  "cluster \<Rightarrow> client \<Rightarrow> kind \<Rightarrow> string \<Rightarrow> string \<Rightarrow> error + watch_object list" where
  "Watch c cl k ns nm =
     (case faults c cl VWatch k ns nm of
        Some e \<Rightarrow> Inl (StatusError e)
      | None \<Rightarrow> Inr (watchEvents c k ns nm))"

text \<open>
  The loop over \<open>watch.ResultChan()\<close> of \<open>createSubnamespaceAnchor\<close>: an object that is
  not an anchor is skipped, the first anchor in state Ok ends the loop; \<open>None\<close> is
  \<open>stateOK = false\<close> when the channel is closed.
\<close>

fun awaitStateOk :: "watch_object list \<Rightarrow> SubnamespaceAnchor option" where
  "awaitStateOk [] = None"
| "awaitStateOk (AnchorObject createdAnchor # events) =
     (if anchor_State createdAnchor = Ok then Some createdAnchor else awaitStateOk events)"
| "awaitStateOk (obj # events) = awaitStateOk events"

text \<open>
  The polling loop of \<open>createSubnamespaceAnchor\<close>. \<open>t1\<close> is the clock when the loop
  starts; the timer of \<open>time.After(r.timeout)\<close> has fired once \<open>timeout r\<close>
  milliseconds have passed since then; only \<open>time.Sleep\<close> advances the clock. The
  \<open>%w\<close> operand of the timeout error is the \<open>err\<close> variable, which is nil there.
\<close>

function awaitPermissions ::
  "OrgRepo \<Rightarrow> Info \<Rightarrow> string \<Rightarrow> string \<Rightarrow> nat \<Rightarrow> cluster \<Rightarrow> error option \<times> cluster" where
  "awaitPermissions r info resourceType nm t1 c =
     (if timeout r \<le> clock c - t1
      then (Some (Errorf ''failed establishing permissions in new namespace after %s: %w''
                    [DurationArg (clock c - t1)] None), c)
      else
        (case (if resourceType = OrgResourceType then GetAuthorizedOrgNamespaces c info
               else GetAuthorizedSpaceNamespaces c info) of
           Inl err \<Rightarrow> (Some err, c)
         | Inr authorizedNamespaces \<Rightarrow>
             if has_key authorizedNamespaces nm then (None, c)
             else awaitPermissions r info resourceType nm t1 (c\<lparr> clock := clock c + 500 \<rparr>)))"
  by pat_completeness auto
termination
  by (relation "measure (\<lambda>(r, info, resourceType, nm, t1, c). t1 + timeout r - clock c)") auto

declare awaitPermissions.simps [simp del]

definition createSubnamespaceAnchor ::
  "OrgRepo \<Rightarrow> cluster \<Rightarrow> Info \<Rightarrow> client \<Rightarrow> SubnamespaceAnchor \<Rightarrow> string
     \<Rightarrow> (error + SubnamespaceAnchor) \<times> cluster" where
  "createSubnamespaceAnchor r c info userClient anchor resourceType =
     (case Create_anchor c userClient anchor of
        (Some err, c1) \<Rightarrow>
          (Inl (Errorf ''failed to create subnamespaceanchor: %w'' []
                  (Some (FromK8sError err resourceType))), c1)
      | (None, c1) \<Rightarrow>
          (case Watch c1 Privileged KSubnamespaceAnchor (anchor_Namespace anchor) (anchor_Name anchor) of
             Inl err \<Rightarrow>
               (Inl (Errorf ''failed to set up watch on subnamespaceanchors: %w'' []
                       (Some (FromK8sError err resourceType))), c1)
           | Inr events \<Rightarrow>
               (case awaitStateOk events of
                  None \<Rightarrow>
                    (Inl (Errorf ''subnamespaceanchor did not get state 'ok' within timeout period %d ms''
                            [IntArg (int (timeout r))] None), c1)
                | Some createdAnchor \<Rightarrow>
                    (case awaitPermissions r info resourceType (anchor_Name anchor) (clock c1) c1 of
                       (Some err, c2) \<Rightarrow> (Inl err, c2)
                     | (None, c2) \<Rightarrow> (Inr createdAnchor, c2)))))"


text \<open>\<open>uuid\<close> is the value \<open>uuid.NewString()\<close> returns in this call.\<close>

definition CreateSpace ::
  "OrgRepo \<Rightarrow> cluster \<Rightarrow> Info \<Rightarrow> CreateSpaceMessage \<Rightarrow> string
     \<Rightarrow> (error + SpaceRecord) \<times> cluster" where
  "CreateSpace r c info message uuid =
     (case GetOrg r c info (CreateSpaceMessage.OrganizationGUID message) of
        Inl err \<Rightarrow> (Inl (Errorf ''failed to get parent organization: %w'' [] (Some err)), c)
      | Inr org \<Rightarrow>
          (let spaceGUID = SpacePrefix @ uuid in
           case BuildClient c info of
             Inl err \<Rightarrow> (Inl (Errorf ''failed to build user client: %w'' [] (Some err)), c)
           | Inr userClient \<Rightarrow>
               (case createSubnamespaceAnchor r c info userClient
                       \<lparr> anchor_Name = spaceGUID,
                         anchor_Namespace = CreateSpaceMessage.OrganizationGUID message,
                         anchor_Labels = [(SpaceNameLabel, CreateSpaceMessage.Name message)],
                         anchor_CreationTimestamp = 0,
                         anchor_State = Pending \<rparr>
                       SpaceResourceType of
                  (Inl err, c1) \<Rightarrow>
                    (case WebhookErrorToValidationError err of
                       Some webhookError \<Rightarrow> (Inl (UnprocessableEntityError err webhookError), c1)
                     | None \<Rightarrow> (Inl err, c1))
                | (Inr anchor, c1) \<Rightarrow>
                    (case Create_serviceAccount c1 Privileged
                            \<lparr> sa_Name = ''kpack-service-account'',
                              sa_Namespace = spaceGUID,
                              sa_ImagePullSecrets = [ImageRegistryCredentials message],
                              sa_Secrets = [ImageRegistryCredentials message] \<rparr> of
                       (Some err, c2) \<Rightarrow> (Inl (FromK8sError err SpaceResourceType), c2)
                     | (None, c2) \<Rightarrow>
                         (case Create_serviceAccount c2 Privileged
                                 \<lparr> sa_Name = ''eirini'',
                                   sa_Namespace = spaceGUID,
                                   sa_ImagePullSecrets = [],
                                   sa_Secrets = [] \<rparr> of
                            (Some err, c3) \<Rightarrow> (Inl (FromK8sError err SpaceResourceType), c3)
                          | (None, c3) \<Rightarrow>
                              (Inr \<lparr> SpaceRecord.Name = CreateSpaceMessage.Name message,
                                     GUID = anchor_Name anchor,
                                     OrganizationGUID = CreateSpaceMessage.OrganizationGUID message,
                                     Labels = [],
                                     Annotations = [],
                                     CreatedAt = anchor_CreationTimestamp anchor,
                                     UpdatedAt = anchor_CreationTimestamp anchor \<rparr>, c3))))))"

definition DeleteOrg ::
  "OrgRepo \<Rightarrow> cluster \<Rightarrow> Info \<Rightarrow> DeleteOrgMessage \<Rightarrow> error option \<times> cluster" where
  "DeleteOrg r c info message =
     (case Get_hierarchyConfiguration c Privileged (DeleteOrgMessage.GUID message)
             hierarchyMetadataName of
        Inl err \<Rightarrow> (Some (FromK8sError err OrgResourceType), c)
      | Inr hierarchyObj \<Rightarrow>
          (case BuildClient c info of
             Inl err \<Rightarrow> (Some (Errorf ''failed to build user client: %w'' [] (Some err)), c)
           | Inr userClient \<Rightarrow>
               (case Delete_anchor c userClient (rootNamespace r) (DeleteOrgMessage.GUID message) of
                  (err, c1) \<Rightarrow> (map_option (\<lambda>e. FromK8sError e OrgResourceType) err, c1))))"

definition DeleteSpace ::
  "OrgRepo \<Rightarrow> cluster \<Rightarrow> Info \<Rightarrow> DeleteSpaceMessage \<Rightarrow> error option \<times> cluster" where
  "DeleteSpace r c info message =
     (case BuildClient c info of
        Inl err \<Rightarrow> (Some (Errorf ''failed to build user client: %w'' [] (Some err)), c)
      | Inr userClient \<Rightarrow>
          (case Delete_anchor c userClient (DeleteSpaceMessage.OrganizationGUID message)
                  (DeleteSpaceMessage.GUID message) of
             (err, c1) \<Rightarrow> (map_option (\<lambda>e. FromK8sError e SpaceResourceType) err, c1)))"

section \<open>The repository backed by CFOrg resources (src/unnamed/part\_000)\<close>

text \<open>
  In this file \<open>ListSpaces\<close>, \<open>GetSpace\<close>, \<open>createSubnamespaceAnchor\<close>, \<open>matchFilter\<close>,
  \<open>toMap\<close>, \<open>DeleteOrg\<close> and \<open>DeleteSpace\<close> are the same text as in
  org\_repository.go; \<open>ListOrgs\<close>, \<open>GetOrg\<close>, \<open>CreateSpace\<close> and \<open>createOrgCR\<close> read
  CFOrg resources and carry the suffix \<open>_CFOrg\<close> here.
\<close>

text \<open>Modelled from the spec: \<open>matchesFilter(field, filter)\<close> is not under src/. The spec
  (section 4.2) says an empty filter matches all and a non-empty one is a membership test.
\<close>

definition matchesFilter :: "string \<Rightarrow> string list \<Rightarrow> bool" where
  "matchesFilter field flt = (if length flt = 0 then True else field \<in> set flt)"

text \<open>\<open>meta.IsStatusConditionTrue\<close> of the Kubernetes library: the first condition of the
  type decides, and an absent one is not true.\<close>

definition IsStatusConditionTrue :: "Condition list \<Rightarrow> string \<Rightarrow> bool" where
  "IsStatusConditionTrue conditions conditionType =
     (case find (\<lambda>cond. cond_Type cond = conditionType) conditions of
        None \<Rightarrow> False
      | Some cond \<Rightarrow> cond_Status cond = ConditionTrue)"

definition cfOrgToOrgRecord :: "CFOrg \<Rightarrow> OrgRecord" where
  "cfOrgToOrgRecord cfOrg =
     \<lparr> OrgRecord.Name = cforg_SpecName cfOrg,
       GUID = cforg_Name cfOrg,
       Suspended = False,
       Labels = [],
       Annotations = [],
       CreatedAt = cforg_CreationTimestamp cfOrg,
       UpdatedAt = cforg_CreationTimestamp cfOrg \<rparr>"

definition ListOrgs_CFOrg ::
  "OrgRepo \<Rightarrow> cluster \<Rightarrow> Info \<Rightarrow> ListOrgsMessage \<Rightarrow> error + OrgRecord list" where
  "ListOrgs_CFOrg r c info flt =
     (case List_cfOrgs c Privileged (Some (rootNamespace r)) of
        Inl err \<Rightarrow> Inl (FromK8sError err OrgResourceType)
      | Inr items \<Rightarrow>
          (let records = map cfOrgToOrgRecord
                 (filter (\<lambda>cfOrg. IsStatusConditionTrue (cforg_Conditions cfOrg) ''Ready''
                            \<and> matchesFilter (cforg_Name cfOrg) (ListOrgsMessage.GUIDs flt)
                            \<and> matchesFilter (cforg_SpecName cfOrg) (ListOrgsMessage.Names flt)) items)
           in case GetAuthorizedOrgNamespaces c info of
                Inl err \<Rightarrow> Inl err
              | Inr authorizedNamespaces \<Rightarrow>
                  Inr (filter (\<lambda>org. index_bool authorizedNamespaces (OrgRecord.GUID org))
                         records)))"

definition GetOrg_CFOrg :: "OrgRepo \<Rightarrow> cluster \<Rightarrow> Info \<Rightarrow> string \<Rightarrow> error + OrgRecord" where
  "GetOrg_CFOrg r c info orgGUID =
     (case ListOrgs_CFOrg r c info \<lparr> ListOrgsMessage.Names = [], GUIDs = [orgGUID] \<rparr> of
        Inl err \<Rightarrow> Inl err
      | Inr orgRecords \<Rightarrow>
          (case orgRecords of
             [] \<Rightarrow> Inl (NotFoundError None OrgResourceType)
           | rec # rest \<Rightarrow> Inr rec))"

text \<open>The loop over \<open>watch.ResultChan()\<close> of \<open>createOrgCR\<close>.\<close>

fun awaitConditionReady :: "watch_object list \<Rightarrow> CFOrg option" where
  "awaitConditionReady [] = None"
| "awaitConditionReady (CFOrgObject createdOrg # events) =
     (if IsStatusConditionTrue (cforg_Conditions createdOrg) ''Ready'' then Some createdOrg
      else awaitConditionReady events)"
| "awaitConditionReady (obj # events) = awaitConditionReady events"

text \<open>The polling loop of \<open>createOrgCR\<close> asks for the organization namespaces only; it is
  the loop of \<open>createSubnamespaceAnchor\<close> at the resource type Org.\<close>

definition createOrgCR ::
  "OrgRepo \<Rightarrow> cluster \<Rightarrow> Info \<Rightarrow> client \<Rightarrow> CFOrg \<Rightarrow> (error + CFOrg) \<times> cluster" where
  "createOrgCR r c info userClient org =
     (case Create_cfOrg c userClient org of
        (Some err, c1) \<Rightarrow>
          (Inl (Errorf ''failed to create cf org: %w'' [] (Some (FromK8sError err OrgResourceType))), c1)
      | (None, c1) \<Rightarrow>
          (case Watch c1 Privileged KCFOrg (cforg_Namespace org) (cforg_Name org) of
             Inl err \<Rightarrow>
               (Inl (Errorf ''failed to set up watch on cf org: %w'' []
                       (Some (FromK8sError err OrgResourceType))), c1)
           | Inr events \<Rightarrow>
               (case awaitConditionReady events of
                  None \<Rightarrow>
                    (Inl (Errorf ''cf org did not get Condition `Ready`: 'True' within timeout period %d ms''
                            [IntArg (int (timeout r))] None), c1)
                | Some createdOrg \<Rightarrow>
                    (case awaitPermissions r info OrgResourceType (cforg_Name org) (clock c1) c1 of
                       (Some err, c2) \<Rightarrow> (Inl err, c2)
                     | (None, c2) \<Rightarrow> (Inr createdOrg, c2)))))"

definition CreateSpace_CFOrg ::
  "OrgRepo \<Rightarrow> cluster \<Rightarrow> Info \<Rightarrow> CreateSpaceMessage \<Rightarrow> string
     \<Rightarrow> (error + SpaceRecord) \<times> cluster" where
  "CreateSpace_CFOrg r c info message uuid =
     (case GetOrg_CFOrg r c info (CreateSpaceMessage.OrganizationGUID message) of
        Inl err \<Rightarrow> (Inl (Errorf ''failed to get parent organization: %w'' [] (Some err)), c)
      | Inr org \<Rightarrow>
          (let spaceGUID = SpacePrefix @ uuid in
           case BuildClient c info of
             Inl err \<Rightarrow> (Inl (Errorf ''failed to build user client: %w'' [] (Some err)), c)
           | Inr userClient \<Rightarrow>
               (case createSubnamespaceAnchor r c info userClient
                       \<lparr> anchor_Name = spaceGUID,
                         anchor_Namespace = CreateSpaceMessage.OrganizationGUID message,
                         anchor_Labels = [(SpaceNameLabel, CreateSpaceMessage.Name message)],
                         anchor_CreationTimestamp = 0,
                         anchor_State = Pending \<rparr>
                       SpaceResourceType of
                  (Inl err, c1) \<Rightarrow>
                    (case WebhookErrorToValidationError err of
                       Some webhookError \<Rightarrow> (Inl (UnprocessableEntityError err webhookError), c1)
                     | None \<Rightarrow> (Inl err, c1))
                | (Inr anchor, c1) \<Rightarrow>
                    (case Create_serviceAccount c1 Privileged
                            \<lparr> sa_Name = ''kpack-service-account'',
                              sa_Namespace = spaceGUID,
                              sa_ImagePullSecrets = [ImageRegistryCredentials message],
                              sa_Secrets = [ImageRegistryCredentials message] \<rparr> of
                       (Some err, c2) \<Rightarrow> (Inl (FromK8sError err SpaceResourceType), c2)
                     | (None, c2) \<Rightarrow>
                         (case Create_serviceAccount c2 Privileged
                                 \<lparr> sa_Name = ''eirini'',
                                   sa_Namespace = spaceGUID,
                                   sa_ImagePullSecrets = [],
                                   sa_Secrets = [] \<rparr> of
                            (Some err, c3) \<Rightarrow> (Inl (FromK8sError err SpaceResourceType), c3)
                          | (None, c3) \<Rightarrow>
                              (Inr \<lparr> SpaceRecord.Name = CreateSpaceMessage.Name message,
                                     GUID = anchor_Name anchor,
                                     OrganizationGUID = CreateSpaceMessage.OrganizationGUID message,
                                     Labels = [],
                                     Annotations = [],
                                     CreatedAt = anchor_CreationTimestamp anchor,
                                     UpdatedAt = anchor_CreationTimestamp anchor \<rparr>, c3))))))"


section \<open>The service binding repository (service\_binding\_repository.go)\<close>

definition ServiceBindingResourceType :: string where
  "ServiceBindingResourceType = ''Service Binding''"

definition ServiceBindingTypeApp :: string where
  "ServiceBindingTypeApp = ''app''"

record ServiceBindingLastOperation =
  Type :: string
  State :: string
  Description :: "string option"
  CreatedAt :: nat
  UpdatedAt :: "nat option"

text \<open>
  Timestamps are kept as time values: their rendering (\<open>TimestampFormat\<close>,
  \<open>getTimeLastUpdatedTimestamp\<close>) is not under src/. \<open>binding_UpdatedTimestamp\<close> is the
  time \<open>getTimeLastUpdatedTimestamp\<close> reads from the object's metadata, \<open>None\<close> when it
  finds none (its error is dropped by the caller).
\<close>

record ServiceBindingRecord =
  GUID :: string
  Type :: string
  Name :: "string option"
  AppGUID :: string
  ServiceInstanceGUID :: string
  SpaceGUID :: string
  CreatedAt :: nat
  UpdatedAt :: "nat option"
  LastOperation :: ServiceBindingLastOperation

record ListServiceBindingsMessage =
  AppGUIDs :: "string list"
  ServiceInstanceGUIDs :: "string list"

definition List_bindings :: "cluster \<Rightarrow> client \<Rightarrow> string \<Rightarrow> error + CFServiceBinding list" where
  "List_bindings c cl ns =
     (case faults c cl VList KCFServiceBinding ns [] of
        Some k \<Rightarrow> Inl (StatusError k)
      | None \<Rightarrow>
          Inr (filter (\<lambda>b. in_namespace (Some ns) (binding_Namespace b)) (cfServiceBindings c)))"

definition Get_binding :: "cluster \<Rightarrow> client \<Rightarrow> string \<Rightarrow> string \<Rightarrow> error + CFServiceBinding" where
  "Get_binding c cl ns nm =
     (case faults c cl VGet KCFServiceBinding ns nm of
        Some k \<Rightarrow> Inl (StatusError k)
      | None \<Rightarrow>
          (case find (\<lambda>b. binding_Namespace b = ns \<and> binding_Name b = nm) (cfServiceBindings c) of
             None \<Rightarrow> Inl (StatusError K8sNotFound)
           | Some b \<Rightarrow> Inr b))"

definition Delete_binding ::
  "cluster \<Rightarrow> client \<Rightarrow> CFServiceBinding \<Rightarrow> error option \<times> cluster" where
  "Delete_binding c cl binding =
     (case faults c cl VDelete KCFServiceBinding (binding_Namespace binding) (binding_Name binding) of
        Some k \<Rightarrow> (Some (StatusError k), c)
      | None \<Rightarrow>
          if list_ex (\<lambda>b. binding_Namespace b = binding_Namespace binding
                          \<and> binding_Name b = binding_Name binding) (cfServiceBindings c)
          then (None, c\<lparr> cfServiceBindings :=
                           filter (\<lambda>b. \<not> (binding_Namespace b = binding_Namespace binding
                                           \<and> binding_Name b = binding_Name binding))
                             (cfServiceBindings c) \<rparr>)
          else (Some (StatusError K8sNotFound), c))"

definition DeleteServiceBinding ::
  "cluster \<Rightarrow> Info \<Rightarrow> string \<Rightarrow> error option \<times> cluster" where
  "DeleteServiceBinding c authInfo guid =
     (case BuildClient c authInfo of
        Inl err \<Rightarrow> (Some (Errorf ''failed to build user client: %w'' [] (Some err)), c)
      | Inr userClient \<Rightarrow>
          (case namespaceFor c guid ServiceBindingResourceType of
             Inl err \<Rightarrow> (Some err, c)
           | Inr namespace \<Rightarrow>
               (case Get_binding c userClient namespace guid of
                  Inl err \<Rightarrow>
                    (Some (ForbiddenAsNotFound (FromK8sError err ServiceBindingResourceType)), c)
                | Inr binding \<Rightarrow>
                    (case Delete_binding c userClient binding of
                       (Some err, c1) \<Rightarrow> (Some (FromK8sError err ServiceBindingResourceType), c1)
                     | (None, c1) \<Rightarrow> (None, c1)))))"

text \<open>The scan of \<open>ServiceBindingExists\<close>, which returns at the first match.\<close>

fun scanServiceBindings :: "CFServiceBinding list \<Rightarrow> string \<Rightarrow> string \<Rightarrow> bool" where
  "scanServiceBindings [] appGUID serviceInstanceGUID = False"
| "scanServiceBindings (serviceBinding # items) appGUID serviceInstanceGUID =
     (if binding_AppRefName serviceBinding = appGUID
         \<and> binding_ServiceName serviceBinding = serviceInstanceGUID
      then True
      else scanServiceBindings items appGUID serviceInstanceGUID)"

definition ServiceBindingExists ::
  "cluster \<Rightarrow> Info \<Rightarrow> string \<Rightarrow> string \<Rightarrow> string \<Rightarrow> error + bool" where
  "ServiceBindingExists c authInfo spaceGUID appGUID serviceInstanceGUID =
     (case BuildClient c authInfo of
        Inl err \<Rightarrow> Inl (Errorf ''failed to build user client: %w'' [] (Some err))
      | Inr userClient \<Rightarrow>
          (case List_bindings c userClient spaceGUID of
             Inl err \<Rightarrow> Inl (FromK8sError err ServiceBindingResourceType)
           | Inr items \<Rightarrow> Inr (scanServiceBindings items appGUID serviceInstanceGUID)))"

definition cfServiceBindingToRecord :: "CFServiceBinding \<Rightarrow> ServiceBindingRecord" where
  "cfServiceBindingToRecord binding =
     \<lparr> ServiceBindingRecord.GUID = binding_Name binding,
       Type = ServiceBindingTypeApp,
       Name = binding_SpecName binding,
       AppGUID = binding_AppRefName binding,
       ServiceInstanceGUID = binding_ServiceName binding,
       SpaceGUID = binding_Namespace binding,
       CreatedAt = binding_CreationTimestamp binding,
       UpdatedAt = binding_UpdatedTimestamp binding,
       LastOperation =
         \<lparr> ServiceBindingLastOperation.Type = ''create'',
           State = ''succeeded'',
           Description = None,
           CreatedAt = binding_CreationTimestamp binding,
           UpdatedAt = binding_UpdatedTimestamp binding \<rparr> \<rparr>"

fun applyServiceBindingListFilter ::
  "CFServiceBinding list \<Rightarrow> ListServiceBindingsMessage \<Rightarrow> CFServiceBinding list" where
  "applyServiceBindingListFilter [] message = []"
| "applyServiceBindingListFilter (serviceBinding # serviceBindingList) message =
     (if matchesFilter (binding_ServiceName serviceBinding) (ServiceInstanceGUIDs message)
         \<and> matchesFilter (binding_AppRefName serviceBinding) (AppGUIDs message)
      then serviceBinding # applyServiceBindingListFilter serviceBindingList message
      else applyServiceBindingListFilter serviceBindingList message)"

definition toServiceBindingRecords :: "CFServiceBinding list \<Rightarrow> ServiceBindingRecord list" where
  "toServiceBindingRecords serviceInstanceList = map cfServiceBindingToRecord serviceInstanceList"

text \<open>
  The loop of \<open>ListServiceBindings\<close> over the keys of \<open>nsList\<close>, in the order the
  \<open>range\<close> visits them; the accumulator is \<open>filteredServiceBindings\<close>.
\<close>

fun listNamespaces ::
  "cluster \<Rightarrow> client \<Rightarrow> ListServiceBindingsMessage \<Rightarrow> string list \<Rightarrow> CFServiceBinding list
     \<Rightarrow> error + CFServiceBinding list" where
  "listNamespaces c userClient message [] filteredServiceBindings = Inr filteredServiceBindings"
| "listNamespaces c userClient message (ns # rest) filteredServiceBindings =
     (case List_bindings c userClient ns of
        Inl err \<Rightarrow>
          if IsForbidden err then listNamespaces c userClient message rest filteredServiceBindings
          else Inl (Errorf ''failed to list service instances in namespace %s: %w'' [StrArg ns]
                      (Some (FromK8sError err ServiceBindingResourceType)))
      | Inr items \<Rightarrow>
          listNamespaces c userClient message rest
            (filteredServiceBindings @ applyServiceBindingListFilter items message))"

definition ListServiceBindings ::
  "cluster \<Rightarrow> Info \<Rightarrow> ListServiceBindingsMessage \<Rightarrow> error + ServiceBindingRecord list" where
  "ListServiceBindings c authInfo message =
     (case GetAuthorizedSpaceNamespaces c authInfo of
        Inl err \<Rightarrow>
          Inl (Errorf ''failed to list namespaces for spaces with user role bindings: %w'' []
                 (Some err))
      | Inr nsList \<Rightarrow>
          (case BuildClient c authInfo of
             Inl err \<Rightarrow> Inl (Errorf ''failed to build user client: %w'' [] (Some err))
           | Inr userClient \<Rightarrow>
               (case listNamespaces c userClient message (map fst nsList) [] of
                  Inl err \<Rightarrow> Inl err
                | Inr filteredServiceBindings \<Rightarrow>
                    Inr (toServiceBindingRecords filteredServiceBindings))))"


section \<open>A label selector on the organization name, as a predicate\<close>

text \<open>What the selector \<open>OrgNameLabel in (names)\<close> built by \<open>ListOrgs\<close> lets through;
  no selector is built for an empty list of names.\<close>

definition names_selected :: "string list \<Rightarrow> SubnamespaceAnchor \<Rightarrow> bool" where
  "names_selected names a =
     (names = [] \<or> (case map_of (anchor_Labels a) OrgNameLabel of None \<Rightarrow> False | Some v \<Rightarrow> v \<in> set names))"

section \<open>The bindings of one namespace in a listing\<close>

text \<open>What one namespace contributes to the result when listing it is not an error of the call.\<close>

definition namespace_results ::
  "cluster \<Rightarrow> client \<Rightarrow> ListServiceBindingsMessage \<Rightarrow> string \<Rightarrow> CFServiceBinding list" where
  "namespace_results c cl message ns =
     (if faults c cl VList KCFServiceBinding ns [] = Some K8sForbidden then []
      else filter (\<lambda>b. in_namespace (Some ns) (binding_Namespace b)
                      \<and> matchesFilter (binding_ServiceName b) (ServiceInstanceGUIDs message)
                      \<and> matchesFilter (binding_AppRefName b) (AppGUIDs message))
             (cfServiceBindings c))"

section \<open>An example cluster\<close>

text \<open>
  Three organization anchors under the root namespace \<open>cf\<close> (two converged, one
  pending), a converged space under the pending organization, two ready CFOrgs and two
  service bindings. Caller \<open>alice\<close> sees \<open>cf-org-1\<close> and \<open>cf-space-1\<close> and
  has an entry for \<open>cf-org-3\<close> that is mapped to false; caller \<open>bob\<close> sees nothing
  and is forbidden from service bindings; caller \<open>carol\<close> sees the spaces
  \<open>cf-space-2\<close> and \<open>cf-space-1\<close> and is forbidden from the service bindings of
  \<open>cf-space-2\<close>; caller \<open>dave\<close> has \<open>cf-space-1\<close> mapped to false; caller
  \<open>erin\<close> gets an entry for \<open>cf-org-9\<close>, mapped to false, from the clock time 500 on.
\<close>

definition example_repo :: OrgRepo where
  "example_repo = \<lparr> rootNamespace = ''cf'', timeout = 1000 \<rparr>"

definition example_anchors :: "SubnamespaceAnchor list" where
  "example_anchors =
     [ \<lparr> anchor_Name = ''cf-org-1'', anchor_Namespace = ''cf'',
         anchor_Labels = [(''cloudfoundry.org/org-name'', ''acme'')],
         anchor_CreationTimestamp = 5, anchor_State = Ok \<rparr>,
       \<lparr> anchor_Name = ''cf-org-2'', anchor_Namespace = ''cf'',
         anchor_Labels = [(''cloudfoundry.org/org-name'', ''beta'')],
         anchor_CreationTimestamp = 6, anchor_State = Pending \<rparr>,
       \<lparr> anchor_Name = ''cf-space-1'', anchor_Namespace = ''cf-org-2'',
         anchor_Labels = [(''cloudfoundry.org/space-name'', ''dev'')],
         anchor_CreationTimestamp = 7, anchor_State = Ok \<rparr>,
       \<lparr> anchor_Name = ''cf-org-3'', anchor_Namespace = ''cf'',
         anchor_Labels = [(''cloudfoundry.org/org-name'', ''gamma'')],
         anchor_CreationTimestamp = 8, anchor_State = Ok \<rparr> ]"

definition example_cfOrgs :: "CFOrg list" where
  "example_cfOrgs =
     [ \<lparr> cforg_Name = ''cf-org-1'', cforg_Namespace = ''cf'', cforg_CreationTimestamp = 5,
         cforg_SpecName = ''acme'',
         cforg_Conditions = [\<lparr> cond_Type = ''Ready'', cond_Status = ConditionTrue \<rparr>] \<rparr>,
       \<lparr> cforg_Name = ''cf-org-3'', cforg_Namespace = ''cf'', cforg_CreationTimestamp = 8,
         cforg_SpecName = ''gamma'',
         cforg_Conditions = [\<lparr> cond_Type = ''Ready'', cond_Status = ConditionTrue \<rparr>] \<rparr> ]"

definition example_bindings :: "CFServiceBinding list" where
  "example_bindings =
     [ \<lparr> binding_Name = ''binding-1'', binding_Namespace = ''cf-space-1'', binding_Labels = [],
         binding_CreationTimestamp = 8, binding_UpdatedTimestamp = None, binding_SpecName = None,
         binding_ServiceName = ''instance-1'', binding_AppRefName = ''app-1'' \<rparr>,
       \<lparr> binding_Name = ''binding-2'', binding_Namespace = ''cf-space-1'', binding_Labels = [],
         binding_CreationTimestamp = 9, binding_UpdatedTimestamp = None, binding_SpecName = None,
         binding_ServiceName = ''instance-2'', binding_AppRefName = ''app-2'' \<rparr> ]"

definition example_cluster :: cluster where
  "example_cluster =
     \<lparr> anchors = example_anchors,
       cfOrgs = example_cfOrgs,
       hierarchyConfigurations = [],
       serviceAccounts = [],
       cfServiceBindings = example_bindings,
       clock = 0,
       faults = (\<lambda>cl v k ns nm.
          if k = KCFServiceBinding
             \<and> (cl = User ''bob'' \<or> (cl = User ''carol'' \<and> ns = ''cf-space-2''))
          then Some K8sForbidden else None),
       watchEvents = (\<lambda>k ns nm.
          if nm = ''cf-space-slow'' then
            [OtherObject,
             AnchorObject \<lparr> anchor_Name = nm, anchor_Namespace = ns, anchor_Labels = [],
                            anchor_CreationTimestamp = 0, anchor_State = Pending \<rparr>]
          else if nm = ''cf-org-slow'' then
            [CFOrgObject \<lparr> cforg_Name = nm, cforg_Namespace = ns, cforg_CreationTimestamp = 0,
                           cforg_SpecName = ''slow'', cforg_Conditions = [] \<rparr>]
          else
            [AnchorObject \<lparr> anchor_Name = nm, anchor_Namespace = ns, anchor_Labels = [],
                            anchor_CreationTimestamp = 0, anchor_State = Ok \<rparr>,
             CFOrgObject \<lparr> cforg_Name = nm, cforg_Namespace = ns, cforg_CreationTimestamp = 0,
                           cforg_SpecName = ''new'',
                           cforg_Conditions = [\<lparr> cond_Type = ''Ready'', cond_Status = ConditionTrue \<rparr>] \<rparr>]),
       authorizedOrgNamespaces = (\<lambda>t info.
          if info = ''alice'' then Inr [(''cf-org-1'', True), (''cf-org-3'', False)]
          else if info = ''erin'' then (if t < 500 then Inr [] else Inr [(''cf-org-9'', False)])
          else Inr []),
       authorizedSpaceNamespaces = (\<lambda>t info.
          if info = ''alice'' then Inr [(''cf-space-1'', True)]
          else if info = ''carol'' then Inr [(''cf-space-2'', True), (''cf-space-1'', True)]
          else if info = ''dave'' then Inr [(''cf-space-1'', False)]
          else Inr []),
       buildClientFailure = (\<lambda>info. None),
       namespaceFor = (\<lambda>guid resourceType. Inr ''cf-space-1'') \<rparr>"

text \<open>Anchors and organizations to be created in the example cluster: for the names
  ending in \<open>slow\<close> the watch never shows a converged object; the others converge, and
  no caller is ever granted their namespaces.\<close>

definition example_slow_anchor :: SubnamespaceAnchor where
  "example_slow_anchor =
     \<lparr> anchor_Name = ''cf-space-slow'', anchor_Namespace = ''cf-org-1'',
       anchor_Labels = [(''cloudfoundry.org/space-name'', ''slow'')],
       anchor_CreationTimestamp = 0, anchor_State = Pending \<rparr>"

definition example_new_anchor :: SubnamespaceAnchor where
  "example_new_anchor =
     \<lparr> anchor_Name = ''cf-space-new'', anchor_Namespace = ''cf-org-1'',
       anchor_Labels = [(''cloudfoundry.org/space-name'', ''new'')],
       anchor_CreationTimestamp = 0, anchor_State = Pending \<rparr>"

definition example_slow_org :: CFOrg where
  "example_slow_org =
     \<lparr> cforg_Name = ''cf-org-slow'', cforg_Namespace = ''cf'', cforg_CreationTimestamp = 0,
       cforg_SpecName = ''slow'', cforg_Conditions = [] \<rparr>"

definition example_new_org :: CFOrg where
  "example_new_org =
     \<lparr> cforg_Name = ''cf-org-new'', cforg_Namespace = ''cf'', cforg_CreationTimestamp = 0,
       cforg_SpecName = ''new'', cforg_Conditions = [] \<rparr>"

lemmas example_defs = example_repo_def example_cluster_def example_anchors_def
  example_cfOrgs_def example_bindings_def

section \<open>Filters and listing\<close>

lemma fold_insert_set: "fold (\<lambda>element result. insert element result) xs A = set xs \<union> A"
  by (induction xs arbitrary: A) auto

lemma toMap_set: "toMap elements = set elements"
  by (simp add: toMap_def fold_insert_set)

lemma matchFilter_toMap: "matchFilter (toMap xs) v = (xs = [] \<or> v \<in> set xs)"
  by (auto simp: matchFilter_def toMap_set)

lemma matchesFilter_iff: "matchesFilter v xs = (xs = [] \<or> v \<in> set xs)"
  by (auto simp: matchesFilter_def)

lemma GUID_anchorToOrgRecord: "OrgRecord.GUID (anchorToOrgRecord a) = anchor_Name a"
  by (simp add: anchorToOrgRecord_def)

lemma GUID_cfOrgToOrgRecord: "OrgRecord.GUID (cfOrgToOrgRecord a) = cforg_Name a"
  by (simp add: cfOrgToOrgRecord_def)

lemma index_bool_iff: "index_bool m k = (map_of m k = Some True)"
  by (auto simp: index_bool_def split: option.splits)

lemma ListOrgs_Inr:
  assumes "faults c Privileged VList KSubnamespaceAnchor (rootNamespace r) [] = None"
    and "GetAuthorizedOrgNamespaces c info = Inr auth"
    and "list_all IsValidLabelValue (ListOrgsMessage.Names flt)"
  shows "ListOrgs r c info flt =
     Inr (map anchorToOrgRecord
       (filter (\<lambda>a. (rootNamespace r = [] \<or> anchor_Namespace a = rootNamespace r)
                   \<and> names_selected (ListOrgsMessage.Names flt) a
                   \<and> anchor_State a = Ok
                   \<and> (ListOrgsMessage.GUIDs flt = [] \<or> anchor_Name a \<in> set (ListOrgsMessage.GUIDs flt))
                   \<and> index_bool auth (anchor_Name a)) (anchors c)))"
  using assms
  by (auto simp: ListOrgs_def NewRequirement_def List_anchors_def namespace_key_def in_namespace_def
      selects_def names_selected_def matchFilter_toMap filter_map comp_def GUID_anchorToOrgRecord
      intro!: filter_cong split: option.splits)

lemma ListOrgs_CFOrg_Inr:
  assumes "faults c Privileged VList KCFOrg (rootNamespace r) [] = None"
    and "GetAuthorizedOrgNamespaces c info = Inr auth"
  shows "ListOrgs_CFOrg r c info flt =
     Inr (map cfOrgToOrgRecord
       (filter (\<lambda>a. (rootNamespace r = [] \<or> cforg_Namespace a = rootNamespace r)
                   \<and> IsStatusConditionTrue (cforg_Conditions a) ''Ready''
                   \<and> (ListOrgsMessage.GUIDs flt = [] \<or> cforg_Name a \<in> set (ListOrgsMessage.GUIDs flt))
                   \<and> (ListOrgsMessage.Names flt = [] \<or> cforg_SpecName a \<in> set (ListOrgsMessage.Names flt))
                   \<and> index_bool auth (cforg_Name a)) (cfOrgs c)))"
  using assms
  by (auto simp: ListOrgs_CFOrg_def List_cfOrgs_def namespace_key_def in_namespace_def
      matchesFilter_iff filter_map comp_def GUID_cfOrgToOrgRecord
      intro!: filter_cong)

lemma ListOrgs_invalid_name:
  assumes "\<not> list_all IsValidLabelValue (ListOrgsMessage.Names flt)"
  shows "\<exists>err. ListOrgs r c info flt = Inl err"
proof -
  from assms have "ListOrgsMessage.Names flt \<noteq> []" by auto
  with assms show ?thesis
    by (simp add: ListOrgs_def NewRequirement_def)
qed

lemma GetOrg_anchor:
  assumes "faults c Privileged VList KSubnamespaceAnchor (rootNamespace r) [] = None"
    and "GetAuthorizedOrgNamespaces c info = Inr auth"
  shows "if (\<exists>a \<in> set (anchors c). (rootNamespace r = [] \<or> anchor_Namespace a = rootNamespace r)
               \<and> anchor_Name a = orgGUID \<and> anchor_State a = Ok)
            \<and> map_of auth orgGUID = Some True
         then \<exists>rec. GetOrg r c info orgGUID = Inr rec \<and> OrgRecord.GUID rec = orgGUID
         else GetOrg r c info orgGUID = Inl (NotFoundError None OrgResourceType)"
proof -
  let ?Q = "\<lambda>a. (rootNamespace r = [] \<or> anchor_Namespace a = rootNamespace r)
                   \<and> names_selected [] a
                   \<and> anchor_State a = Ok
                   \<and> ([orgGUID] = [] \<or> anchor_Name a \<in> set [orgGUID])
                   \<and> index_bool auth (anchor_Name a)"
  define xs where "xs = filter ?Q (anchors c)"
  have L: "ListOrgs r c info \<lparr> ListOrgsMessage.Names = [], GUIDs = [orgGUID] \<rparr>
             = Inr (map anchorToOrgRecord xs)"
    unfolding xs_def
    using ListOrgs_Inr [OF assms, of "\<lparr> ListOrgsMessage.Names = [], GUIDs = [orgGUID] \<rparr>"]
    by simp
  show ?thesis
  proof (cases xs)
    case Nil
    then have "\<forall>a \<in> set (anchors c). \<not> ?Q a"
      unfolding xs_def by (simp add: filter_empty_conv)
    then have "\<not> ((\<exists>a \<in> set (anchors c). (rootNamespace r = [] \<or> anchor_Namespace a = rootNamespace r)
               \<and> anchor_Name a = orgGUID \<and> anchor_State a = Ok)
            \<and> map_of auth orgGUID = Some True)"
      by (auto simp: names_selected_def index_bool_iff)
    moreover have "GetOrg r c info orgGUID = Inl (NotFoundError None OrgResourceType)"
      by (simp add: GetOrg_def L Nil)
    ultimately show ?thesis by simp
  next
    case (Cons a rest)
    then have "a \<in> set xs" by simp
    then have a: "a \<in> set (anchors c)" "?Q a" unfolding xs_def by auto
    have "GetOrg r c info orgGUID = Inr (anchorToOrgRecord a)"
      by (simp add: GetOrg_def L Cons)
    moreover have "OrgRecord.GUID (anchorToOrgRecord a) = orgGUID"
      using a by (simp add: GUID_anchorToOrgRecord)
    moreover have "(\<exists>a \<in> set (anchors c). (rootNamespace r = [] \<or> anchor_Namespace a = rootNamespace r)
               \<and> anchor_Name a = orgGUID \<and> anchor_State a = Ok)
            \<and> map_of auth orgGUID = Some True"
      using a by (auto simp: index_bool_iff)
    ultimately show ?thesis by simp
  qed
qed

lemma GetOrg_CFOrg_resource:
  assumes "faults c Privileged VList KCFOrg (rootNamespace r) [] = None"
    and "GetAuthorizedOrgNamespaces c info = Inr auth"
  shows "if (\<exists>org \<in> set (cfOrgs c). (rootNamespace r = [] \<or> cforg_Namespace org = rootNamespace r)
               \<and> cforg_Name org = orgGUID
               \<and> IsStatusConditionTrue (cforg_Conditions org) ''Ready'')
            \<and> map_of auth orgGUID = Some True
         then \<exists>rec. GetOrg_CFOrg r c info orgGUID = Inr rec \<and> OrgRecord.GUID rec = orgGUID
         else GetOrg_CFOrg r c info orgGUID = Inl (NotFoundError None OrgResourceType)"
proof -
  let ?Q = "\<lambda>a. (rootNamespace r = [] \<or> cforg_Namespace a = rootNamespace r)
                   \<and> IsStatusConditionTrue (cforg_Conditions a) ''Ready''
                   \<and> ([orgGUID] = [] \<or> cforg_Name a \<in> set [orgGUID])
                   \<and> (([]::string list) = [] \<or> cforg_SpecName a \<in> set [])
                   \<and> index_bool auth (cforg_Name a)"
  define xs where "xs = filter ?Q (cfOrgs c)"
  have L: "ListOrgs_CFOrg r c info \<lparr> ListOrgsMessage.Names = [], GUIDs = [orgGUID] \<rparr>
             = Inr (map cfOrgToOrgRecord xs)"
    unfolding xs_def
    using ListOrgs_CFOrg_Inr [OF assms, of "\<lparr> ListOrgsMessage.Names = [], GUIDs = [orgGUID] \<rparr>"]
    by simp
  show ?thesis
  proof (cases xs)
    case Nil
    then have "\<forall>a \<in> set (cfOrgs c). \<not> ?Q a"
      unfolding xs_def by (simp add: filter_empty_conv)
    then have "\<not> ((\<exists>org \<in> set (cfOrgs c). (rootNamespace r = [] \<or> cforg_Namespace org = rootNamespace r)
               \<and> cforg_Name org = orgGUID
               \<and> IsStatusConditionTrue (cforg_Conditions org) ''Ready'')
            \<and> map_of auth orgGUID = Some True)"
      by (auto simp: index_bool_iff)
    moreover have "GetOrg_CFOrg r c info orgGUID = Inl (NotFoundError None OrgResourceType)"
      by (simp add: GetOrg_CFOrg_def L Nil)
    ultimately show ?thesis by simp
  next
    case (Cons a rest)
    then have "a \<in> set xs" by simp
    then have a: "a \<in> set (cfOrgs c)" "?Q a" unfolding xs_def by auto
    have "GetOrg_CFOrg r c info orgGUID = Inr (cfOrgToOrgRecord a)"
      by (simp add: GetOrg_CFOrg_def L Cons)
    moreover have "OrgRecord.GUID (cfOrgToOrgRecord a) = orgGUID"
      using a by (simp add: GUID_cfOrgToOrgRecord)
    moreover have "(\<exists>org \<in> set (cfOrgs c). (rootNamespace r = [] \<or> cforg_Namespace org = rootNamespace r)
               \<and> cforg_Name org = orgGUID
               \<and> IsStatusConditionTrue (cforg_Conditions org) ''Ready'')
            \<and> map_of auth orgGUID = Some True"
      using a by (auto simp: index_bool_iff)
    ultimately show ?thesis by simp
  qed
qed

lemma subseq_imp_set_subset: "subseq xs ys \<Longrightarrow> set xs \<subseteq> set ys"
  by (auto dest: list_emb_set)

lemma ListOrgs_InrD:
  assumes "ListOrgs r c info flt = Inr rs"
  shows "faults c Privileged VList KSubnamespaceAnchor (rootNamespace r) [] = None
       \<and> (\<exists>auth. GetAuthorizedOrgNamespaces c info = Inr auth)
       \<and> list_all IsValidLabelValue (ListOrgsMessage.Names flt)"
  using assms
  by (auto simp: ListOrgs_def NewRequirement_def List_anchors_def namespace_key_def Let_def
      split: if_splits sum.splits option.splits)

lemma ListOrgs_CFOrg_InrD:
  assumes "ListOrgs_CFOrg r c info flt = Inr rs"
  shows "faults c Privileged VList KCFOrg (rootNamespace r) [] = None
       \<and> (\<exists>auth. GetAuthorizedOrgNamespaces c info = Inr auth)"
  using assms
  by (auto simp: ListOrgs_CFOrg_def List_cfOrgs_def namespace_key_def Let_def
      split: if_splits sum.splits option.splits)

lemma subseq_map_filter:
  assumes "\<And>x. P x \<Longrightarrow> Q x"
  shows "subseq (map f (filter P xs)) (map f (filter Q xs))"
proof -
  have "filter P xs = filter P (filter Q xs)"
    using assms by (auto intro: filter_cong)
  then have "subseq (filter P xs) (filter Q xs)"
    by (metis subseq_filter_left)
  then show ?thesis by (rule subseq_map)
qed

lemma names_selected_Name:
  "names_selected names a \<Longrightarrow> names = [] \<or> OrgRecord.Name (anchorToOrgRecord a) \<in> set names"
  by (auto simp: names_selected_def anchorToOrgRecord_def index_string_def split: option.splits)

lemma names_selected_iff:
  "names_selected names a =
     (names = [] \<or> (\<exists>v. map_of (anchor_Labels a) OrgNameLabel = Some v \<and> v \<in> set names))"
  by (auto simp: names_selected_def split: option.splits)

text \<open>With a root namespace that is not the empty string, the list of \<open>ListOrgs\<close> is the
  list of that namespace.\<close>

lemma ListOrgs_exact:
  assumes "rootNamespace r \<noteq> []"
    and "faults c Privileged VList KSubnamespaceAnchor (rootNamespace r) [] = None"
    and "GetAuthorizedOrgNamespaces c info = Inr auth"
    and "list_all IsValidLabelValue (ListOrgsMessage.Names flt)"
  shows "ListOrgs r c info flt =
     Inr (map anchorToOrgRecord
       (filter (\<lambda>a. anchor_Namespace a = rootNamespace r
                   \<and> anchor_State a = Ok
                   \<and> names_selected (ListOrgsMessage.Names flt) a
                   \<and> (ListOrgsMessage.GUIDs flt = [] \<or> anchor_Name a \<in> set (ListOrgsMessage.GUIDs flt))
                   \<and> map_of auth (anchor_Name a) = Some True) (anchors c)))"
proof -
  have "filter (\<lambda>a. (rootNamespace r = [] \<or> anchor_Namespace a = rootNamespace r)
                   \<and> names_selected (ListOrgsMessage.Names flt) a
                   \<and> anchor_State a = Ok
                   \<and> (ListOrgsMessage.GUIDs flt = [] \<or> anchor_Name a \<in> set (ListOrgsMessage.GUIDs flt))
                   \<and> index_bool auth (anchor_Name a)) (anchors c)
      = filter (\<lambda>a. anchor_Namespace a = rootNamespace r
                   \<and> anchor_State a = Ok
                   \<and> names_selected (ListOrgsMessage.Names flt) a
                   \<and> (ListOrgsMessage.GUIDs flt = [] \<or> anchor_Name a \<in> set (ListOrgsMessage.GUIDs flt))
                   \<and> map_of auth (anchor_Name a) = Some True) (anchors c)"
    using assms(1) by (intro filter_cong) (auto simp: index_bool_iff)
  with ListOrgs_Inr [OF assms(2,3,4)] show ?thesis by simp
qed

lemma ListOrgs_CFOrg_exact:
  assumes "rootNamespace r \<noteq> []"
    and "faults c Privileged VList KCFOrg (rootNamespace r) [] = None"
    and "GetAuthorizedOrgNamespaces c info = Inr auth"
  shows "ListOrgs_CFOrg r c info flt =
     Inr (map cfOrgToOrgRecord
       (filter (\<lambda>org. cforg_Namespace org = rootNamespace r
                   \<and> IsStatusConditionTrue (cforg_Conditions org) ''Ready''
                   \<and> (ListOrgsMessage.Names flt = [] \<or> cforg_SpecName org \<in> set (ListOrgsMessage.Names flt))
                   \<and> (ListOrgsMessage.GUIDs flt = [] \<or> cforg_Name org \<in> set (ListOrgsMessage.GUIDs flt))
                   \<and> map_of auth (cforg_Name org) = Some True) (cfOrgs c)))"
proof -
  have "filter (\<lambda>a. (rootNamespace r = [] \<or> cforg_Namespace a = rootNamespace r)
                   \<and> IsStatusConditionTrue (cforg_Conditions a) ''Ready''
                   \<and> (ListOrgsMessage.GUIDs flt = [] \<or> cforg_Name a \<in> set (ListOrgsMessage.GUIDs flt))
                   \<and> (ListOrgsMessage.Names flt = [] \<or> cforg_SpecName a \<in> set (ListOrgsMessage.Names flt))
                   \<and> index_bool auth (cforg_Name a)) (cfOrgs c)
      = filter (\<lambda>org. cforg_Namespace org = rootNamespace r
                   \<and> IsStatusConditionTrue (cforg_Conditions org) ''Ready''
                   \<and> (ListOrgsMessage.Names flt = [] \<or> cforg_SpecName org \<in> set (ListOrgsMessage.Names flt))
                   \<and> (ListOrgsMessage.GUIDs flt = [] \<or> cforg_Name org \<in> set (ListOrgsMessage.GUIDs flt))
                   \<and> map_of auth (cforg_Name org) = Some True) (cfOrgs c)"
    using assms(1) by (intro filter_cong) (auto simp: index_bool_iff)
  with ListOrgs_CFOrg_Inr [OF assms(2,3)] show ?thesis by simp
qed

lemma ListOrgs_subset:
  assumes "rootNamespace r \<noteq> []" and "ListOrgs r c info flt = Inr rs"
  shows "\<exists>all. ListOrgs r c info \<lparr> ListOrgsMessage.Names = [], GUIDs = [] \<rparr> = Inr all
          \<and> subseq rs all \<and> set rs \<subseteq> set all
          \<and> (\<forall>rec \<in> set rs. \<exists>a \<in> set (anchors c).
                anchor_Namespace a = rootNamespace r \<and> anchor_State a = Ok
                \<and> rec = anchorToOrgRecord a)"
proof -
  from ListOrgs_InrD [OF assms(2)] obtain auth where
    f: "faults c Privileged VList KSubnamespaceAnchor (rootNamespace r) [] = None"
    and a: "GetAuthorizedOrgNamespaces c info = Inr auth"
    and v: "list_all IsValidLabelValue (ListOrgsMessage.Names flt)"
    by blast
  let ?P = "\<lambda>a. anchor_Namespace a = rootNamespace r
                   \<and> anchor_State a = Ok
                   \<and> names_selected (ListOrgsMessage.Names flt) a
                   \<and> (ListOrgsMessage.GUIDs flt = [] \<or> anchor_Name a \<in> set (ListOrgsMessage.GUIDs flt))
                   \<and> map_of auth (anchor_Name a) = Some True"
  let ?Q = "\<lambda>a. anchor_Namespace a = rootNamespace r \<and> anchor_State a = Ok
                   \<and> map_of auth (anchor_Name a) = Some True"
  have rs: "rs = map anchorToOrgRecord (filter ?P (anchors c))"
    using ListOrgs_exact [OF assms(1) f a v] assms(2) by simp
  have all: "ListOrgs r c info \<lparr> ListOrgsMessage.Names = [], GUIDs = [] \<rparr>
              = Inr (map anchorToOrgRecord (filter ?Q (anchors c)))"
    using ListOrgs_exact [OF assms(1) f a, of "\<lparr> ListOrgsMessage.Names = [], GUIDs = [] \<rparr>"]
    by (simp add: names_selected_def)
  have sub: "subseq rs (map anchorToOrgRecord (filter ?Q (anchors c)))"
    unfolding rs by (rule subseq_map_filter) simp
  have each: "\<forall>rec \<in> set rs. \<exists>a \<in> set (anchors c).
                anchor_Namespace a = rootNamespace r \<and> anchor_State a = Ok
                \<and> rec = anchorToOrgRecord a"
    unfolding rs by auto
  from all sub subseq_imp_set_subset [OF sub] each show ?thesis by blast
qed

lemma ListOrgs_CFOrg_subset:
  assumes "rootNamespace r \<noteq> []" and "ListOrgs_CFOrg r c info flt = Inr rs"
  shows "\<exists>all. ListOrgs_CFOrg r c info \<lparr> ListOrgsMessage.Names = [], GUIDs = [] \<rparr> = Inr all
          \<and> subseq rs all \<and> set rs \<subseteq> set all
          \<and> (\<forall>rec \<in> set rs. \<exists>org \<in> set (cfOrgs c).
                cforg_Namespace org = rootNamespace r
                \<and> IsStatusConditionTrue (cforg_Conditions org) ''Ready''
                \<and> rec = cfOrgToOrgRecord org)"
proof -
  from ListOrgs_CFOrg_InrD [OF assms(2)] obtain auth where
    f: "faults c Privileged VList KCFOrg (rootNamespace r) [] = None"
    and a: "GetAuthorizedOrgNamespaces c info = Inr auth"
    by blast
  let ?P = "\<lambda>org. cforg_Namespace org = rootNamespace r
                   \<and> IsStatusConditionTrue (cforg_Conditions org) ''Ready''
                   \<and> (ListOrgsMessage.Names flt = [] \<or> cforg_SpecName org \<in> set (ListOrgsMessage.Names flt))
                   \<and> (ListOrgsMessage.GUIDs flt = [] \<or> cforg_Name org \<in> set (ListOrgsMessage.GUIDs flt))
                   \<and> map_of auth (cforg_Name org) = Some True"
  let ?Q = "\<lambda>org. cforg_Namespace org = rootNamespace r
                   \<and> IsStatusConditionTrue (cforg_Conditions org) ''Ready''
                   \<and> map_of auth (cforg_Name org) = Some True"
  have rs: "rs = map cfOrgToOrgRecord (filter ?P (cfOrgs c))"
    using ListOrgs_CFOrg_exact [OF assms(1) f a] assms(2) by simp
  have all: "ListOrgs_CFOrg r c info \<lparr> ListOrgsMessage.Names = [], GUIDs = [] \<rparr>
              = Inr (map cfOrgToOrgRecord (filter ?Q (cfOrgs c)))"
    using ListOrgs_CFOrg_exact [OF assms(1) f a, of "\<lparr> ListOrgsMessage.Names = [], GUIDs = [] \<rparr>"]
    by simp
  have sub: "subseq rs (map cfOrgToOrgRecord (filter ?Q (cfOrgs c)))"
    unfolding rs by (rule subseq_map_filter) simp
  have each: "\<forall>rec \<in> set rs. \<exists>org \<in> set (cfOrgs c).
                cforg_Namespace org = rootNamespace r
                \<and> IsStatusConditionTrue (cforg_Conditions org) ''Ready''
                \<and> rec = cfOrgToOrgRecord org"
    unfolding rs by auto
  from all sub subseq_imp_set_subset [OF sub] each show ?thesis by blast
qed

lemmas eval_defs = GetOrg_def ListOrgs_def List_anchors_def
     namespace_key_def in_namespace_def selects_def toMap_def matchFilter_def
     GetAuthorizedOrgNamespaces_def index_bool_def index_string_def anchorToOrgRecord_def
     NewRequirement_def IsValidLabelValue_def alnum_def OrgNameLabel_def
     ListOrgs_CFOrg_def List_cfOrgs_def matchesFilter_def IsStatusConditionTrue_def cfOrgToOrgRecord_def

section \<open>Organization lookup and listing\<close>

text \<open>
  C1. With a root namespace that is not the empty string and the permission query
  succeeding: when the privileged list succeeds, \<open>GetOrg orgGUID\<close> returns a record
  (whose GUID is \<open>orgGUID\<close>) exactly when some organization-backing resource named
  \<open>orgGUID\<close> under the root namespace has converged (anchor state Ok in
  org\_repository.go, Ready condition true in the CFOrg-backed file) and \<open>orgGUID\<close> is
  mapped to true in the caller's authorized organization namespaces; in every other such
  case it returns the NotFound error of resource type Org. Each file is stated for its
  own list.
\<close>

theorem GetOrg_iff_converged_and_authorized:
  assumes "rootNamespace r \<noteq> []"
    and "GetAuthorizedOrgNamespaces c info = Inr auth"
  shows "(faults c Privileged VList KSubnamespaceAnchor (rootNamespace r) [] = None \<longrightarrow>
          (if (\<exists>a \<in> set (anchors c). anchor_Namespace a = rootNamespace r
                 \<and> anchor_Name a = orgGUID \<and> anchor_State a = Ok)
              \<and> map_of auth orgGUID = Some True
           then \<exists>rec. GetOrg r c info orgGUID = Inr rec \<and> OrgRecord.GUID rec = orgGUID
           else GetOrg r c info orgGUID = Inl (NotFoundError None OrgResourceType)))
       \<and> (faults c Privileged VList KCFOrg (rootNamespace r) [] = None \<longrightarrow>
          (if (\<exists>org \<in> set (cfOrgs c). cforg_Namespace org = rootNamespace r
                 \<and> cforg_Name org = orgGUID
                 \<and> IsStatusConditionTrue (cforg_Conditions org) ''Ready'')
              \<and> map_of auth orgGUID = Some True
           then \<exists>rec. GetOrg_CFOrg r c info orgGUID = Inr rec \<and> OrgRecord.GUID rec = orgGUID
           else GetOrg_CFOrg r c info orgGUID = Inl (NotFoundError None OrgResourceType)))"
proof (intro conjI impI)
  assume f: "faults c Privileged VList KSubnamespaceAnchor (rootNamespace r) [] = None"
  from GetOrg_anchor [OF f assms(2), of orgGUID] assms(1)
  show "if (\<exists>a \<in> set (anchors c). anchor_Namespace a = rootNamespace r
                 \<and> anchor_Name a = orgGUID \<and> anchor_State a = Ok)
              \<and> map_of auth orgGUID = Some True
           then \<exists>rec. GetOrg r c info orgGUID = Inr rec \<and> OrgRecord.GUID rec = orgGUID
           else GetOrg r c info orgGUID = Inl (NotFoundError None OrgResourceType)"
    by simp
next
  assume f: "faults c Privileged VList KCFOrg (rootNamespace r) [] = None"
  from GetOrg_CFOrg_resource [OF f assms(2), of orgGUID] assms(1)
  show "if (\<exists>org \<in> set (cfOrgs c). cforg_Namespace org = rootNamespace r
                 \<and> cforg_Name org = orgGUID
                 \<and> IsStatusConditionTrue (cforg_Conditions org) ''Ready'')
              \<and> map_of auth orgGUID = Some True
           then \<exists>rec. GetOrg_CFOrg r c info orgGUID = Inr rec \<and> OrgRecord.GUID rec = orgGUID
           else GetOrg_CFOrg r c info orgGUID = Inl (NotFoundError None OrgResourceType)"
    by simp
qed

theorem GetOrg_iff_converged_and_authorized_witness:
  "(\<exists>rec. GetOrg example_repo example_cluster ''alice'' ''cf-org-1'' = Inr rec
          \<and> OrgRecord.GUID rec = ''cf-org-1'')
   \<and> (\<exists>rec. GetOrg_CFOrg example_repo example_cluster ''alice'' ''cf-org-1'' = Inr rec
          \<and> OrgRecord.GUID rec = ''cf-org-1'')
   \<and> GetOrg example_repo example_cluster ''alice'' ''cf-org-2'' = Inl (NotFoundError None OrgResourceType)
   \<and> GetOrg example_repo example_cluster ''bob'' ''cf-org-1'' = Inl (NotFoundError None OrgResourceType)"
proof -
  have n: "rootNamespace example_repo \<noteq> []"
    by (simp add: example_repo_def)
  have f1: "faults example_cluster Privileged VList KSubnamespaceAnchor (rootNamespace example_repo) [] = None"
    by (simp add: example_cluster_def)
  have f2: "faults example_cluster Privileged VList KCFOrg (rootNamespace example_repo) [] = None"
    by (simp add: example_cluster_def)
  have a: "GetAuthorizedOrgNamespaces example_cluster ''alice''
             = Inr [(''cf-org-1'', True), (''cf-org-3'', False)]"
    by (simp add: GetAuthorizedOrgNamespaces_def example_cluster_def)
  have b: "GetAuthorizedOrgNamespaces example_cluster ''bob'' = Inr []"
    by (simp add: GetAuthorizedOrgNamespaces_def example_cluster_def)
  show ?thesis
    using GetOrg_iff_converged_and_authorized [OF n a, of "''cf-org-1''"]
      GetOrg_iff_converged_and_authorized [OF n a, of "''cf-org-2''"]
      GetOrg_iff_converged_and_authorized [OF n b, of "''cf-org-1''"]
      f1 f2
    by (simp add: example_defs IsStatusConditionTrue_def)
qed

text \<open>
  C2 (as amended). With a root namespace that is not the empty string and the permission
  query succeeding, \<open>ListOrgs\<close> returns the records of the backing resources under the
  root namespace that have converged (state Ok, Ready condition true for CFOrg
  resources), pass the filter and are mapped to true for the caller, in the order of the
  cluster. An empty filter component matches every value; a non-empty guid component is a
  membership test on the resource name, and in the CFOrg-backed file a non-empty names
  component is a membership test on the name of the specification. In org\_repository.go
  a non-empty names component is a label selector: it keeps the anchors that carry the
  organization-name label with one of the values, and the call fails when a value is not
  a label value. A successful \<open>ListOrgs\<close> is a subsequence (hence a subset) of what
  \<open>ListOrgs\<close> with the empty filter returns, and each of its records is that of a
  converged resource under the root namespace.
\<close>

theorem ListOrgs_filter_semantics:
  assumes "rootNamespace r \<noteq> []"
    and "GetAuthorizedOrgNamespaces c info = Inr auth"
  shows "(faults c Privileged VList KSubnamespaceAnchor (rootNamespace r) [] = None
            \<and> list_all IsValidLabelValue (ListOrgsMessage.Names flt) \<longrightarrow>
          ListOrgs r c info flt =
            Inr (map anchorToOrgRecord
              (filter (\<lambda>a. anchor_Namespace a = rootNamespace r
                          \<and> anchor_State a = Ok
                          \<and> names_selected (ListOrgsMessage.Names flt) a
                          \<and> (ListOrgsMessage.GUIDs flt = []
                               \<or> anchor_Name a \<in> set (ListOrgsMessage.GUIDs flt))
                          \<and> map_of auth (anchor_Name a) = Some True) (anchors c))))
       \<and> (\<not> list_all IsValidLabelValue (ListOrgsMessage.Names flt) \<longrightarrow>
            (\<exists>err. ListOrgs r c info flt = Inl err))
       \<and> (\<forall>a. names_selected [] a)
       \<and> (\<forall>(names :: string list) a. names \<noteq> [] \<longrightarrow>
            names_selected names a =
              (\<exists>v. map_of (anchor_Labels a) OrgNameLabel = Some v \<and> v \<in> set names))
       \<and> (faults c Privileged VList KCFOrg (rootNamespace r) [] = None \<longrightarrow>
          ListOrgs_CFOrg r c info flt =
            Inr (map cfOrgToOrgRecord
              (filter (\<lambda>org. cforg_Namespace org = rootNamespace r
                          \<and> IsStatusConditionTrue (cforg_Conditions org) ''Ready''
                          \<and> (ListOrgsMessage.Names flt = []
                               \<or> cforg_SpecName org \<in> set (ListOrgsMessage.Names flt))
                          \<and> (ListOrgsMessage.GUIDs flt = []
                               \<or> cforg_Name org \<in> set (ListOrgsMessage.GUIDs flt))
                          \<and> map_of auth (cforg_Name org) = Some True) (cfOrgs c))))
       \<and> (\<forall>rs. ListOrgs r c info flt = Inr rs \<longrightarrow>
            (\<exists>all. ListOrgs r c info \<lparr> ListOrgsMessage.Names = [], GUIDs = [] \<rparr> = Inr all
                \<and> subseq rs all \<and> set rs \<subseteq> set all
                \<and> (\<forall>rec \<in> set rs. \<exists>a \<in> set (anchors c).
                      anchor_Namespace a = rootNamespace r \<and> anchor_State a = Ok
                      \<and> rec = anchorToOrgRecord a)))
       \<and> (\<forall>rs. ListOrgs_CFOrg r c info flt = Inr rs \<longrightarrow>
            (\<exists>all. ListOrgs_CFOrg r c info \<lparr> ListOrgsMessage.Names = [], GUIDs = [] \<rparr> = Inr all
                \<and> subseq rs all \<and> set rs \<subseteq> set all
                \<and> (\<forall>rec \<in> set rs. \<exists>org \<in> set (cfOrgs c).
                      cforg_Namespace org = rootNamespace r
                      \<and> IsStatusConditionTrue (cforg_Conditions org) ''Ready''
                      \<and> rec = cfOrgToOrgRecord org)))"
proof (intro conjI impI allI)
  assume "faults c Privileged VList KSubnamespaceAnchor (rootNamespace r) [] = None
            \<and> list_all IsValidLabelValue (ListOrgsMessage.Names flt)"
  then show "ListOrgs r c info flt =
            Inr (map anchorToOrgRecord
              (filter (\<lambda>a. anchor_Namespace a = rootNamespace r
                          \<and> anchor_State a = Ok
                          \<and> names_selected (ListOrgsMessage.Names flt) a
                          \<and> (ListOrgsMessage.GUIDs flt = []
                               \<or> anchor_Name a \<in> set (ListOrgsMessage.GUIDs flt))
                          \<and> map_of auth (anchor_Name a) = Some True) (anchors c)))"
    using assms by (intro ListOrgs_exact) simp_all
next
  assume "\<not> list_all IsValidLabelValue (ListOrgsMessage.Names flt)"
  then show "\<exists>err. ListOrgs r c info flt = Inl err"
    by (rule ListOrgs_invalid_name)
next
  fix a show "names_selected [] a"
    by (simp add: names_selected_def)
next
  fix names :: "string list" and a assume "names \<noteq> []"
  then show "names_selected names a =
              (\<exists>v. map_of (anchor_Labels a) OrgNameLabel = Some v \<and> v \<in> set names)"
    by (simp add: names_selected_iff)
next
  assume "faults c Privileged VList KCFOrg (rootNamespace r) [] = None"
  then show "ListOrgs_CFOrg r c info flt =
            Inr (map cfOrgToOrgRecord
              (filter (\<lambda>org. cforg_Namespace org = rootNamespace r
                          \<and> IsStatusConditionTrue (cforg_Conditions org) ''Ready''
                          \<and> (ListOrgsMessage.Names flt = []
                               \<or> cforg_SpecName org \<in> set (ListOrgsMessage.Names flt))
                          \<and> (ListOrgsMessage.GUIDs flt = []
                               \<or> cforg_Name org \<in> set (ListOrgsMessage.GUIDs flt))
                          \<and> map_of auth (cforg_Name org) = Some True) (cfOrgs c)))"
    using assms by (intro ListOrgs_CFOrg_exact) simp_all
next
  fix rs assume "ListOrgs r c info flt = Inr rs"
  with assms(1) show "\<exists>all. ListOrgs r c info \<lparr> ListOrgsMessage.Names = [], GUIDs = [] \<rparr> = Inr all
                \<and> subseq rs all \<and> set rs \<subseteq> set all
                \<and> (\<forall>rec \<in> set rs. \<exists>a \<in> set (anchors c).
                      anchor_Namespace a = rootNamespace r \<and> anchor_State a = Ok
                      \<and> rec = anchorToOrgRecord a)"
    by (rule ListOrgs_subset)
next
  fix rs assume "ListOrgs_CFOrg r c info flt = Inr rs"
  with assms(1) show "\<exists>all. ListOrgs_CFOrg r c info \<lparr> ListOrgsMessage.Names = [], GUIDs = [] \<rparr> = Inr all
                \<and> subseq rs all \<and> set rs \<subseteq> set all
                \<and> (\<forall>rec \<in> set rs. \<exists>org \<in> set (cfOrgs c).
                      cforg_Namespace org = rootNamespace r
                      \<and> IsStatusConditionTrue (cforg_Conditions org) ''Ready''
                      \<and> rec = cfOrgToOrgRecord org)"
    by (rule ListOrgs_CFOrg_subset)
qed

theorem ListOrgs_filter_semantics_witness:
  "ListOrgs example_repo example_cluster ''alice''
      \<lparr> ListOrgsMessage.Names = [''acme''], GUIDs = [''cf-org-1''] \<rparr>
     = Inr [anchorToOrgRecord (example_anchors ! 0)]
   \<and> ListOrgs_CFOrg example_repo example_cluster ''alice''
      \<lparr> ListOrgsMessage.Names = [''acme''], GUIDs = [''cf-org-1''] \<rparr>
     = Inr [cfOrgToOrgRecord (example_cfOrgs ! 0)]
   \<and> (\<exists>err. ListOrgs example_repo example_cluster ''alice''
               \<lparr> ListOrgsMessage.Names = [''my org''], GUIDs = [] \<rparr> = Inl err)
   \<and> (\<exists>all. ListOrgs example_repo example_cluster ''alice''
               \<lparr> ListOrgsMessage.Names = [], GUIDs = [] \<rparr> = Inr all
            \<and> subseq [anchorToOrgRecord (example_anchors ! 0)] all)"
proof -
  let ?flt = "\<lparr> ListOrgsMessage.Names = [''acme''], GUIDs = [''cf-org-1''] \<rparr>"
  let ?bad = "\<lparr> ListOrgsMessage.Names = [''my org''], GUIDs = [] \<rparr>"
  let ?m = "[(''cf-org-1'', True), (''cf-org-3'', False)]"
  have n: "rootNamespace example_repo \<noteq> []"
    by (simp add: example_repo_def)
  have a: "GetAuthorizedOrgNamespaces example_cluster ''alice'' = Inr ?m"
    by (simp add: GetAuthorizedOrgNamespaces_def example_cluster_def)
  note T = ListOrgs_filter_semantics [OF n a, of ?flt]
  note B = ListOrgs_filter_semantics [OF n a, of ?bad]
  have h1: "faults example_cluster Privileged VList KSubnamespaceAnchor (rootNamespace example_repo) [] = None
            \<and> list_all IsValidLabelValue (ListOrgsMessage.Names ?flt)"
    by (simp add: example_cluster_def IsValidLabelValue_def alnum_def)
  have h2: "\<not> list_all IsValidLabelValue (ListOrgsMessage.Names ?bad)"
    by (simp add: IsValidLabelValue_def alnum_def)
  have h3: "faults example_cluster Privileged VList KCFOrg (rootNamespace example_repo) [] = None"
    by (simp add: example_cluster_def)
  have l1: "ListOrgs example_repo example_cluster ''alice'' ?flt
              = Inr [anchorToOrgRecord (example_anchors ! 0)]"
    using T [THEN conjunct1, THEN mp, OF h1]
    by (simp add: example_defs names_selected_def OrgNameLabel_def)
  have l2: "ListOrgs_CFOrg example_repo example_cluster ''alice'' ?flt
              = Inr [cfOrgToOrgRecord (example_cfOrgs ! 0)]"
    using T [THEN conjunct2, THEN conjunct2, THEN conjunct2, THEN conjunct2, THEN conjunct1,
             THEN mp, OF h3]
    by (simp add: example_defs IsStatusConditionTrue_def)
  note l3 = B [THEN conjunct2, THEN conjunct1, THEN mp, OF h2]
  note l4 = T [THEN conjunct2, THEN conjunct2, THEN conjunct2, THEN conjunct2, THEN conjunct2,
               THEN conjunct1, THEN spec, THEN mp, OF l1]
  from l4 have l5: "\<exists>all. ListOrgs example_repo example_cluster ''alice''
               \<lparr> ListOrgsMessage.Names = [], GUIDs = [] \<rparr> = Inr all
            \<and> subseq [anchorToOrgRecord (example_anchors ! 0)] all"
    by blast
  from l1 l2 l3 l5 show ?thesis by (intro conjI)
qed

text \<open>
  In the example cluster \<open>cf-org-1\<close> is listed with the empty filter and its name
  \<open>acme\<close> is one of the names asked for, yet the call of org\_repository.go fails,
  because the other name is not a label value; the CFOrg-backed file returns the record.
  An anchor without the organization-name label is listed under the name \<open>''''\<close> with the
  empty filter and is not returned when that name is asked for.
\<close>

theorem ListOrgs_names_selector_counterexample:
  "ListOrgs example_repo example_cluster ''alice''
      \<lparr> ListOrgsMessage.Names = [], GUIDs = [] \<rparr>
     = Inr [anchorToOrgRecord (example_anchors ! 0)]
   \<and> OrgRecord.Name (anchorToOrgRecord (example_anchors ! 0)) = ''acme''
   \<and> ListOrgs example_repo example_cluster ''alice''
      \<lparr> ListOrgsMessage.Names = [''acme'', ''my org''], GUIDs = [] \<rparr>
     = Inl (ErrorString ''invalid label value'')
   \<and> ListOrgs_CFOrg example_repo example_cluster ''alice''
      \<lparr> ListOrgsMessage.Names = [''acme'', ''my org''], GUIDs = [] \<rparr>
     = Inr [cfOrgToOrgRecord (example_cfOrgs ! 0)]
   \<and> ListOrgs example_repo
        (example_cluster\<lparr> anchors :=
           [\<lparr> anchor_Name = ''cf-org-1'', anchor_Namespace = ''cf'', anchor_Labels = [],
              anchor_CreationTimestamp = 5, anchor_State = Ok \<rparr>] \<rparr>)
        ''alice'' \<lparr> ListOrgsMessage.Names = [], GUIDs = [] \<rparr>
     = Inr [\<lparr> OrgRecord.Name = '''', GUID = ''cf-org-1'', Suspended = False, Labels = [],
              Annotations = [], CreatedAt = 5, UpdatedAt = 5 \<rparr>]
   \<and> ListOrgs example_repo
        (example_cluster\<lparr> anchors :=
           [\<lparr> anchor_Name = ''cf-org-1'', anchor_Namespace = ''cf'', anchor_Labels = [],
              anchor_CreationTimestamp = 5, anchor_State = Ok \<rparr>] \<rparr>)
        ''alice'' \<lparr> ListOrgsMessage.Names = [''''], GUIDs = [] \<rparr>
     = Inr []"
  by (simp add: example_defs eval_defs)

section \<open>Creating a space under an organization the caller cannot see\<close>

lemma GetOrg_fault:
  assumes "faults c Privileged VList KSubnamespaceAnchor (rootNamespace r) [] = Some k"
  shows "GetOrg r c info orgGUID = Inl (FromK8sError (StatusError k) OrgResourceType)"
  using assms by (simp add: GetOrg_def ListOrgs_def List_anchors_def namespace_key_def)

lemma GetOrg_CFOrg_fault:
  assumes "faults c Privileged VList KCFOrg (rootNamespace r) [] = Some k"
  shows "GetOrg_CFOrg r c info orgGUID = Inl (FromK8sError (StatusError k) OrgResourceType)"
  using assms by (simp add: GetOrg_CFOrg_def ListOrgs_CFOrg_def List_cfOrgs_def namespace_key_def)

lemma GetOrg_unauthorized:
  assumes "GetAuthorizedOrgNamespaces c info = Inr auth" and "map_of auth orgGUID \<noteq> Some True"
  shows "\<exists>err. GetOrg r c info orgGUID = Inl err
     \<and> (faults c Privileged VList KSubnamespaceAnchor (rootNamespace r) [] = None
          \<longrightarrow> err = NotFoundError None OrgResourceType)"
proof (cases "faults c Privileged VList KSubnamespaceAnchor (rootNamespace r) []")
  case None
  from GetOrg_anchor [OF None assms(1), of orgGUID] assms(2)
  have "GetOrg r c info orgGUID = Inl (NotFoundError None OrgResourceType)" by simp
  then show ?thesis by simp
next
  case (Some k)
  then show ?thesis by (simp add: GetOrg_fault)
qed

lemma GetOrg_CFOrg_unauthorized:
  assumes "GetAuthorizedOrgNamespaces c info = Inr auth" and "map_of auth orgGUID \<noteq> Some True"
  shows "\<exists>err. GetOrg_CFOrg r c info orgGUID = Inl err
     \<and> (faults c Privileged VList KCFOrg (rootNamespace r) [] = None
          \<longrightarrow> err = NotFoundError None OrgResourceType)"
proof (cases "faults c Privileged VList KCFOrg (rootNamespace r) []")
  case None
  from GetOrg_CFOrg_resource [OF None assms(1), of orgGUID] assms(2)
  have "GetOrg_CFOrg r c info orgGUID = Inl (NotFoundError None OrgResourceType)" by simp
  then show ?thesis by simp
next
  case (Some k)
  then show ?thesis by (simp add: GetOrg_CFOrg_fault)
qed

lemma GetOrg_permission_error:
  assumes "GetAuthorizedOrgNamespaces c info = Inl e"
  shows "\<exists>err. GetOrg r c info orgGUID = Inl err"
  using assms
  by (simp add: GetOrg_def ListOrgs_def List_anchors_def Let_def split: option.splits)

lemma GetOrg_CFOrg_permission_error:
  assumes "GetAuthorizedOrgNamespaces c info = Inl e"
  shows "\<exists>err. GetOrg_CFOrg r c info orgGUID = Inl err"
  using assms
  by (simp add: GetOrg_CFOrg_def ListOrgs_CFOrg_def List_cfOrgs_def Let_def split: option.splits)

lemma GetOrg_not_authorized:
  assumes "\<forall>auth. GetAuthorizedOrgNamespaces c info = Inr auth \<longrightarrow> map_of auth orgGUID \<noteq> Some True"
  shows "\<exists>err. GetOrg r c info orgGUID = Inl err
     \<and> (faults c Privileged VList KSubnamespaceAnchor (rootNamespace r) [] = None
          \<and> (\<exists>auth. GetAuthorizedOrgNamespaces c info = Inr auth)
          \<longrightarrow> err = NotFoundError None OrgResourceType)"
proof (cases "GetAuthorizedOrgNamespaces c info")
  case (Inl e)
  from GetOrg_permission_error [OF this] show ?thesis by (auto simp: Inl)
next
  case (Inr auth)
  with assms have "map_of auth orgGUID \<noteq> Some True" by simp
  from GetOrg_unauthorized [OF Inr this] show ?thesis by blast
qed

lemma GetOrg_CFOrg_not_authorized:
  assumes "\<forall>auth. GetAuthorizedOrgNamespaces c info = Inr auth \<longrightarrow> map_of auth orgGUID \<noteq> Some True"
  shows "\<exists>err. GetOrg_CFOrg r c info orgGUID = Inl err
     \<and> (faults c Privileged VList KCFOrg (rootNamespace r) [] = None
          \<and> (\<exists>auth. GetAuthorizedOrgNamespaces c info = Inr auth)
          \<longrightarrow> err = NotFoundError None OrgResourceType)"
proof (cases "GetAuthorizedOrgNamespaces c info")
  case (Inl e)
  from GetOrg_CFOrg_permission_error [OF this] show ?thesis by (auto simp: Inl)
next
  case (Inr auth)
  with assms have "map_of auth orgGUID \<noteq> Some True" by simp
  from GetOrg_CFOrg_unauthorized [OF Inr this] show ?thesis by blast
qed

lemma CreateSpace_GetOrg_error:
  assumes "GetOrg r c info (CreateSpaceMessage.OrganizationGUID message) = Inl err"
  shows "CreateSpace r c info message uuid =
           (Inl (Errorf ''failed to get parent organization: %w'' [] (Some err)), c)"
  using assms by (simp add: CreateSpace_def)

lemma CreateSpace_CFOrg_GetOrg_error:
  assumes "GetOrg_CFOrg r c info (CreateSpaceMessage.OrganizationGUID message) = Inl err"
  shows "CreateSpace_CFOrg r c info message uuid =
           (Inl (Errorf ''failed to get parent organization: %w'' [] (Some err)), c)"
  using assms by (simp add: CreateSpace_CFOrg_def)

text \<open>
  C3. When the permission query returns no map in which the organization of a
  \<open>CreateSpaceMessage\<close> is mapped to true (whether or not the organization exists, has
  converged, or is visible to another caller), \<open>CreateSpace\<close> returns the error
  \<open>failed to get parent organization: %w\<close> wrapping the failure of \<open>GetOrg\<close> (the
  NotFound error of type Org when the list and the permission query succeeded), and the
  cluster is returned unchanged: no anchor is created, the creation step is not reached.
\<close>

theorem CreateSpace_unauthorized_org:
  assumes "\<forall>auth. GetAuthorizedOrgNamespaces c info = Inr auth
             \<longrightarrow> map_of auth (CreateSpaceMessage.OrganizationGUID message) \<noteq> Some True"
  shows "(\<exists>err. CreateSpace r c info message uuid =
              (Inl (Errorf ''failed to get parent organization: %w'' [] (Some err)), c)
            \<and> (faults c Privileged VList KSubnamespaceAnchor (rootNamespace r) [] = None
                 \<and> (\<exists>auth. GetAuthorizedOrgNamespaces c info = Inr auth)
                 \<longrightarrow> err = NotFoundError None OrgResourceType))
       \<and> (\<exists>err. CreateSpace_CFOrg r c info message uuid =
              (Inl (Errorf ''failed to get parent organization: %w'' [] (Some err)), c)
            \<and> (faults c Privileged VList KCFOrg (rootNamespace r) [] = None
                 \<and> (\<exists>auth. GetAuthorizedOrgNamespaces c info = Inr auth)
                 \<longrightarrow> err = NotFoundError None OrgResourceType))
       \<and> anchors (snd (CreateSpace r c info message uuid)) = anchors c
       \<and> anchors (snd (CreateSpace_CFOrg r c info message uuid)) = anchors c"
proof -
  from GetOrg_not_authorized [OF assms] obtain err where
    e: "GetOrg r c info (CreateSpaceMessage.OrganizationGUID message) = Inl err"
       "faults c Privileged VList KSubnamespaceAnchor (rootNamespace r) [] = None
          \<and> (\<exists>auth. GetAuthorizedOrgNamespaces c info = Inr auth)
          \<longrightarrow> err = NotFoundError None OrgResourceType"
    by blast
  from GetOrg_CFOrg_not_authorized [OF assms] obtain err' where
    e': "GetOrg_CFOrg r c info (CreateSpaceMessage.OrganizationGUID message) = Inl err'"
       "faults c Privileged VList KCFOrg (rootNamespace r) [] = None
          \<and> (\<exists>auth. GetAuthorizedOrgNamespaces c info = Inr auth)
          \<longrightarrow> err' = NotFoundError None OrgResourceType"
    by blast
  show ?thesis
    using e(2) e'(2)
    by (simp add: CreateSpace_GetOrg_error [OF e(1)] CreateSpace_CFOrg_GetOrg_error [OF e'(1)])
qed

theorem CreateSpace_unauthorized_org_witness:
  "(\<exists>rec. GetOrg example_repo example_cluster ''alice'' ''cf-org-1'' = Inr rec)
   \<and> CreateSpace example_repo example_cluster ''bob''
        \<lparr> CreateSpaceMessage.Name = ''dev'', OrganizationGUID = ''cf-org-1'',
          ImageRegistryCredentials = ''registry-secret'' \<rparr> ''0001''
      = (Inl (Errorf ''failed to get parent organization: %w'' []
                (Some (NotFoundError None OrgResourceType))), example_cluster)
   \<and> CreateSpace_CFOrg example_repo example_cluster ''bob''
        \<lparr> CreateSpaceMessage.Name = ''dev'', OrganizationGUID = ''cf-org-1'',
          ImageRegistryCredentials = ''registry-secret'' \<rparr> ''0001''
      = (Inl (Errorf ''failed to get parent organization: %w'' []
                (Some (NotFoundError None OrgResourceType))), example_cluster)"
proof -
  have b: "GetAuthorizedOrgNamespaces example_cluster ''bob'' = Inr []"
    by (simp add: GetAuthorizedOrgNamespaces_def example_cluster_def)
  have n: "\<forall>auth. GetAuthorizedOrgNamespaces example_cluster ''bob'' = Inr auth
             \<longrightarrow> map_of auth
                   (CreateSpaceMessage.OrganizationGUID
                      \<lparr> CreateSpaceMessage.Name = ''dev'', OrganizationGUID = ''cf-org-1'',
                        ImageRegistryCredentials = ''registry-secret'' \<rparr>) \<noteq> Some True"
    by (simp add: b)
  have f1: "faults example_cluster Privileged VList KSubnamespaceAnchor (rootNamespace example_repo) [] = None"
    by (simp add: example_cluster_def)
  have f2: "faults example_cluster Privileged VList KCFOrg (rootNamespace example_repo) [] = None"
    by (simp add: example_cluster_def)
  have g: "\<exists>rec. GetOrg example_repo example_cluster ''alice'' ''cf-org-1'' = Inr rec"
    by (simp add: example_defs eval_defs)
  show ?thesis
    using CreateSpace_unauthorized_org [OF n, of example_repo "''0001''"] f1 f2 b g
    by auto
qed

section \<open>Listing spaces\<close>

lemma orgUIDs_of_fold:
  "fold (\<lambda>anchor orgUIDs.
             if anchor_Namespace anchor \<noteq> rootNamespace r then orgUIDs
             else if \<not> matchFilter orgsFilter (anchor_Name anchor) then orgUIDs
             else insert (anchor_Name anchor) orgUIDs) items A
   = A \<union> {anchor_Name a | a. a \<in> set items \<and> anchor_Namespace a = rootNamespace r
                           \<and> matchFilter orgsFilter (anchor_Name a)}"
  by (induction items arbitrary: A) auto

lemma orgUIDs_of_eq:
  "orgUIDs_of r orgsFilter items =
     {anchor_Name a | a. a \<in> set items \<and> anchor_Namespace a = rootNamespace r
                       \<and> matchFilter orgsFilter (anchor_Name a)}"
  by (simp add: orgUIDs_of_def orgUIDs_of_fold)

lemma GUID_anchorToSpaceRecord: "SpaceRecord.GUID (anchorToSpaceRecord a) = anchor_Name a"
  by (simp add: anchorToSpaceRecord_def)

lemma ListSpaces_Inr:
  assumes "faults c Privileged VList KSubnamespaceAnchor [] [] = None"
    and "GetAuthorizedSpaceNamespaces c info = Inr auth"
  shows "ListSpaces r c info message =
     Inr (map anchorToSpaceRecord
       (filter (\<lambda>a. anchor_State a = Ok
                   \<and> matchFilter (toMap (ListSpacesMessage.Names message))
                        (index_string (anchor_Labels a) SpaceNameLabel)
                   \<and> matchFilter (toMap (ListSpacesMessage.GUIDs message)) (anchor_Name a)
                   \<and> anchor_Namespace a \<in>
                        orgUIDs_of r (toMap (ListSpacesMessage.OrganizationGUIDs message)) (anchors c)
                   \<and> index_bool auth (anchor_Name a)) (anchors c)))"
  using assms
  by (auto simp: ListSpaces_def List_anchors_def namespace_key_def in_namespace_def selects_def
      Let_def filter_map comp_def GUID_anchorToSpaceRecord intro!: filter_cong)

lemma ListSpaces_InrD:
  assumes "ListSpaces r c info message = Inr rs"
  shows "faults c Privileged VList KSubnamespaceAnchor [] [] = None
       \<and> (\<exists>auth. GetAuthorizedSpaceNamespaces c info = Inr auth)"
  using assms
  by (auto simp: ListSpaces_def List_anchors_def namespace_key_def Let_def
      split: sum.splits option.splits)

text \<open>
  C10. \<open>ListSpaces\<close> does not look at the state of the parent organization anchor:
  its first pass admits every anchor under the root namespace that passes the
  organization filter. A space anchor in state Ok is returned whenever its namespace is
  the name of such an anchor, whatever that anchor's state, and the space passes the
  name, guid and caller-authorization filters.
\<close>

theorem ListSpaces_ignores_parent_state:
  assumes "faults c Privileged VList KSubnamespaceAnchor [] [] = None"
    and "GetAuthorizedSpaceNamespaces c info = Inr auth"
    and "org \<in> set (anchors c)" and "anchor_Namespace org = rootNamespace r"
    and "matchFilter (toMap (ListSpacesMessage.OrganizationGUIDs message)) (anchor_Name org)"
    and "space \<in> set (anchors c)" and "anchor_Namespace space = anchor_Name org"
    and "anchor_State space = Ok"
    and "matchFilter (toMap (ListSpacesMessage.Names message))
           (index_string (anchor_Labels space) SpaceNameLabel)"
    and "matchFilter (toMap (ListSpacesMessage.GUIDs message)) (anchor_Name space)"
    and "index_bool auth (anchor_Name space)"
  shows "(\<exists>rs. ListSpaces r c info message = Inr rs \<and> anchorToSpaceRecord space \<in> set rs)
       \<and> orgUIDs_of r (toMap (ListSpacesMessage.OrganizationGUIDs message)) (anchors c)
           = {anchor_Name a | a. a \<in> set (anchors c) \<and> anchor_Namespace a = rootNamespace r
                \<and> (ListSpacesMessage.OrganizationGUIDs message = []
                     \<or> anchor_Name a \<in> set (ListSpacesMessage.OrganizationGUIDs message))}"
proof -
  have "anchor_Namespace space
          \<in> orgUIDs_of r (toMap (ListSpacesMessage.OrganizationGUIDs message)) (anchors c)"
    using assms(3,4,5,7) by (auto simp: orgUIDs_of_eq)
  then have "anchorToSpaceRecord space \<in> set (map anchorToSpaceRecord
       (filter (\<lambda>a. anchor_State a = Ok
                   \<and> matchFilter (toMap (ListSpacesMessage.Names message))
                        (index_string (anchor_Labels a) SpaceNameLabel)
                   \<and> matchFilter (toMap (ListSpacesMessage.GUIDs message)) (anchor_Name a)
                   \<and> anchor_Namespace a \<in>
                        orgUIDs_of r (toMap (ListSpacesMessage.OrganizationGUIDs message)) (anchors c)
                   \<and> index_bool auth (anchor_Name a)) (anchors c)))"
    using assms(6,8,9,10,11) by simp
  then show ?thesis
    by (simp add: ListSpaces_Inr [OF assms(1,2)] orgUIDs_of_eq matchFilter_toMap)
qed

theorem ListSpaces_ignores_parent_state_witness:
  "anchor_State (example_anchors ! 1) = Pending
   \<and> anchor_Namespace (example_anchors ! 2) = anchor_Name (example_anchors ! 1)
   \<and> (\<exists>rs. ListSpaces example_repo example_cluster ''alice''
              \<lparr> ListSpacesMessage.Names = [''dev''], GUIDs = [], OrganizationGUIDs = [''cf-org-2''] \<rparr>
            = Inr rs \<and> anchorToSpaceRecord (example_anchors ! 2) \<in> set rs)"
proof -
  let ?m = "\<lparr> ListSpacesMessage.Names = [''dev''], GUIDs = [], OrganizationGUIDs = [''cf-org-2''] \<rparr>"
  have 1: "faults example_cluster Privileged VList KSubnamespaceAnchor [] [] = None"
    by (simp add: example_cluster_def)
  have 2: "GetAuthorizedSpaceNamespaces example_cluster ''alice'' = Inr [(''cf-space-1'', True)]"
    by (simp add: GetAuthorizedSpaceNamespaces_def example_cluster_def)
  have 3: "example_anchors ! 1 \<in> set (anchors example_cluster)"
    by (simp add: example_defs)
  have 4: "anchor_Namespace (example_anchors ! 1) = rootNamespace example_repo"
    by (simp add: example_defs)
  have 5: "matchFilter (toMap (ListSpacesMessage.OrganizationGUIDs ?m)) (anchor_Name (example_anchors ! 1))"
    by (simp add: example_defs matchFilter_toMap)
  have 6: "example_anchors ! 2 \<in> set (anchors example_cluster)"
    by (simp add: example_defs)
  have 7: "anchor_Namespace (example_anchors ! 2) = anchor_Name (example_anchors ! 1)"
    by (simp add: example_defs)
  have 8: "anchor_State (example_anchors ! 2) = Ok"
    by (simp add: example_defs)
  have 9: "matchFilter (toMap (ListSpacesMessage.Names ?m))
             (index_string (anchor_Labels (example_anchors ! 2)) SpaceNameLabel)"
    by (simp add: example_defs matchFilter_toMap index_string_def SpaceNameLabel_def)
  have 10: "matchFilter (toMap (ListSpacesMessage.GUIDs ?m)) (anchor_Name (example_anchors ! 2))"
    by (simp add: matchFilter_toMap)
  have 11: "index_bool [(''cf-space-1'', True)] (anchor_Name (example_anchors ! 2))"
    by (simp add: example_defs index_bool_def)
  have p: "anchor_State (example_anchors ! 1) = Pending"
    by (simp add: example_defs)
  show ?thesis
    using ListSpaces_ignores_parent_state [OF 1 2 3 4 5 6 7 8 9 10 11] p 7
    by simp
qed


section \<open>The provisioning wait\<close>

lemma awaitPermissions_present:
  assumes "clock c - t1 < timeout r"
    and "(if resourceType = OrgResourceType then GetAuthorizedOrgNamespaces c info
          else GetAuthorizedSpaceNamespaces c info) = Inr m"
    and "map_of m nm = Some b"
  shows "awaitPermissions r info resourceType nm t1 c = (None, c)"
  using assms by (subst awaitPermissions.simps) (simp add: has_key_def)

lemma awaitPermissions_never:
  assumes "\<forall>t. \<exists>m. (if resourceType = OrgResourceType then authorizedOrgNamespaces c t info
                       else authorizedSpaceNamespaces c t info) = Inr m \<and> \<not> has_key m nm"
  shows "\<exists>t'. awaitPermissions r info resourceType nm t1 c =
            (Some (Errorf ''failed establishing permissions in new namespace after %s: %w''
                     [DurationArg (t' - t1)] None), c\<lparr> clock := t' \<rparr>)
          \<and> timeout r \<le> t' - t1 \<and> clock c \<le> t'"
  using assms
proof (induction r info resourceType nm t1 c rule: awaitPermissions.induct)
  case (1 r info resourceType nm t1 c)
  show ?case
  proof (cases "timeout r \<le> clock c - t1")
    case True
    then have "awaitPermissions r info resourceType nm t1 c =
            (Some (Errorf ''failed establishing permissions in new namespace after %s: %w''
                     [DurationArg (clock c - t1)] None), c\<lparr> clock := clock c \<rparr>)"
      by (subst awaitPermissions.simps) simp
    with True show ?thesis by blast
  next
    case False
    from "1.prems" obtain m where
      m: "(if resourceType = OrgResourceType then authorizedOrgNamespaces c (clock c) info
           else authorizedSpaceNamespaces c (clock c) info) = Inr m" "\<not> has_key m nm"
      by blast
    then have m': "(if resourceType = OrgResourceType then GetAuthorizedOrgNamespaces c info
           else GetAuthorizedSpaceNamespaces c info) = Inr m"
      by (simp add: GetAuthorizedOrgNamespaces_def GetAuthorizedSpaceNamespaces_def split: if_splits)
    have prem: "\<forall>t. \<exists>m. (if resourceType = OrgResourceType
                       then authorizedOrgNamespaces (c\<lparr> clock := clock c + 500 \<rparr>) t info
                       else authorizedSpaceNamespaces (c\<lparr> clock := clock c + 500 \<rparr>) t info) = Inr m
                     \<and> \<not> has_key m nm"
      using "1.prems" by (cases "resourceType = OrgResourceType") simp_all
    from "1.IH" [OF False m' m(2) prem] obtain t' where
      t': "awaitPermissions r info resourceType nm t1 (c\<lparr> clock := clock c + 500 \<rparr>) =
            (Some (Errorf ''failed establishing permissions in new namespace after %s: %w''
                     [DurationArg (t' - t1)] None), c\<lparr> clock := clock c + 500, clock := t' \<rparr>)"
        "timeout r \<le> t' - t1" "clock (c\<lparr> clock := clock c + 500 \<rparr>) \<le> t'"
      by blast
    have "awaitPermissions r info resourceType nm t1 c
            = awaitPermissions r info resourceType nm t1 (c\<lparr> clock := clock c + 500 \<rparr>)"
      using False m' m(2) by (subst awaitPermissions.simps) simp
    with t' show ?thesis by (intro exI [of _ t']) simp
  qed
qed

lemma Create_anchor_NoneD:
  assumes "Create_anchor c cl anchor = (None, c1)"
  shows "c1 = c\<lparr> anchors := anchors c @ [anchor\<lparr> anchor_CreationTimestamp := clock c \<rparr>] \<rparr>"
  using assms by (auto simp: Create_anchor_def split: option.splits if_splits)

lemma Create_cfOrg_NoneD:
  assumes "Create_cfOrg c cl org = (None, c1)"
  shows "c1 = c\<lparr> cfOrgs := cfOrgs c @ [org\<lparr> cforg_CreationTimestamp := clock c \<rparr>] \<rparr>"
  using assms by (auto simp: Create_cfOrg_def split: option.splits if_splits)

lemma createSubnamespaceAnchor_state_timeout:
  assumes "Create_anchor c userClient anchor = (None, c1)"
    and "Watch c1 Privileged KSubnamespaceAnchor (anchor_Namespace anchor) (anchor_Name anchor)
           = Inr events"
    and "awaitStateOk events = None"
  shows "createSubnamespaceAnchor r c info userClient anchor resourceType =
           (Inl (Errorf ''subnamespaceanchor did not get state 'ok' within timeout period %d ms''
                   [IntArg (int (timeout r))] None), c1)"
  using assms by (simp add: createSubnamespaceAnchor_def)

lemma createSubnamespaceAnchor_permission_timeout:
  assumes "Create_anchor c userClient anchor = (None, c1)"
    and "Watch c1 Privileged KSubnamespaceAnchor (anchor_Namespace anchor) (anchor_Name anchor)
           = Inr events"
    and "awaitStateOk events = Some createdAnchor"
    and "\<forall>t. \<exists>m. (if resourceType = OrgResourceType then authorizedOrgNamespaces c t info
                       else authorizedSpaceNamespaces c t info) = Inr m
                   \<and> \<not> has_key m (anchor_Name anchor)"
  shows "\<exists>t'. createSubnamespaceAnchor r c info userClient anchor resourceType =
            (Inl (Errorf ''failed establishing permissions in new namespace after %s: %w''
                    [DurationArg (t' - clock c)] None), c1\<lparr> clock := t' \<rparr>)
          \<and> timeout r \<le> t' - clock c"
proof -
  note c1 = Create_anchor_NoneD [OF assms(1)]
  have "\<forall>t. \<exists>m. (if resourceType = OrgResourceType then authorizedOrgNamespaces c1 t info
                       else authorizedSpaceNamespaces c1 t info) = Inr m
                   \<and> \<not> has_key m (anchor_Name anchor)"
    using assms(4) by (cases "resourceType = OrgResourceType") (simp_all add: c1)
  from awaitPermissions_never [OF this, of r "clock c1"] obtain t' where
    t': "awaitPermissions r info resourceType (anchor_Name anchor) (clock c1) c1 =
            (Some (Errorf ''failed establishing permissions in new namespace after %s: %w''
                     [DurationArg (t' - clock c1)] None), c1\<lparr> clock := t' \<rparr>)"
        "timeout r \<le> t' - clock c1"
    by blast
  have clk: "clock c1 = clock c" by (simp add: c1)
  show ?thesis
    using t' assms(1,2,3) by (intro exI [of _ t']) (simp add: createSubnamespaceAnchor_def clk)
qed

lemma createOrgCR_ready_timeout:
  assumes "Create_cfOrg c userClient org = (None, c1)"
    and "Watch c1 Privileged KCFOrg (cforg_Namespace org) (cforg_Name org) = Inr events"
    and "awaitConditionReady events = None"
  shows "createOrgCR r c info userClient org =
           (Inl (Errorf ''cf org did not get Condition `Ready`: 'True' within timeout period %d ms''
                   [IntArg (int (timeout r))] None), c1)"
  using assms by (simp add: createOrgCR_def)

lemma createOrgCR_permission_timeout:
  assumes "Create_cfOrg c userClient org = (None, c1)"
    and "Watch c1 Privileged KCFOrg (cforg_Namespace org) (cforg_Name org) = Inr events"
    and "awaitConditionReady events = Some createdOrg"
    and "\<forall>t. \<exists>m. authorizedOrgNamespaces c t info = Inr m \<and> \<not> has_key m (cforg_Name org)"
  shows "\<exists>t'. createOrgCR r c info userClient org =
            (Inl (Errorf ''failed establishing permissions in new namespace after %s: %w''
                    [DurationArg (t' - clock c)] None), c1\<lparr> clock := t' \<rparr>)
          \<and> timeout r \<le> t' - clock c"
proof -
  note c1 = Create_cfOrg_NoneD [OF assms(1)]
  have "\<forall>t. \<exists>m. (if OrgResourceType = OrgResourceType then authorizedOrgNamespaces c1 t info
                       else authorizedSpaceNamespaces c1 t info) = Inr m
                   \<and> \<not> has_key m (cforg_Name org)"
    using assms(4) by (simp add: c1)
  from awaitPermissions_never [OF this, of r "clock c1"] obtain t' where
    t': "awaitPermissions r info OrgResourceType (cforg_Name org) (clock c1) c1 =
            (Some (Errorf ''failed establishing permissions in new namespace after %s: %w''
                     [DurationArg (t' - clock c1)] None), c1\<lparr> clock := t' \<rparr>)"
        "timeout r \<le> t' - clock c1"
    by blast
  have clk: "clock c1 = clock c" by (simp add: c1)
  show ?thesis
    using t' assms(1,2,3) by (intro exI [of _ t']) (simp add: createOrgCR_def clk)
qed

text \<open>
  C5. In the provisioning wait (of \<open>createSubnamespaceAnchor\<close> and of
  \<open>createOrgCR\<close>), once the object is created and the watch is set up: if the watch
  closes without a converged object, the call returns the error that names the timeout
  period in milliseconds; if the object converges and the new namespace is never a key of
  the caller's authorized namespaces, the call returns a different error that reports the
  time elapsed, which is at least the timeout. In both cases the call ends with the
  error (nothing is retried) and the cluster it leaves still holds the created object:
  nothing is deleted.
\<close>

theorem provisioning_timeouts_distinct_no_rollback:
  "(Create_anchor c userClient anchor = (None, c1)
      \<and> Watch c1 Privileged KSubnamespaceAnchor (anchor_Namespace anchor) (anchor_Name anchor)
           = Inr events
    \<longrightarrow> anchors c1 = anchors c @ [anchor\<lparr> anchor_CreationTimestamp := clock c \<rparr>]
      \<and> (awaitStateOk events = None \<longrightarrow>
           createSubnamespaceAnchor r c info userClient anchor resourceType =
             (Inl (Errorf ''subnamespaceanchor did not get state 'ok' within timeout period %d ms''
                     [IntArg (int (timeout r))] None), c1))
      \<and> (awaitStateOk events \<noteq> None
           \<and> (\<forall>t. \<exists>m. (if resourceType = OrgResourceType then authorizedOrgNamespaces c t info
                           else authorizedSpaceNamespaces c t info) = Inr m
                       \<and> \<not> has_key m (anchor_Name anchor)) \<longrightarrow>
           (\<exists>t'. createSubnamespaceAnchor r c info userClient anchor resourceType =
                   (Inl (Errorf ''failed establishing permissions in new namespace after %s: %w''
                           [DurationArg (t' - clock c)] None), c1\<lparr> clock := t' \<rparr>)
                 \<and> timeout r \<le> t' - clock c)))
   \<and> (Create_cfOrg c userClient org = (None, c1')
      \<and> Watch c1' Privileged KCFOrg (cforg_Namespace org) (cforg_Name org) = Inr events'
    \<longrightarrow> cfOrgs c1' = cfOrgs c @ [org\<lparr> cforg_CreationTimestamp := clock c \<rparr>]
      \<and> (awaitConditionReady events' = None \<longrightarrow>
           createOrgCR r c info userClient org =
             (Inl (Errorf ''cf org did not get Condition `Ready`: 'True' within timeout period %d ms''
                     [IntArg (int (timeout r))] None), c1'))
      \<and> (awaitConditionReady events' \<noteq> None
           \<and> (\<forall>t. \<exists>m. authorizedOrgNamespaces c t info = Inr m \<and> \<not> has_key m (cforg_Name org)) \<longrightarrow>
           (\<exists>t'. createOrgCR r c info userClient org =
                   (Inl (Errorf ''failed establishing permissions in new namespace after %s: %w''
                           [DurationArg (t' - clock c)] None), c1'\<lparr> clock := t' \<rparr>)
                 \<and> timeout r \<le> t' - clock c)))
   \<and> (\<forall>args args' w w'.
         Errorf ''subnamespaceanchor did not get state 'ok' within timeout period %d ms'' args w
           \<noteq> Errorf ''failed establishing permissions in new namespace after %s: %w'' args' w'
       \<and> Errorf ''cf org did not get Condition `Ready`: 'True' within timeout period %d ms'' args w
           \<noteq> Errorf ''failed establishing permissions in new namespace after %s: %w'' args' w')"
proof (intro conjI impI)
  assume a: "Create_anchor c userClient anchor = (None, c1)
      \<and> Watch c1 Privileged KSubnamespaceAnchor (anchor_Namespace anchor) (anchor_Name anchor)
           = Inr events"
  show "anchors c1 = anchors c @ [anchor\<lparr> anchor_CreationTimestamp := clock c \<rparr>]"
  proof -
    from a have "Create_anchor c userClient anchor = (None, c1)" by simp
    from Create_anchor_NoneD [OF this] show ?thesis by simp
  qed
  show "createSubnamespaceAnchor r c info userClient anchor resourceType =
             (Inl (Errorf ''subnamespaceanchor did not get state 'ok' within timeout period %d ms''
                     [IntArg (int (timeout r))] None), c1)"
    if "awaitStateOk events = None"
    using a that by (intro createSubnamespaceAnchor_state_timeout) simp_all
  show "\<exists>t'. createSubnamespaceAnchor r c info userClient anchor resourceType =
                   (Inl (Errorf ''failed establishing permissions in new namespace after %s: %w''
                           [DurationArg (t' - clock c)] None), c1\<lparr> clock := t' \<rparr>)
                 \<and> timeout r \<le> t' - clock c"
    if b: "awaitStateOk events \<noteq> None
           \<and> (\<forall>t. \<exists>m. (if resourceType = OrgResourceType then authorizedOrgNamespaces c t info
                           else authorizedSpaceNamespaces c t info) = Inr m
                       \<and> \<not> has_key m (anchor_Name anchor))"
  proof -
    from b obtain createdAnchor where "awaitStateOk events = Some createdAnchor" by blast
    with a b show ?thesis
      by (intro createSubnamespaceAnchor_permission_timeout [where createdAnchor = createdAnchor and events = events])
         simp_all
  qed
next
  assume a: "Create_cfOrg c userClient org = (None, c1')
      \<and> Watch c1' Privileged KCFOrg (cforg_Namespace org) (cforg_Name org) = Inr events'"
  show "cfOrgs c1' = cfOrgs c @ [org\<lparr> cforg_CreationTimestamp := clock c \<rparr>]"
  proof -
    from a have "Create_cfOrg c userClient org = (None, c1')" by simp
    from Create_cfOrg_NoneD [OF this] show ?thesis by simp
  qed
  show "createOrgCR r c info userClient org =
             (Inl (Errorf ''cf org did not get Condition `Ready`: 'True' within timeout period %d ms''
                     [IntArg (int (timeout r))] None), c1')"
    if "awaitConditionReady events' = None"
    using a that by (intro createOrgCR_ready_timeout) simp_all
  show "\<exists>t'. createOrgCR r c info userClient org =
                   (Inl (Errorf ''failed establishing permissions in new namespace after %s: %w''
                           [DurationArg (t' - clock c)] None), c1'\<lparr> clock := t' \<rparr>)
                 \<and> timeout r \<le> t' - clock c"
    if b: "awaitConditionReady events' \<noteq> None
           \<and> (\<forall>t. \<exists>m. authorizedOrgNamespaces c t info = Inr m \<and> \<not> has_key m (cforg_Name org))"
  proof -
    from b obtain createdOrg where "awaitConditionReady events' = Some createdOrg" by blast
    with a b show ?thesis
      by (intro createOrgCR_permission_timeout [where createdOrg = createdOrg and events = events'])
         simp_all
  qed
next
  show "\<forall>args args' w w'.
         Errorf ''subnamespaceanchor did not get state 'ok' within timeout period %d ms'' args w
           \<noteq> Errorf ''failed establishing permissions in new namespace after %s: %w'' args' w'
       \<and> Errorf ''cf org did not get Condition `Ready`: 'True' within timeout period %d ms'' args w
           \<noteq> Errorf ''failed establishing permissions in new namespace after %s: %w'' args' w'"
    by simp
qed

theorem provisioning_timeouts_distinct_no_rollback_witness:
  "fst (createSubnamespaceAnchor example_repo example_cluster ''alice'' (User ''alice'')
          example_slow_anchor SpaceResourceType)
     = Inl (Errorf ''subnamespaceanchor did not get state 'ok' within timeout period %d ms''
              [IntArg 1000] None)
   \<and> (\<exists>t'. fst (createSubnamespaceAnchor example_repo example_cluster ''alice'' (User ''alice'')
                  example_new_anchor SpaceResourceType)
            = Inl (Errorf ''failed establishing permissions in new namespace after %s: %w''
                     [DurationArg t'] None) \<and> 1000 \<le> t')
   \<and> fst (createOrgCR example_repo example_cluster ''alice'' (User ''alice'') example_slow_org)
     = Inl (Errorf ''cf org did not get Condition `Ready`: 'True' within timeout period %d ms''
              [IntArg 1000] None)
   \<and> (\<exists>t'. fst (createOrgCR example_repo example_cluster ''alice'' (User ''alice'') example_new_org)
            = Inl (Errorf ''failed establishing permissions in new namespace after %s: %w''
                     [DurationArg t'] None) \<and> 1000 \<le> t')"
proof -
  let ?c = example_cluster and ?u = "User ''alice''"
  let ?c1 = "\<lambda>a. ?c\<lparr> anchors := anchors ?c @ [a\<lparr> anchor_CreationTimestamp := clock ?c \<rparr>] \<rparr>"
  let ?c2 = "\<lambda>org. ?c\<lparr> cfOrgs := cfOrgs ?c @ [org\<lparr> cforg_CreationTimestamp := clock ?c \<rparr>] \<rparr>"
  let ?slow = "watchEvents ?c KSubnamespaceAnchor ''cf-org-1'' ''cf-space-slow''"
  let ?new = "watchEvents ?c KSubnamespaceAnchor ''cf-org-1'' ''cf-space-new''"
  let ?oslow = "watchEvents ?c KCFOrg ''cf'' ''cf-org-slow''"
  let ?onew = "watchEvents ?c KCFOrg ''cf'' ''cf-org-new''"
  have cs: "Create_anchor ?c ?u example_slow_anchor = (None, ?c1 example_slow_anchor)"
    by (simp add: Create_anchor_def example_defs example_slow_anchor_def)
  have cn: "Create_anchor ?c ?u example_new_anchor = (None, ?c1 example_new_anchor)"
    by (simp add: Create_anchor_def example_defs example_new_anchor_def)
  have co_slow: "Create_cfOrg ?c ?u example_slow_org = (None, ?c2 example_slow_org)"
    by (simp add: Create_cfOrg_def example_defs example_slow_org_def)
  have co_new: "Create_cfOrg ?c ?u example_new_org = (None, ?c2 example_new_org)"
    by (simp add: Create_cfOrg_def example_defs example_new_org_def)
  have ws: "Watch (?c1 example_slow_anchor) Privileged KSubnamespaceAnchor
              (anchor_Namespace example_slow_anchor) (anchor_Name example_slow_anchor) = Inr ?slow"
    by (simp add: Watch_def example_cluster_def example_slow_anchor_def)
  have wn: "Watch (?c1 example_new_anchor) Privileged KSubnamespaceAnchor
              (anchor_Namespace example_new_anchor) (anchor_Name example_new_anchor) = Inr ?new"
    by (simp add: Watch_def example_cluster_def example_new_anchor_def)
  have wos: "Watch (?c2 example_slow_org) Privileged KCFOrg
              (cforg_Namespace example_slow_org) (cforg_Name example_slow_org) = Inr ?oslow"
    by (simp add: Watch_def example_cluster_def example_slow_org_def)
  have won: "Watch (?c2 example_new_org) Privileged KCFOrg
              (cforg_Namespace example_new_org) (cforg_Name example_new_org) = Inr ?onew"
    by (simp add: Watch_def example_cluster_def example_new_org_def)
  have es: "awaitStateOk ?slow = None"
    by (simp add: example_cluster_def)
  have en: "awaitStateOk ?new \<noteq> None"
    by (simp add: example_cluster_def)
  have eos: "awaitConditionReady ?oslow = None"
    by (simp add: example_cluster_def IsStatusConditionTrue_def)
  have eon: "awaitConditionReady ?onew \<noteq> None"
    by (simp add: example_cluster_def IsStatusConditionTrue_def)
  have ps: "\<forall>t. \<exists>m. (if SpaceResourceType = OrgResourceType
                       then authorizedOrgNamespaces ?c t ''alice''
                       else authorizedSpaceNamespaces ?c t ''alice'') = Inr m
                   \<and> \<not> has_key m (anchor_Name example_new_anchor)"
    by (simp add: example_cluster_def SpaceResourceType_def OrgResourceType_def has_key_def
        example_new_anchor_def)
  have po: "\<forall>t. \<exists>m. authorizedOrgNamespaces ?c t ''alice'' = Inr m
                   \<and> \<not> has_key m (cforg_Name example_new_org)"
    by (simp add: example_cluster_def has_key_def example_new_org_def)
  have t: "timeout example_repo = 1000" "clock ?c = 0"
    by (simp_all add: example_defs)
  note A = provisioning_timeouts_distinct_no_rollback
    [where c = ?c and userClient = ?u and r = example_repo and info = "''alice''"
       and resourceType = SpaceResourceType
       and anchor = example_slow_anchor and ?c1.0 = "?c1 example_slow_anchor" and events = ?slow
       and org = example_slow_org and c1' = "?c2 example_slow_org" and events' = ?oslow]
  note B = provisioning_timeouts_distinct_no_rollback
    [where c = ?c and userClient = ?u and r = example_repo and info = "''alice''"
       and resourceType = SpaceResourceType
       and anchor = example_new_anchor and ?c1.0 = "?c1 example_new_anchor" and events = ?new
       and org = example_new_org and c1' = "?c2 example_new_org" and events' = ?onew]
  note n1 = A [THEN conjunct1, THEN mp, OF conjI [OF cs ws],
               THEN conjunct2, THEN conjunct1, THEN mp, OF es]
  note n3 = A [THEN conjunct2, THEN conjunct1, THEN mp, OF conjI [OF co_slow wos],
               THEN conjunct2, THEN conjunct1, THEN mp, OF eos]
  note n2 = B [THEN conjunct1, THEN mp, OF conjI [OF cn wn],
               THEN conjunct2, THEN conjunct2, THEN mp, OF conjI [OF en ps]]
  note n4 = B [THEN conjunct2, THEN conjunct1, THEN mp, OF conjI [OF co_new won],
               THEN conjunct2, THEN conjunct2, THEN mp, OF conjI [OF eon po]]
  from n2 obtain t2 where r2: "createSubnamespaceAnchor example_repo ?c ''alice'' ?u
          example_new_anchor SpaceResourceType
     = (Inl (Errorf ''failed establishing permissions in new namespace after %s: %w''
                           [DurationArg (t2 - clock ?c)] None), ?c1 example_new_anchor\<lparr> clock := t2 \<rparr>)"
       "timeout example_repo \<le> t2 - clock ?c"
    by (elim exE conjE)
  from n4 obtain t4 where r4: "createOrgCR example_repo ?c ''alice'' ?u example_new_org
     = (Inl (Errorf ''failed establishing permissions in new namespace after %s: %w''
                           [DurationArg (t4 - clock ?c)] None), ?c2 example_new_org\<lparr> clock := t4 \<rparr>)"
       "timeout example_repo \<le> t4 - clock ?c"
    by (elim exE conjE)
  have g1: "fst (createSubnamespaceAnchor example_repo ?c ''alice'' ?u example_slow_anchor SpaceResourceType)
     = Inl (Errorf ''subnamespaceanchor did not get state 'ok' within timeout period %d ms''
              [IntArg 1000] None)"
    by (simp add: n1 t)
  have g3: "fst (createOrgCR example_repo ?c ''alice'' ?u example_slow_org)
     = Inl (Errorf ''cf org did not get Condition `Ready`: 'True' within timeout period %d ms''
              [IntArg 1000] None)"
    by (simp add: n3 t)
  have "fst (createSubnamespaceAnchor example_repo ?c ''alice'' ?u example_new_anchor SpaceResourceType)
            = Inl (Errorf ''failed establishing permissions in new namespace after %s: %w''
                     [DurationArg (t2 - clock ?c)] None)"
    by (simp add: r2(1))
  moreover have "1000 \<le> t2 - clock ?c"
    using r2(2) by (simp add: t(1))
  ultimately have g2: "\<exists>t'. fst (createSubnamespaceAnchor example_repo ?c ''alice'' ?u example_new_anchor SpaceResourceType)
            = Inl (Errorf ''failed establishing permissions in new namespace after %s: %w''
                     [DurationArg t'] None) \<and> 1000 \<le> t'"
    by blast
  have "fst (createOrgCR example_repo ?c ''alice'' ?u example_new_org)
            = Inl (Errorf ''failed establishing permissions in new namespace after %s: %w''
                     [DurationArg (t4 - clock ?c)] None)"
    by (simp add: r4(1))
  moreover have "1000 \<le> t4 - clock ?c"
    using r4(2) by (simp add: t(1))
  ultimately have g4: "\<exists>t'. fst (createOrgCR example_repo ?c ''alice'' ?u example_new_org)
            = Inl (Errorf ''failed establishing permissions in new namespace after %s: %w''
                     [DurationArg t'] None) \<and> 1000 \<le> t'"
    by blast
  from g1 g2 g3 g4 show ?thesis by (intro conjI)
qed

lemma ListOrgs_authorized:
  assumes "ListOrgs r c info flt = Inr rs" and "GetAuthorizedOrgNamespaces c info = Inr m"
    and "rec \<in> set rs"
  shows "map_of m (OrgRecord.GUID rec) = Some True"
proof -
  from ListOrgs_InrD [OF assms(1)] have
    f: "faults c Privileged VList KSubnamespaceAnchor (rootNamespace r) [] = None"
    and v: "list_all IsValidLabelValue (ListOrgsMessage.Names flt)"
    by simp_all
  from ListOrgs_Inr [OF f assms(2) v] assms(1,3) show ?thesis
    by (auto simp: index_bool_iff GUID_anchorToOrgRecord)
qed

lemma ListOrgs_CFOrg_authorized:
  assumes "ListOrgs_CFOrg r c info flt = Inr rs" and "GetAuthorizedOrgNamespaces c info = Inr m"
    and "rec \<in> set rs"
  shows "map_of m (OrgRecord.GUID rec) = Some True"
proof -
  from ListOrgs_CFOrg_InrD [OF assms(1)] have
    f: "faults c Privileged VList KCFOrg (rootNamespace r) [] = None"
    by simp
  from ListOrgs_CFOrg_Inr [OF f assms(2)] assms(1,3) show ?thesis
    by (auto simp: index_bool_iff GUID_cfOrgToOrgRecord)
qed

lemma ListSpaces_authorized:
  assumes "ListSpaces r c info message = Inr rs" and "GetAuthorizedSpaceNamespaces c info = Inr m"
    and "rec \<in> set rs"
  shows "map_of m (SpaceRecord.GUID rec) = Some True"
proof -
  from ListSpaces_InrD [OF assms(1)] have
    f: "faults c Privileged VList KSubnamespaceAnchor [] [] = None"
    by simp
  from ListSpaces_Inr [OF f assms(2)] assms(1,3) show ?thesis
    by (auto simp: index_bool_iff GUID_anchorToSpaceRecord)
qed

lemma createSubnamespaceAnchor_key_present:
  assumes "Create_anchor c userClient anchor = (None, c1)"
    and "Watch c1 Privileged KSubnamespaceAnchor (anchor_Namespace anchor) (anchor_Name anchor)
           = Inr events"
    and "awaitStateOk events = Some createdAnchor"
    and "0 < timeout r"
    and "(if resourceType = OrgResourceType then GetAuthorizedOrgNamespaces c info
          else GetAuthorizedSpaceNamespaces c info) = Inr m"
    and "map_of m (anchor_Name anchor) = Some b"
  shows "createSubnamespaceAnchor r c info userClient anchor resourceType = (Inr createdAnchor, c1)"
proof -
  note c1 = Create_anchor_NoneD [OF assms(1)]
  have p: "(if resourceType = OrgResourceType then GetAuthorizedOrgNamespaces c1 info
          else GetAuthorizedSpaceNamespaces c1 info) = Inr m"
    using assms(5)
    by (cases "resourceType = OrgResourceType")
       (simp_all add: c1 GetAuthorizedOrgNamespaces_def GetAuthorizedSpaceNamespaces_def)
  have "clock c1 - clock c1 < timeout r" using assms(4) by simp
  from awaitPermissions_present [OF this p assms(6)] assms(1,2,3) show ?thesis
    by (simp add: createSubnamespaceAnchor_def)
qed

lemma createOrgCR_key_present:
  assumes "Create_cfOrg c userClient org = (None, c1)"
    and "Watch c1 Privileged KCFOrg (cforg_Namespace org) (cforg_Name org) = Inr events"
    and "awaitConditionReady events = Some createdOrg"
    and "0 < timeout r"
    and "GetAuthorizedOrgNamespaces c info = Inr m"
    and "map_of m (cforg_Name org) = Some b"
  shows "createOrgCR r c info userClient org = (Inr createdOrg, c1)"
proof -
  note c1 = Create_cfOrg_NoneD [OF assms(1)]
  have p: "(if OrgResourceType = OrgResourceType then GetAuthorizedOrgNamespaces c1 info
          else GetAuthorizedSpaceNamespaces c1 info) = Inr m"
    using assms(5) by (simp add: c1 GetAuthorizedOrgNamespaces_def)
  have "clock c1 - clock c1 < timeout r" using assms(4) by simp
  from awaitPermissions_present [OF this p assms(6)] assms(1,2,3) show ?thesis
    by (simp add: createOrgCR_def)
qed

lemma awaitPermissions_timed_out:
  assumes "timeout r \<le> clock c - t1"
  shows "awaitPermissions r info resourceType nm t1 c =
           (Some (Errorf ''failed establishing permissions in new namespace after %s: %w''
                    [DurationArg (clock c - t1)] None), c)"
  using assms by (subst awaitPermissions.simps) simp

lemma awaitPermissions_query_error:
  assumes "clock c - t1 < timeout r"
    and "(if resourceType = OrgResourceType then GetAuthorizedOrgNamespaces c info
          else GetAuthorizedSpaceNamespaces c info) = Inl err"
  shows "awaitPermissions r info resourceType nm t1 c = (Some err, c)"
  using assms by (subst awaitPermissions.simps) simp

lemma awaitPermissions_absent:
  assumes "clock c - t1 < timeout r"
    and "(if resourceType = OrgResourceType then GetAuthorizedOrgNamespaces c info
          else GetAuthorizedSpaceNamespaces c info) = Inr m"
    and "map_of m nm = None"
  shows "awaitPermissions r info resourceType nm t1 c =
           awaitPermissions r info resourceType nm t1 (c\<lparr> clock := clock c + 500 \<rparr>)"
  using assms by (subst awaitPermissions.simps) (simp add: has_key_def)

lemma awaitPermissions_first_present_at:
  assumes "\<forall>i<n. \<exists>m. (if resourceType = OrgResourceType
                         then authorizedOrgNamespaces c (k + 500 * i) info
                         else authorizedSpaceNamespaces c (k + 500 * i) info) = Inr m
                      \<and> map_of m nm = None"
    and "(if resourceType = OrgResourceType
          then authorizedOrgNamespaces c (k + 500 * n) info
          else authorizedSpaceNamespaces c (k + 500 * n) info) = Inr m"
    and "map_of m nm = Some b"
    and "k + 500 * n - t1 < timeout r"
  shows "awaitPermissions r info resourceType nm t1 (c\<lparr> clock := k \<rparr>)
           = (None, c\<lparr> clock := k + 500 * n \<rparr>)"
  using assms
proof (induction n arbitrary: k)
  case 0
  have "clock (c\<lparr> clock := k \<rparr>) - t1 < timeout r"
    using "0.prems"(4) by simp
  moreover have "(if resourceType = OrgResourceType
                  then GetAuthorizedOrgNamespaces (c\<lparr> clock := k \<rparr>) info
                  else GetAuthorizedSpaceNamespaces (c\<lparr> clock := k \<rparr>) info) = Inr m"
    using "0.prems"(2)
    by (cases "resourceType = OrgResourceType")
       (simp_all add: GetAuthorizedOrgNamespaces_def GetAuthorizedSpaceNamespaces_def)
  ultimately show ?case
    using "0.prems"(3) by (simp add: awaitPermissions_present)
next
  case (Suc n)
  from Suc.prems(1) obtain m0 where
    m0: "(if resourceType = OrgResourceType
          then authorizedOrgNamespaces c (k + 500 * 0) info
          else authorizedSpaceNamespaces c (k + 500 * 0) info) = Inr m0" "map_of m0 nm = None"
    by blast
  have nt: "clock (c\<lparr> clock := k \<rparr>) - t1 < timeout r"
    using Suc.prems(4) by simp
  have q: "(if resourceType = OrgResourceType
            then GetAuthorizedOrgNamespaces (c\<lparr> clock := k \<rparr>) info
            else GetAuthorizedSpaceNamespaces (c\<lparr> clock := k \<rparr>) info) = Inr m0"
    using m0(1)
    by (cases "resourceType = OrgResourceType")
       (simp_all add: GetAuthorizedOrgNamespaces_def GetAuthorizedSpaceNamespaces_def)
  have step: "awaitPermissions r info resourceType nm t1 (c\<lparr> clock := k \<rparr>)
                = awaitPermissions r info resourceType nm t1 (c\<lparr> clock := k + 500 \<rparr>)"
    using awaitPermissions_absent [OF nt q m0(2)] by simp
  have e: "k + 500 + 500 * i = k + 500 * Suc i" for i
    by simp
  have p1: "\<forall>i<n. \<exists>m. (if resourceType = OrgResourceType
                         then authorizedOrgNamespaces c (k + 500 + 500 * i) info
                         else authorizedSpaceNamespaces c (k + 500 + 500 * i) info) = Inr m
                      \<and> map_of m nm = None"
    unfolding e using Suc.prems(1) by blast
  have p2: "(if resourceType = OrgResourceType
          then authorizedOrgNamespaces c (k + 500 + 500 * n) info
          else authorizedSpaceNamespaces c (k + 500 + 500 * n) info) = Inr m"
    unfolding e by (rule Suc.prems(2))
  have p4: "k + 500 + 500 * n - t1 < timeout r"
    unfolding e by (rule Suc.prems(4))
  from Suc.IH [OF p1 p2 Suc.prems(3) p4] step show ?case
    by (simp only: e)
qed

lemma awaitPermissions_first_present:
  assumes "\<forall>i<n. \<exists>m. (if resourceType = OrgResourceType
                         then authorizedOrgNamespaces c (clock c + 500 * i) info
                         else authorizedSpaceNamespaces c (clock c + 500 * i) info) = Inr m
                      \<and> map_of m nm = None"
    and "(if resourceType = OrgResourceType
          then authorizedOrgNamespaces c (clock c + 500 * n) info
          else authorizedSpaceNamespaces c (clock c + 500 * n) info) = Inr m"
    and "map_of m nm = Some b"
    and "clock c + 500 * n - t1 < timeout r"
  shows "awaitPermissions r info resourceType nm t1 c = (None, c\<lparr> clock := clock c + 500 * n \<rparr>)"
  using awaitPermissions_first_present_at [OF assms] by simp

text \<open>
  C9. The permission wait reads the map returned by \<open>NamespacePermissions\<close> at every
  poll before its deadline and tests whether the new namespace is a key: with the key
  present it ends with success at once, whatever boolean the key is mapped to (so also
  for false); with the key absent it sleeps and polls again; it succeeds at the first
  poll that shows the key; a failed query ends it with that error and the deadline ends
  it with the timeout error. The whole provisioning call succeeds likewise on a key mapped
  to false. \<open>ListOrgs\<close> and \<open>ListSpaces\<close> return a record only when its GUID is mapped
  to true. For a map that holds a namespace mapped to false, provisioning takes the
  permissions as established while listing leaves that namespace out.
\<close>

theorem wait_tests_key_listing_tests_value:
  "(timeout r \<le> clock c - t1
    \<longrightarrow> awaitPermissions r info resourceType nm t1 c =
          (Some (Errorf ''failed establishing permissions in new namespace after %s: %w''
                   [DurationArg (clock c - t1)] None), c))
   \<and> (clock c - t1 < timeout r
      \<and> (if resourceType = OrgResourceType then GetAuthorizedOrgNamespaces c info
          else GetAuthorizedSpaceNamespaces c info) = Inl err
    \<longrightarrow> awaitPermissions r info resourceType nm t1 c = (Some err, c))
   \<and> (clock c - t1 < timeout r
      \<and> (if resourceType = OrgResourceType then GetAuthorizedOrgNamespaces c info
          else GetAuthorizedSpaceNamespaces c info) = Inr m
      \<and> map_of m nm = Some b
    \<longrightarrow> awaitPermissions r info resourceType nm t1 c = (None, c))
   \<and> (clock c - t1 < timeout r
      \<and> (if resourceType = OrgResourceType then GetAuthorizedOrgNamespaces c info
          else GetAuthorizedSpaceNamespaces c info) = Inr m
      \<and> map_of m nm = None
    \<longrightarrow> awaitPermissions r info resourceType nm t1 c =
          awaitPermissions r info resourceType nm t1 (c\<lparr> clock := clock c + 500 \<rparr>))
   \<and> ((\<forall>i<n. \<exists>m0. (if resourceType = OrgResourceType
                        then authorizedOrgNamespaces c (clock c + 500 * i) info
                        else authorizedSpaceNamespaces c (clock c + 500 * i) info) = Inr m0
                     \<and> map_of m0 nm = None)
      \<and> (if resourceType = OrgResourceType
          then authorizedOrgNamespaces c (clock c + 500 * n) info
          else authorizedSpaceNamespaces c (clock c + 500 * n) info) = Inr mn
      \<and> map_of mn nm = Some bn
      \<and> clock c + 500 * n - t1 < timeout r
    \<longrightarrow> awaitPermissions r info resourceType nm t1 c = (None, c\<lparr> clock := clock c + 500 * n \<rparr>))
   \<and> (Create_anchor c userClient anchor = (None, c1)
      \<and> Watch c1 Privileged KSubnamespaceAnchor (anchor_Namespace anchor) (anchor_Name anchor)
           = Inr events
      \<and> awaitStateOk events = Some createdAnchor
      \<and> 0 < timeout r
      \<and> (if resourceType = OrgResourceType then GetAuthorizedOrgNamespaces c info
          else GetAuthorizedSpaceNamespaces c info) = Inr m
      \<and> map_of m (anchor_Name anchor) = Some b
    \<longrightarrow> createSubnamespaceAnchor r c info userClient anchor resourceType = (Inr createdAnchor, c1))
   \<and> (Create_cfOrg c userClient org = (None, c1')
      \<and> Watch c1' Privileged KCFOrg (cforg_Namespace org) (cforg_Name org) = Inr events'
      \<and> awaitConditionReady events' = Some createdOrg
      \<and> 0 < timeout r
      \<and> GetAuthorizedOrgNamespaces c info = Inr m
      \<and> map_of m (cforg_Name org) = Some b
    \<longrightarrow> createOrgCR r c info userClient org = (Inr createdOrg, c1'))
   \<and> (\<forall>rs. ListOrgs r c info flt = Inr rs \<and> GetAuthorizedOrgNamespaces c info = Inr m
         \<longrightarrow> (\<forall>rec \<in> set rs. map_of m (OrgRecord.GUID rec) = Some True))
   \<and> (\<forall>rs. ListOrgs_CFOrg r c info flt = Inr rs \<and> GetAuthorizedOrgNamespaces c info = Inr m
         \<longrightarrow> (\<forall>rec \<in> set rs. map_of m (OrgRecord.GUID rec) = Some True))
   \<and> (\<forall>rs. ListSpaces r c info message = Inr rs \<and> GetAuthorizedSpaceNamespaces c info = Inr m
         \<longrightarrow> (\<forall>rec \<in> set rs. map_of m (SpaceRecord.GUID rec) = Some True))"
proof (intro conjI impI allI ballI)
  assume "timeout r \<le> clock c - t1"
  then show "awaitPermissions r info resourceType nm t1 c =
          (Some (Errorf ''failed establishing permissions in new namespace after %s: %w''
                   [DurationArg (clock c - t1)] None), c)"
    by (rule awaitPermissions_timed_out)
next
  assume "clock c - t1 < timeout r
      \<and> (if resourceType = OrgResourceType then GetAuthorizedOrgNamespaces c info
          else GetAuthorizedSpaceNamespaces c info) = Inl err"
  then show "awaitPermissions r info resourceType nm t1 c = (Some err, c)"
    by (intro awaitPermissions_query_error) simp_all
next
  assume "clock c - t1 < timeout r
      \<and> (if resourceType = OrgResourceType then GetAuthorizedOrgNamespaces c info
          else GetAuthorizedSpaceNamespaces c info) = Inr m
      \<and> map_of m nm = Some b"
  then show "awaitPermissions r info resourceType nm t1 c = (None, c)"
    by (intro awaitPermissions_present [where m = m and b = b]) simp_all
next
  assume "clock c - t1 < timeout r
      \<and> (if resourceType = OrgResourceType then GetAuthorizedOrgNamespaces c info
          else GetAuthorizedSpaceNamespaces c info) = Inr m
      \<and> map_of m nm = None"
  then show "awaitPermissions r info resourceType nm t1 c =
          awaitPermissions r info resourceType nm t1 (c\<lparr> clock := clock c + 500 \<rparr>)"
    by (intro awaitPermissions_absent [where m = m]) simp_all
next
  assume a: "(\<forall>i<n. \<exists>m0. (if resourceType = OrgResourceType
                        then authorizedOrgNamespaces c (clock c + 500 * i) info
                        else authorizedSpaceNamespaces c (clock c + 500 * i) info) = Inr m0
                     \<and> map_of m0 nm = None)
      \<and> (if resourceType = OrgResourceType
          then authorizedOrgNamespaces c (clock c + 500 * n) info
          else authorizedSpaceNamespaces c (clock c + 500 * n) info) = Inr mn
      \<and> map_of mn nm = Some bn
      \<and> clock c + 500 * n - t1 < timeout r"
  show "awaitPermissions r info resourceType nm t1 c = (None, c\<lparr> clock := clock c + 500 * n \<rparr>)"
    by (rule awaitPermissions_first_present
               [OF a [THEN conjunct1] a [THEN conjunct2, THEN conjunct1]
                   a [THEN conjunct2, THEN conjunct2, THEN conjunct1]
                   a [THEN conjunct2, THEN conjunct2, THEN conjunct2]])
next
  assume "Create_anchor c userClient anchor = (None, c1)
      \<and> Watch c1 Privileged KSubnamespaceAnchor (anchor_Namespace anchor) (anchor_Name anchor)
           = Inr events
      \<and> awaitStateOk events = Some createdAnchor
      \<and> 0 < timeout r
      \<and> (if resourceType = OrgResourceType then GetAuthorizedOrgNamespaces c info
          else GetAuthorizedSpaceNamespaces c info) = Inr m
      \<and> map_of m (anchor_Name anchor) = Some b"
  then show "createSubnamespaceAnchor r c info userClient anchor resourceType = (Inr createdAnchor, c1)"
    by (intro createSubnamespaceAnchor_key_present [where m = m and b = b and events = events])
       simp_all
next
  assume "Create_cfOrg c userClient org = (None, c1')
      \<and> Watch c1' Privileged KCFOrg (cforg_Namespace org) (cforg_Name org) = Inr events'
      \<and> awaitConditionReady events' = Some createdOrg
      \<and> 0 < timeout r
      \<and> GetAuthorizedOrgNamespaces c info = Inr m
      \<and> map_of m (cforg_Name org) = Some b"
  then show "createOrgCR r c info userClient org = (Inr createdOrg, c1')"
    by (intro createOrgCR_key_present [where m = m and b = b and events = events'])
       simp_all
next
  fix rs rec
  assume "ListOrgs r c info flt = Inr rs \<and> GetAuthorizedOrgNamespaces c info = Inr m"
    and "rec \<in> set rs"
  then show "map_of m (OrgRecord.GUID rec) = Some True"
    by (intro ListOrgs_authorized [where rs = rs and flt = flt and r = r and c = c and info = info]) simp_all
next
  fix rs rec
  assume "ListOrgs_CFOrg r c info flt = Inr rs \<and> GetAuthorizedOrgNamespaces c info = Inr m"
    and "rec \<in> set rs"
  then show "map_of m (OrgRecord.GUID rec) = Some True"
    by (intro ListOrgs_CFOrg_authorized [where rs = rs and flt = flt and r = r and c = c and info = info]) simp_all
next
  fix rs rec
  assume "ListSpaces r c info message = Inr rs \<and> GetAuthorizedSpaceNamespaces c info = Inr m"
    and "rec \<in> set rs"
  then show "map_of m (SpaceRecord.GUID rec) = Some True"
    by (intro ListSpaces_authorized [where rs = rs and message = message and r = r and c = c and info = info]) simp_all
qed

theorem wait_tests_key_listing_tests_value_witness:
  "map_of [(''cf-org-1'', True), (''cf-org-3'', False)] ''cf-org-3'' = Some False
   \<and> awaitPermissions example_repo ''alice'' OrgResourceType ''cf-org-3'' 0 example_cluster
       = (None, example_cluster)
   \<and> awaitPermissions example_repo ''erin'' OrgResourceType ''cf-org-9'' 0 example_cluster
       = (None, example_cluster\<lparr> clock := 500 \<rparr>)
   \<and> (\<exists>rs. ListOrgs example_repo example_cluster ''alice''
               \<lparr> ListOrgsMessage.Names = [], GUIDs = [] \<rparr> = Inr rs
            \<and> (\<forall>rec \<in> set rs. OrgRecord.GUID rec \<noteq> ''cf-org-3''))"
proof -
  let ?m = "[(''cf-org-1'', True), (''cf-org-3'', False)]"
  let ?flt = "\<lparr> ListOrgsMessage.Names = [], GUIDs = [] \<rparr>"
  note T = wait_tests_key_listing_tests_value
    [where r = example_repo and c = example_cluster and info = "''alice''" and m = ?m
       and resourceType = OrgResourceType and nm = "''cf-org-3''" and ?t1.0 = 0 and b = False
       and flt = ?flt]
  note E = wait_tests_key_listing_tests_value
    [where r = example_repo and c = example_cluster and info = "''erin''"
       and resourceType = OrgResourceType and nm = "''cf-org-9''" and ?t1.0 = 0
       and n = 1 and mn = "[(''cf-org-9'', False)]" and bn = False]
  have h: "clock example_cluster - 0 < timeout example_repo
      \<and> (if OrgResourceType = OrgResourceType
          then GetAuthorizedOrgNamespaces example_cluster ''alice''
          else GetAuthorizedSpaceNamespaces example_cluster ''alice'') = Inr ?m
      \<and> map_of ?m ''cf-org-3'' = Some False"
    by (simp add: GetAuthorizedOrgNamespaces_def example_defs)
  have h3: "map_of ?m ''cf-org-3'' = Some False"
    by simp
  have e: "(\<forall>i<1. \<exists>m0. (if OrgResourceType = OrgResourceType
                        then authorizedOrgNamespaces example_cluster (clock example_cluster + 500 * i) ''erin''
                        else authorizedSpaceNamespaces example_cluster (clock example_cluster + 500 * i) ''erin'')
                         = Inr m0
                     \<and> map_of m0 ''cf-org-9'' = None)
      \<and> (if OrgResourceType = OrgResourceType
          then authorizedOrgNamespaces example_cluster (clock example_cluster + 500 * 1) ''erin''
          else authorizedSpaceNamespaces example_cluster (clock example_cluster + 500 * 1) ''erin'')
           = Inr [(''cf-org-9'', False)]
      \<and> map_of [(''cf-org-9'', False)] ''cf-org-9'' = Some False
      \<and> clock example_cluster + 500 * 1 - 0 < timeout example_repo"
    by (simp add: example_defs)
  have a: "GetAuthorizedOrgNamespaces example_cluster ''alice'' = Inr ?m"
    by (simp add: GetAuthorizedOrgNamespaces_def example_cluster_def)
  obtain rs where l: "ListOrgs example_repo example_cluster ''alice'' ?flt = Inr rs"
    by (simp add: example_defs eval_defs)
  note w = T [THEN conjunct2, THEN conjunct2, THEN conjunct1, THEN mp, OF h]
  have w2: "awaitPermissions example_repo ''erin'' OrgResourceType ''cf-org-9'' 0 example_cluster
       = (None, example_cluster\<lparr> clock := 500 \<rparr>)"
    using E [THEN conjunct2, THEN conjunct2, THEN conjunct2, THEN conjunct2, THEN conjunct1,
             THEN mp, OF e]
    by (simp add: example_cluster_def)
  note v = T [THEN conjunct2, THEN conjunct2, THEN conjunct2, THEN conjunct2, THEN conjunct2,
              THEN conjunct2, THEN conjunct2, THEN conjunct1, THEN spec,
              THEN mp, OF conjI [OF l a]]
  have "\<forall>rec \<in> set rs. OrgRecord.GUID rec \<noteq> ''cf-org-3''"
    using v by auto
  with l w w2 h3 show ?thesis by blast
qed


section \<open>Service bindings\<close>

lemma scanServiceBindings_iff:
  "scanServiceBindings items appGUID serviceInstanceGUID
     = (\<exists>b \<in> set items. binding_AppRefName b = appGUID \<and> binding_ServiceName b = serviceInstanceGUID)"
  by (induction items) auto

lemma BuildClient_ok: "buildClientFailure c info = None \<Longrightarrow> BuildClient c info = Inr (User info)"
  by (simp add: BuildClient_def)

text \<open>
  C6. For a space GUID that is not the empty string,
  \<open>ServiceBindingExists spaceGUID appGUID instanceGUID\<close> returns true exactly when the
  caller's client is built, the list of the space namespace succeeds and some binding
  listed there has its application reference equal to \<open>appGUID\<close> and its service
  reference equal to \<open>instanceGUID\<close>; when every listed binding differs in at least one
  of the two, it returns false.
\<close>

theorem ServiceBindingExists_iff_both_match:
  assumes "spaceGUID \<noteq> []"
  shows "((ServiceBindingExists c authInfo spaceGUID appGUID serviceInstanceGUID = Inr True)
      = (buildClientFailure c authInfo = None
         \<and> faults c (User authInfo) VList KCFServiceBinding spaceGUID [] = None
         \<and> (\<exists>b \<in> set (cfServiceBindings c). binding_Namespace b = spaceGUID
               \<and> binding_AppRefName b = appGUID \<and> binding_ServiceName b = serviceInstanceGUID)))
   \<and> (buildClientFailure c authInfo = None
         \<and> faults c (User authInfo) VList KCFServiceBinding spaceGUID [] = None
         \<and> (\<forall>b \<in> set (cfServiceBindings c). binding_Namespace b = spaceGUID
               \<longrightarrow> binding_AppRefName b \<noteq> appGUID \<or> binding_ServiceName b \<noteq> serviceInstanceGUID)
       \<longrightarrow> ServiceBindingExists c authInfo spaceGUID appGUID serviceInstanceGUID = Inr False)"
  using assms
  by (auto simp: ServiceBindingExists_def BuildClient_def List_bindings_def in_namespace_def
      scanServiceBindings_iff split: option.splits)

theorem ServiceBindingExists_iff_both_match_witness:
  "ServiceBindingExists example_cluster ''alice'' ''cf-space-1'' ''app-1'' ''instance-1'' = Inr True
   \<and> ServiceBindingExists example_cluster ''alice'' ''cf-space-1'' ''app-1'' ''instance-2'' = Inr False
   \<and> ServiceBindingExists example_cluster ''alice'' ''cf-space-1'' ''app-3'' ''instance-1'' = Inr False"
proof -
  have n: "''cf-space-1'' \<noteq> []"
    by simp
  show ?thesis
    using ServiceBindingExists_iff_both_match
            [OF n, of example_cluster "''alice''" "''app-1''" "''instance-1''"]
          ServiceBindingExists_iff_both_match
            [OF n, of example_cluster "''alice''" "''app-1''" "''instance-2''"]
          ServiceBindingExists_iff_both_match
            [OF n, of example_cluster "''alice''" "''app-3''" "''instance-1''"]
    by (simp add: example_defs)
qed

lemma ForbiddenAsNotFound_not_Forbidden: "ForbiddenAsNotFound err \<noteq> ForbiddenError cause resourceType"
  by (cases err) simp_all

lemma Get_binding_forbidden:
  "faults c cl VGet KCFServiceBinding ns nm = Some K8sForbidden
     \<Longrightarrow> Get_binding c cl ns nm = Inl (StatusError K8sForbidden)"
  by (simp add: Get_binding_def)

lemma Get_binding_absent:
  "faults c cl VGet KCFServiceBinding ns nm = None
     \<Longrightarrow> \<not> (\<exists>b \<in> set (cfServiceBindings c). binding_Namespace b = ns \<and> binding_Name b = nm)
     \<Longrightarrow> Get_binding c cl ns nm = Inl (StatusError K8sNotFound)"
  by (auto simp: Get_binding_def find_None_iff split: option.splits)

lemma DeleteServiceBinding_fetch_error:
  assumes "buildClientFailure c authInfo = None"
    and "namespaceFor c guid ServiceBindingResourceType = Inr ns"
    and "Get_binding c (User authInfo) ns guid = Inl err"
  shows "DeleteServiceBinding c authInfo guid =
           (Some (ForbiddenAsNotFound (FromK8sError err ServiceBindingResourceType)), c)"
  using assms by (simp add: DeleteServiceBinding_def BuildClient_def)

text \<open>
  C4. When the fetch of the binding in its resolved namespace fails in
  \<open>DeleteServiceBinding\<close>, because the caller is forbidden or because no such binding is
  there, the call returns the NotFound error of type Service Binding and deletes nothing;
  whatever the fetch error, the error returned is never a Forbidden error.
\<close>

theorem DeleteServiceBinding_fetch_failure_NotFound:
  assumes "buildClientFailure c authInfo = None"
    and "namespaceFor c guid ServiceBindingResourceType = Inr ns"
  shows "(faults c (User authInfo) VGet KCFServiceBinding ns guid = Some K8sForbidden
            \<longrightarrow> DeleteServiceBinding c authInfo guid =
                  (Some (NotFoundError (Some (StatusError K8sForbidden)) ServiceBindingResourceType), c))
       \<and> (faults c (User authInfo) VGet KCFServiceBinding ns guid = None
            \<and> \<not> (\<exists>b \<in> set (cfServiceBindings c). binding_Namespace b = ns \<and> binding_Name b = guid)
            \<longrightarrow> DeleteServiceBinding c authInfo guid =
                  (Some (NotFoundError (Some (StatusError K8sNotFound)) ServiceBindingResourceType), c))
       \<and> (\<forall>err. Get_binding c (User authInfo) ns guid = Inl err
            \<longrightarrow> (\<forall>cause resourceType.
                   fst (DeleteServiceBinding c authInfo guid) \<noteq> Some (ForbiddenError cause resourceType))
                \<and> snd (DeleteServiceBinding c authInfo guid) = c)"
proof (intro conjI impI allI)
  assume "faults c (User authInfo) VGet KCFServiceBinding ns guid = Some K8sForbidden"
  from DeleteServiceBinding_fetch_error [OF assms Get_binding_forbidden [OF this]]
  show "DeleteServiceBinding c authInfo guid =
          (Some (NotFoundError (Some (StatusError K8sForbidden)) ServiceBindingResourceType), c)"
    by simp
next
  assume a: "faults c (User authInfo) VGet KCFServiceBinding ns guid = None
            \<and> \<not> (\<exists>b \<in> set (cfServiceBindings c). binding_Namespace b = ns \<and> binding_Name b = guid)"
  then have "Get_binding c (User authInfo) ns guid = Inl (StatusError K8sNotFound)"
    by (intro Get_binding_absent) simp_all
  from DeleteServiceBinding_fetch_error [OF assms this]
  show "DeleteServiceBinding c authInfo guid =
          (Some (NotFoundError (Some (StatusError K8sNotFound)) ServiceBindingResourceType), c)"
    by simp
next
  fix err cause resourceType
  assume "Get_binding c (User authInfo) ns guid = Inl err"
  note e = DeleteServiceBinding_fetch_error [OF assms this]
  show "fst (DeleteServiceBinding c authInfo guid) \<noteq> Some (ForbiddenError cause resourceType)"
    by (simp add: e ForbiddenAsNotFound_not_Forbidden)
  show "snd (DeleteServiceBinding c authInfo guid) = c"
    by (simp add: e)
qed

theorem DeleteServiceBinding_fetch_failure_NotFound_witness:
  "DeleteServiceBinding example_cluster ''bob'' ''binding-1''
     = (Some (NotFoundError (Some (StatusError K8sForbidden)) ServiceBindingResourceType), example_cluster)
   \<and> DeleteServiceBinding example_cluster ''alice'' ''binding-7''
     = (Some (NotFoundError (Some (StatusError K8sNotFound)) ServiceBindingResourceType), example_cluster)"
proof -
  have b: "buildClientFailure example_cluster ''bob'' = None"
    and a: "buildClientFailure example_cluster ''alice'' = None"
    by (simp_all add: example_cluster_def)
  have n1: "namespaceFor example_cluster ''binding-1'' ServiceBindingResourceType = Inr ''cf-space-1''"
    and n7: "namespaceFor example_cluster ''binding-7'' ServiceBindingResourceType = Inr ''cf-space-1''"
    by (simp_all add: example_cluster_def)
  have f: "faults example_cluster (User ''bob'') VGet KCFServiceBinding ''cf-space-1'' ''binding-1''
             = Some K8sForbidden"
    by (simp add: example_cluster_def)
  have g: "faults example_cluster (User ''alice'') VGet KCFServiceBinding ''cf-space-1'' ''binding-7'' = None
            \<and> \<not> (\<exists>b \<in> set (cfServiceBindings example_cluster).
                     binding_Namespace b = ''cf-space-1'' \<and> binding_Name b = ''binding-7'')"
    by (simp add: example_defs)
  from DeleteServiceBinding_fetch_failure_NotFound [OF b n1, THEN conjunct1, THEN mp, OF f]
       DeleteServiceBinding_fetch_failure_NotFound [OF a n7, THEN conjunct2, THEN conjunct1, THEN mp, OF g]
  show ?thesis by (intro conjI)
qed

lemma applyServiceBindingListFilter_eq:
  "applyServiceBindingListFilter items message =
     filter (\<lambda>b. matchesFilter (binding_ServiceName b) (ServiceInstanceGUIDs message)
                \<and> matchesFilter (binding_AppRefName b) (AppGUIDs message)) items"
  by (induction items) auto

lemma List_bindings_cases:
  "List_bindings c cl ns =
     (case faults c cl VList KCFServiceBinding ns [] of
        Some k \<Rightarrow> Inl (StatusError k)
      | None \<Rightarrow>
          Inr (filter (\<lambda>b. in_namespace (Some ns) (binding_Namespace b)) (cfServiceBindings c)))"
  by (simp add: List_bindings_def)

lemma IsForbidden_iff: "IsForbidden (StatusError k) = (k = K8sForbidden)"
  by (cases k) simp_all

lemma listNamespaces_ok:
  assumes "\<forall>ns \<in> set nss. faults c cl VList KCFServiceBinding ns [] = None
              \<or> faults c cl VList KCFServiceBinding ns [] = Some K8sForbidden"
  shows "listNamespaces c cl message nss acc
           = Inr (acc @ concat (map (namespace_results c cl message) nss))"
  using assms
proof (induction nss arbitrary: acc)
  case Nil
  then show ?case by simp
next
  case (Cons ns rest)
  from Cons.prems have rest: "\<forall>ns \<in> set rest. faults c cl VList KCFServiceBinding ns [] = None
              \<or> faults c cl VList KCFServiceBinding ns [] = Some K8sForbidden"
    by simp
  from Cons.prems consider "faults c cl VList KCFServiceBinding ns [] = None"
    | "faults c cl VList KCFServiceBinding ns [] = Some K8sForbidden"
    by auto
  then show ?case
  proof cases
    case 1
    have "applyServiceBindingListFilter
            (filter (\<lambda>b. in_namespace (Some ns) (binding_Namespace b)) (cfServiceBindings c)) message
          = namespace_results c cl message ns"
      using 1 by (simp add: namespace_results_def applyServiceBindingListFilter_eq conj_commute
          cong: conj_cong)
    with 1 show ?thesis
      by (simp add: List_bindings_cases Cons.IH [OF rest])
  next
    case 2
    then show ?thesis
      by (simp add: List_bindings_cases Cons.IH [OF rest] namespace_results_def)
  qed
qed

lemma listNamespaces_error:
  assumes "ns \<in> set nss" and "faults c cl VList KCFServiceBinding ns [] = Some k"
    and "k \<noteq> K8sForbidden"
  shows "\<exists>ns' \<in> set nss. \<exists>k'. faults c cl VList KCFServiceBinding ns' [] = Some k' \<and> k' \<noteq> K8sForbidden
          \<and> listNamespaces c cl message nss acc
               = Inl (Errorf ''failed to list service instances in namespace %s: %w'' [StrArg ns']
                        (Some (FromK8sError (StatusError k') ServiceBindingResourceType)))"
  using assms
proof (induction nss arbitrary: acc)
  case Nil
  then show ?case by simp
next
  case (Cons n rest)
  show ?case
  proof (cases "faults c cl VList KCFServiceBinding n []")
    case None
    with Cons.prems have "ns \<in> set rest" by auto
    from Cons.IH [OF this Cons.prems(2,3)] None show ?thesis
      by (simp add: List_bindings_cases)
  next
    case (Some k0)
    show ?thesis
    proof (cases "k0 = K8sForbidden")
      case True
      with Some Cons.prems have "ns \<in> set rest" by auto
      from Cons.IH [OF this Cons.prems(2,3)] Some True show ?thesis
        by (simp add: List_bindings_cases)
    next
      case False
      with Some show ?thesis
        by (simp add: List_bindings_cases IsForbidden_iff)
    qed
  qed
qed

lemma ListServiceBindings_unfold:
  assumes "GetAuthorizedSpaceNamespaces c authInfo = Inr nsList"
    and "buildClientFailure c authInfo = None"
  shows "ListServiceBindings c authInfo message =
           (case listNamespaces c (User authInfo) message (map fst nsList) [] of
              Inl err \<Rightarrow> Inl err
            | Inr filteredServiceBindings \<Rightarrow> Inr (toServiceBindingRecords filteredServiceBindings))"
  using assms by (simp add: ListServiceBindings_def BuildClient_def)

lemma namespace_results_member:
  assumes "b \<in> set (namespace_results c cl message ns)"
  shows "(ns = [] \<or> binding_Namespace b = ns)
       \<and> matchesFilter (binding_ServiceName b) (ServiceInstanceGUIDs message)
       \<and> matchesFilter (binding_AppRefName b) (AppGUIDs message)"
  using assms by (auto simp: namespace_results_def in_namespace_def split: if_splits)

text \<open>
  C7 (as amended). \<open>ListServiceBindings\<close> visits every key of the map returned by
  \<open>GetAuthorizedSpaceNamespaces\<close>, whatever boolean the key is mapped to (a key mapped
  to false is visited too). When every visited namespace lists or is forbidden, the
  result is the concatenation, in the order of the visit, of what each namespace
  contributes: nothing for a forbidden one, otherwise the bindings of the namespace
  whose instance GUID and application GUID pass the membership tests. Any other error on
  a namespace fails the call with the error naming a namespace. Every returned record
  passes both membership tests and, when no key is the empty string, belongs to a visited
  namespace; an empty filter list matches everything.
\<close>

theorem ListServiceBindings_visits_every_key:
  assumes "GetAuthorizedSpaceNamespaces c authInfo = Inr nsList"
    and "buildClientFailure c authInfo = None"
  shows "((\<forall>ns \<in> set (map fst nsList).
             faults c (User authInfo) VList KCFServiceBinding ns [] = None
             \<or> faults c (User authInfo) VList KCFServiceBinding ns [] = Some K8sForbidden)
          \<longrightarrow> ListServiceBindings c authInfo message =
                Inr (map cfServiceBindingToRecord
                       (concat (map (namespace_results c (User authInfo) message) (map fst nsList)))))
       \<and> ((\<exists>ns \<in> set (map fst nsList). \<exists>k.
              faults c (User authInfo) VList KCFServiceBinding ns [] = Some k \<and> k \<noteq> K8sForbidden)
          \<longrightarrow> (\<exists>ns \<in> set (map fst nsList). \<exists>k.
                  faults c (User authInfo) VList KCFServiceBinding ns [] = Some k \<and> k \<noteq> K8sForbidden
                  \<and> ListServiceBindings c authInfo message =
                      Inl (Errorf ''failed to list service instances in namespace %s: %w'' [StrArg ns]
                             (Some (FromK8sError (StatusError k) ServiceBindingResourceType)))))
       \<and> (\<forall>recs. ListServiceBindings c authInfo message = Inr recs
            \<longrightarrow> (\<forall>rec \<in> set recs.
                   ([] \<notin> set (map fst nsList) \<longrightarrow> SpaceGUID rec \<in> set (map fst nsList))
                   \<and> matchesFilter (AppGUID rec) (AppGUIDs message)
                   \<and> matchesFilter (ServiceInstanceGUID rec) (ServiceInstanceGUIDs message)))
       \<and> (\<forall>ns. faults c (User authInfo) VList KCFServiceBinding ns [] = Some K8sForbidden
            \<longrightarrow> namespace_results c (User authInfo) message ns = [])
       \<and> (\<forall>ns. ns \<noteq> [] \<and> faults c (User authInfo) VList KCFServiceBinding ns [] = None
            \<longrightarrow> namespace_results c (User authInfo) message ns =
                  filter (\<lambda>b. binding_Namespace b = ns
                              \<and> matchesFilter (binding_ServiceName b) (ServiceInstanceGUIDs message)
                              \<and> matchesFilter (binding_AppRefName b) (AppGUIDs message))
                    (cfServiceBindings c))
       \<and> (\<forall>v. matchesFilter v [])
       \<and> (\<forall>v vs. vs \<noteq> [] \<longrightarrow> matchesFilter v vs = (v \<in> set vs))"
proof -
  note U = ListServiceBindings_unfold [OF assms, of message]
  let ?ok = "\<forall>ns \<in> set (map fst nsList).
             faults c (User authInfo) VList KCFServiceBinding ns [] = None
             \<or> faults c (User authInfo) VList KCFServiceBinding ns [] = Some K8sForbidden"
  have A: "ListServiceBindings c authInfo message =
                Inr (map cfServiceBindingToRecord
                       (concat (map (namespace_results c (User authInfo) message) (map fst nsList))))"
    if "?ok"
    using listNamespaces_ok [OF that, of message "[]"]
    by (simp add: U toServiceBindingRecords_def)
  have B: "\<exists>ns \<in> set (map fst nsList). \<exists>k.
                  faults c (User authInfo) VList KCFServiceBinding ns [] = Some k \<and> k \<noteq> K8sForbidden
                  \<and> ListServiceBindings c authInfo message =
                      Inl (Errorf ''failed to list service instances in namespace %s: %w'' [StrArg ns]
                             (Some (FromK8sError (StatusError k) ServiceBindingResourceType)))"
    if "\<exists>ns \<in> set (map fst nsList). \<exists>k.
              faults c (User authInfo) VList KCFServiceBinding ns [] = Some k \<and> k \<noteq> K8sForbidden"
  proof -
    from that obtain ns k where nk: "ns \<in> set (map fst nsList)"
      "faults c (User authInfo) VList KCFServiceBinding ns [] = Some k" "k \<noteq> K8sForbidden"
      by blast
    from listNamespaces_error [OF nk, of message "[]"] obtain ns' k' where
      "ns' \<in> set (map fst nsList)"
      "faults c (User authInfo) VList KCFServiceBinding ns' [] = Some k'" "k' \<noteq> K8sForbidden"
      "listNamespaces c (User authInfo) message (map fst nsList) []
               = Inl (Errorf ''failed to list service instances in namespace %s: %w'' [StrArg ns']
                        (Some (FromK8sError (StatusError k') ServiceBindingResourceType)))"
      by blast
    then show ?thesis
      by (intro bexI [of _ ns'] exI [of _ k']) (simp_all add: U)
  qed
  have C: "\<forall>rec \<in> set recs.
                   ([] \<notin> set (map fst nsList) \<longrightarrow> SpaceGUID rec \<in> set (map fst nsList))
                   \<and> matchesFilter (AppGUID rec) (AppGUIDs message)
                   \<and> matchesFilter (ServiceInstanceGUID rec) (ServiceInstanceGUIDs message)"
    if r: "ListServiceBindings c authInfo message = Inr recs" for recs
  proof -
    have ok: "?ok"
    proof (rule ccontr)
      assume "\<not> ?ok"
      then have "\<exists>ns \<in> set (map fst nsList). \<exists>k.
              faults c (User authInfo) VList KCFServiceBinding ns [] = Some k \<and> k \<noteq> K8sForbidden"
        by (metis option.exhaust)
      from B [OF this] r show False by auto
    qed
    from A [OF ok] r have recs: "recs = map cfServiceBindingToRecord
                       (concat (map (namespace_results c (User authInfo) message) (map fst nsList)))"
      by simp
    show ?thesis
    proof
      fix rec assume "rec \<in> set recs"
      then obtain b ns where b: "rec = cfServiceBindingToRecord b" "ns \<in> set (map fst nsList)"
        "b \<in> set (namespace_results c (User authInfo) message ns)"
        unfolding recs by auto
      note m = namespace_results_member [OF b(3)]
      from m b(2) have "[] \<notin> set (map fst nsList)
                          \<longrightarrow> binding_Namespace b \<in> set (map fst nsList)"
        by metis
      with m b(1)
      show "([] \<notin> set (map fst nsList) \<longrightarrow> SpaceGUID rec \<in> set (map fst nsList))
                   \<and> matchesFilter (AppGUID rec) (AppGUIDs message)
                   \<and> matchesFilter (ServiceInstanceGUID rec) (ServiceInstanceGUIDs message)"
        by (simp add: cfServiceBindingToRecord_def)
    qed
  qed
  have D: "\<forall>ns. faults c (User authInfo) VList KCFServiceBinding ns [] = Some K8sForbidden
            \<longrightarrow> namespace_results c (User authInfo) message ns = []"
    by (simp add: namespace_results_def)
  have D': "\<forall>ns. ns \<noteq> [] \<and> faults c (User authInfo) VList KCFServiceBinding ns [] = None
            \<longrightarrow> namespace_results c (User authInfo) message ns =
                  filter (\<lambda>b. binding_Namespace b = ns
                              \<and> matchesFilter (binding_ServiceName b) (ServiceInstanceGUIDs message)
                              \<and> matchesFilter (binding_AppRefName b) (AppGUIDs message))
                    (cfServiceBindings c)"
    by (simp add: namespace_results_def in_namespace_def)
  have E: "\<forall>v. matchesFilter v []"
    by (simp add: matchesFilter_def)
  have F: "\<forall>v vs. vs \<noteq> [] \<longrightarrow> matchesFilter v vs = (v \<in> set vs)"
    by (simp add: matchesFilter_def)
  from A B C D D' E F show ?thesis by blast
qed

theorem ListServiceBindings_visits_every_key_witness:
  "ListServiceBindings example_cluster ''carol'' \<lparr> AppGUIDs = [''app-2''], ServiceInstanceGUIDs = [] \<rparr>
     = Inr [cfServiceBindingToRecord (example_bindings ! 1)]"
proof -
  let ?msg = "\<lparr> AppGUIDs = [''app-2''], ServiceInstanceGUIDs = [] \<rparr>"
  have a: "GetAuthorizedSpaceNamespaces example_cluster ''carol''
             = Inr [(''cf-space-2'', True), (''cf-space-1'', True)]"
    by (simp add: GetAuthorizedSpaceNamespaces_def example_cluster_def)
  have b: "buildClientFailure example_cluster ''carol'' = None"
    by (simp add: example_cluster_def)
  have ok: "\<forall>ns \<in> set (map fst [(''cf-space-2'', True), (''cf-space-1'', True)]).
             faults example_cluster (User ''carol'') VList KCFServiceBinding ns [] = None
             \<or> faults example_cluster (User ''carol'') VList KCFServiceBinding ns [] = Some K8sForbidden"
    by (simp add: example_cluster_def)
  have r: "concat (map (namespace_results example_cluster (User ''carol'') ?msg)
                     (map fst [(''cf-space-2'', True), (''cf-space-1'', True)]))
             = [example_bindings ! 1]"
    by (simp add: namespace_results_def in_namespace_def example_defs matchesFilter_def)
  have "ListServiceBindings example_cluster ''carol'' ?msg
          = Inr (map cfServiceBindingToRecord
                   (concat (map (namespace_results example_cluster (User ''carol'') ?msg)
                              (map fst [(''cf-space-2'', True), (''cf-space-1'', True)]))))"
    by (rule ListServiceBindings_visits_every_key [OF a b, of ?msg, THEN conjunct1, THEN mp, OF ok])
  then show ?thesis
    by (subst (asm) r) simp
qed

text \<open>
  For caller \<open>dave\<close> the space \<open>cf-space-1\<close> is mapped to false: \<open>ListSpaces\<close> returns
  no space for him, and \<open>ListServiceBindings\<close> returns both bindings of that namespace.
\<close>

lemmas eval7_defs = ListServiceBindings_def List_bindings_def in_namespace_def BuildClient_def
  GetAuthorizedSpaceNamespaces_def matchesFilter_def toServiceBindingRecords_def
  ListSpaces_def List_anchors_def namespace_key_def selects_def orgUIDs_of_def toMap_def
  matchFilter_def index_bool_def index_string_def SpaceNameLabel_def

theorem ListServiceBindings_false_key_counterexample:
  "GetAuthorizedSpaceNamespaces example_cluster ''dave'' = Inr [(''cf-space-1'', False)]
   \<and> ListSpaces example_repo example_cluster ''dave''
        \<lparr> ListSpacesMessage.Names = [], GUIDs = [], OrganizationGUIDs = [] \<rparr> = Inr []
   \<and> ListServiceBindings example_cluster ''dave'' \<lparr> AppGUIDs = [], ServiceInstanceGUIDs = [] \<rparr>
       = Inr [cfServiceBindingToRecord (example_bindings ! 0),
              cfServiceBindingToRecord (example_bindings ! 1)]"
  by (simp add: eval7_defs example_defs)

section \<open>Looking up and deleting spaces and organizations\<close>

lemma GetSpace_select:
  assumes "faults c Privileged VList KSubnamespaceAnchor [] [] = None"
    and "GetAuthorizedSpaceNamespaces c info = Inr auth"
  shows "if (\<exists>a \<in> set (anchors c). anchor_Name a = spaceGUID \<and> anchor_State a = Ok
               \<and> (\<exists>org \<in> set (anchors c). anchor_Namespace org = rootNamespace r
                      \<and> anchor_Name org = anchor_Namespace a))
            \<and> map_of auth spaceGUID = Some True
         then \<exists>rec. GetSpace r c info spaceGUID = Inr rec \<and> SpaceRecord.GUID rec = spaceGUID
         else GetSpace r c info spaceGUID =
                Inl (NotFoundError (Some (Errorf ''space %q not found'' [StrArg spaceGUID] None))
                       SpaceResourceType)"
proof -
  let ?msg = "\<lparr> ListSpacesMessage.Names = [], GUIDs = [spaceGUID], OrganizationGUIDs = [] \<rparr>"
  let ?Q = "\<lambda>a. anchor_State a = Ok
                   \<and> matchFilter (toMap (ListSpacesMessage.Names ?msg))
                        (index_string (anchor_Labels a) SpaceNameLabel)
                   \<and> matchFilter (toMap (ListSpacesMessage.GUIDs ?msg)) (anchor_Name a)
                   \<and> anchor_Namespace a \<in>
                        orgUIDs_of r (toMap (ListSpacesMessage.OrganizationGUIDs ?msg)) (anchors c)
                   \<and> index_bool auth (anchor_Name a)"
  define xs where "xs = filter ?Q (anchors c)"
  have L: "ListSpaces r c info ?msg = Inr (map anchorToSpaceRecord xs)"
    unfolding xs_def by (rule ListSpaces_Inr [OF assms])
  have Q: "?Q a = (anchor_State a = Ok \<and> anchor_Name a = spaceGUID
                    \<and> (\<exists>org \<in> set (anchors c). anchor_Namespace org = rootNamespace r
                            \<and> anchor_Name org = anchor_Namespace a)
                    \<and> map_of auth spaceGUID = Some True)" for a
  proof -
    have "anchor_Namespace a \<in> orgUIDs_of r (toMap (ListSpacesMessage.OrganizationGUIDs ?msg)) (anchors c)
            = (\<exists>org \<in> set (anchors c). anchor_Namespace org = rootNamespace r
                            \<and> anchor_Name org = anchor_Namespace a)"
      by (simp add: orgUIDs_of_eq matchFilter_toMap) metis
    then show ?thesis
      by (auto simp: matchFilter_toMap index_bool_iff)
  qed
  show ?thesis
  proof (cases xs)
    case Nil
    then have "\<forall>a \<in> set (anchors c). \<not> ?Q a"
      unfolding xs_def by (simp only: filter_empty_conv) 
    then have "\<not> ((\<exists>a \<in> set (anchors c). anchor_Name a = spaceGUID \<and> anchor_State a = Ok
               \<and> (\<exists>org \<in> set (anchors c). anchor_Namespace org = rootNamespace r
                      \<and> anchor_Name org = anchor_Namespace a))
            \<and> map_of auth spaceGUID = Some True)"
      unfolding Q by blast
    moreover have "GetSpace r c info spaceGUID =
                Inl (NotFoundError (Some (Errorf ''space %q not found'' [StrArg spaceGUID] None))
                       SpaceResourceType)"
      by (simp add: GetSpace_def L Nil)
    ultimately show ?thesis by simp
  next
    case (Cons a rest)
    then have "a \<in> set xs" by simp
    then have a: "a \<in> set (anchors c)" "?Q a" unfolding xs_def by auto
    have "GetSpace r c info spaceGUID = Inr (anchorToSpaceRecord a)"
      by (simp add: GetSpace_def L Cons)
    moreover have "SpaceRecord.GUID (anchorToSpaceRecord a) = spaceGUID"
      using a(2) unfolding Q by (simp add: GUID_anchorToSpaceRecord)
    moreover have "(\<exists>a \<in> set (anchors c). anchor_Name a = spaceGUID \<and> anchor_State a = Ok
               \<and> (\<exists>org \<in> set (anchors c). anchor_Namespace org = rootNamespace r
                      \<and> anchor_Name org = anchor_Namespace a))
            \<and> map_of auth spaceGUID = Some True"
      using a unfolding Q by blast
    ultimately show ?thesis by simp
  qed
qed

lemma DeleteOrg_fetch_error:
  assumes "Get_hierarchyConfiguration c Privileged (DeleteOrgMessage.GUID message)
             hierarchyMetadataName = Inl err"
  shows "DeleteOrg r c info message = (Some (FromK8sError err OrgResourceType), c)"
  using assms by (simp add: DeleteOrg_def)

lemma Get_hierarchyConfiguration_absent:
  assumes "faults c cl VGet KHierarchyConfiguration ns nm = None"
    and "\<not> (\<exists>h \<in> set (hierarchyConfigurations c). hc_Namespace h = ns \<and> hc_Name h = nm)"
  shows "Get_hierarchyConfiguration c cl ns nm = Inl (StatusError K8sNotFound)"
  using assms by (auto simp: Get_hierarchyConfiguration_def find_None_iff split: option.splits)

lemma DeleteOrg_fetched:
  assumes "Get_hierarchyConfiguration c Privileged (DeleteOrgMessage.GUID message)
             hierarchyMetadataName = Inr hierarchyObj"
    and "buildClientFailure c info = None"
  shows "DeleteOrg r c info message =
           (map_option (\<lambda>e. FromK8sError e OrgResourceType)
              (fst (Delete_anchor c (User info) (rootNamespace r) (DeleteOrgMessage.GUID message))),
            snd (Delete_anchor c (User info) (rootNamespace r) (DeleteOrgMessage.GUID message)))"
  using assms by (simp add: DeleteOrg_def BuildClient_def split: prod.splits)

lemma DeleteSpace_direct:
  assumes "buildClientFailure c info = None"
  shows "DeleteSpace r c info message =
           (map_option (\<lambda>e. FromK8sError e SpaceResourceType)
              (fst (Delete_anchor c (User info) (DeleteSpaceMessage.OrganizationGUID message)
                      (DeleteSpaceMessage.GUID message))),
            snd (Delete_anchor c (User info) (DeleteSpaceMessage.OrganizationGUID message)
                   (DeleteSpaceMessage.GUID message)))"
  using assms by (simp add: DeleteSpace_def BuildClient_def split: prod.splits)

lemma DeleteSpace_ignores_hierarchy:
  "DeleteSpace r (c\<lparr> hierarchyConfigurations := hcs \<rparr>) info message =
     (fst (DeleteSpace r c info message),
      (snd (DeleteSpace r c info message))\<lparr> hierarchyConfigurations := hcs \<rparr>)"
  by (simp add: DeleteSpace_def BuildClient_def Delete_anchor_def split: option.splits)

lemma Delete_anchor_present:
  assumes "faults c cl VDelete KSubnamespaceAnchor ns nm = None"
    and "\<exists>a \<in> set (anchors c). anchor_Namespace a = ns \<and> anchor_Name a = nm"
  shows "Delete_anchor c cl ns nm =
           (None, c\<lparr> anchors := filter (\<lambda>a. \<not> (anchor_Namespace a = ns \<and> anchor_Name a = nm))
                                  (anchors c) \<rparr>)"
  using assms by (auto simp: Delete_anchor_def list_ex_iff)

text \<open>
  C8 (as amended). \<open>GetSpace\<close> is list-then-select like \<open>GetOrg\<close>, by the space
  GUID alone: when the list and the permission query succeed it returns a record exactly
  when an anchor of that name is in state Ok in a namespace named by an anchor under the
  root namespace and the GUID is mapped to true for the caller, and the NotFound error of
  type Space otherwise. \<open>DeleteOrg\<close> first fetches the hierarchy configuration of the
  namespace named by the GUID with the privileged client: a failed fetch is returned
  translated (NotFound of type Org when the configuration is absent) and nothing is
  deleted; after a successful fetch the anchor is deleted under the caller's identity.
  \<open>DeleteSpace\<close> fetches nothing: it deletes the anchor named by the space GUID in the
  namespace of the organization GUID under the caller's identity and returns the
  translated error of that delete; its outcome does not depend on the hierarchy
  configurations of the cluster.
\<close>

theorem GetSpace_selects_DeleteOrg_fetches_DeleteSpace_deletes:
  "(faults c Privileged VList KSubnamespaceAnchor [] [] = None
      \<and> GetAuthorizedSpaceNamespaces c info = Inr auth
    \<longrightarrow> (if (\<exists>a \<in> set (anchors c). anchor_Name a = spaceGUID \<and> anchor_State a = Ok
               \<and> (\<exists>org \<in> set (anchors c). anchor_Namespace org = rootNamespace r
                      \<and> anchor_Name org = anchor_Namespace a))
            \<and> map_of auth spaceGUID = Some True
         then \<exists>rec. GetSpace r c info spaceGUID = Inr rec \<and> SpaceRecord.GUID rec = spaceGUID
         else GetSpace r c info spaceGUID =
                Inl (NotFoundError (Some (Errorf ''space %q not found'' [StrArg spaceGUID] None))
                       SpaceResourceType)))
   \<and> (\<forall>err. Get_hierarchyConfiguration c Privileged (DeleteOrgMessage.GUID orgMessage)
                hierarchyMetadataName = Inl err
         \<longrightarrow> DeleteOrg r c info orgMessage = (Some (FromK8sError err OrgResourceType), c))
   \<and> (faults c Privileged VGet KHierarchyConfiguration (DeleteOrgMessage.GUID orgMessage)
          hierarchyMetadataName = None
       \<and> \<not> (\<exists>h \<in> set (hierarchyConfigurations c).
               hc_Namespace h = DeleteOrgMessage.GUID orgMessage \<and> hc_Name h = hierarchyMetadataName)
         \<longrightarrow> DeleteOrg r c info orgMessage =
               (Some (NotFoundError (Some (StatusError K8sNotFound)) OrgResourceType), c))
   \<and> (\<forall>hierarchyObj. Get_hierarchyConfiguration c Privileged (DeleteOrgMessage.GUID orgMessage)
                hierarchyMetadataName = Inr hierarchyObj
              \<and> buildClientFailure c info = None
         \<longrightarrow> DeleteOrg r c info orgMessage =
               (map_option (\<lambda>e. FromK8sError e OrgResourceType)
                  (fst (Delete_anchor c (User info) (rootNamespace r)
                          (DeleteOrgMessage.GUID orgMessage))),
                snd (Delete_anchor c (User info) (rootNamespace r)
                       (DeleteOrgMessage.GUID orgMessage))))
   \<and> (buildClientFailure c info = None
         \<longrightarrow> DeleteSpace r c info spaceMessage =
               (map_option (\<lambda>e. FromK8sError e SpaceResourceType)
                  (fst (Delete_anchor c (User info) (DeleteSpaceMessage.OrganizationGUID spaceMessage)
                          (DeleteSpaceMessage.GUID spaceMessage))),
                snd (Delete_anchor c (User info) (DeleteSpaceMessage.OrganizationGUID spaceMessage)
                       (DeleteSpaceMessage.GUID spaceMessage))))
   \<and> (\<forall>hcs. DeleteSpace r (c\<lparr> hierarchyConfigurations := hcs \<rparr>) info spaceMessage =
               (fst (DeleteSpace r c info spaceMessage),
                (snd (DeleteSpace r c info spaceMessage))\<lparr> hierarchyConfigurations := hcs \<rparr>))"
proof (intro conjI impI allI)
  assume "faults c Privileged VList KSubnamespaceAnchor [] [] = None
      \<and> GetAuthorizedSpaceNamespaces c info = Inr auth"
  then show "if (\<exists>a \<in> set (anchors c). anchor_Name a = spaceGUID \<and> anchor_State a = Ok
               \<and> (\<exists>org \<in> set (anchors c). anchor_Namespace org = rootNamespace r
                      \<and> anchor_Name org = anchor_Namespace a))
            \<and> map_of auth spaceGUID = Some True
         then \<exists>rec. GetSpace r c info spaceGUID = Inr rec \<and> SpaceRecord.GUID rec = spaceGUID
         else GetSpace r c info spaceGUID =
                Inl (NotFoundError (Some (Errorf ''space %q not found'' [StrArg spaceGUID] None))
                       SpaceResourceType)"
    by (intro GetSpace_select) simp_all
next
  fix err
  assume "Get_hierarchyConfiguration c Privileged (DeleteOrgMessage.GUID orgMessage)
                hierarchyMetadataName = Inl err"
  then show "DeleteOrg r c info orgMessage = (Some (FromK8sError err OrgResourceType), c)"
    by (rule DeleteOrg_fetch_error)
next
  assume "faults c Privileged VGet KHierarchyConfiguration (DeleteOrgMessage.GUID orgMessage)
          hierarchyMetadataName = None
       \<and> \<not> (\<exists>h \<in> set (hierarchyConfigurations c).
               hc_Namespace h = DeleteOrgMessage.GUID orgMessage \<and> hc_Name h = hierarchyMetadataName)"
  then have "Get_hierarchyConfiguration c Privileged (DeleteOrgMessage.GUID orgMessage)
                hierarchyMetadataName = Inl (StatusError K8sNotFound)"
    by (intro Get_hierarchyConfiguration_absent) simp_all
  from DeleteOrg_fetch_error [OF this]
  show "DeleteOrg r c info orgMessage =
               (Some (NotFoundError (Some (StatusError K8sNotFound)) OrgResourceType), c)"
    by simp
next
  fix hierarchyObj
  assume "Get_hierarchyConfiguration c Privileged (DeleteOrgMessage.GUID orgMessage)
                hierarchyMetadataName = Inr hierarchyObj
              \<and> buildClientFailure c info = None"
  then show "DeleteOrg r c info orgMessage =
               (map_option (\<lambda>e. FromK8sError e OrgResourceType)
                  (fst (Delete_anchor c (User info) (rootNamespace r)
                          (DeleteOrgMessage.GUID orgMessage))),
                snd (Delete_anchor c (User info) (rootNamespace r)
                       (DeleteOrgMessage.GUID orgMessage)))"
    by (intro DeleteOrg_fetched [where hierarchyObj = hierarchyObj]) simp_all
next
  assume "buildClientFailure c info = None"
  then show "DeleteSpace r c info spaceMessage =
               (map_option (\<lambda>e. FromK8sError e SpaceResourceType)
                  (fst (Delete_anchor c (User info) (DeleteSpaceMessage.OrganizationGUID spaceMessage)
                          (DeleteSpaceMessage.GUID spaceMessage))),
                snd (Delete_anchor c (User info) (DeleteSpaceMessage.OrganizationGUID spaceMessage)
                       (DeleteSpaceMessage.GUID spaceMessage)))"
    by (rule DeleteSpace_direct)
next
  fix hcs
  show "DeleteSpace r (c\<lparr> hierarchyConfigurations := hcs \<rparr>) info spaceMessage =
               (fst (DeleteSpace r c info spaceMessage),
                (snd (DeleteSpace r c info spaceMessage))\<lparr> hierarchyConfigurations := hcs \<rparr>)"
    by (rule DeleteSpace_ignores_hierarchy)
qed

theorem GetSpace_selects_DeleteOrg_fetches_DeleteSpace_deletes_witness:
  "(\<exists>rec. GetSpace example_repo example_cluster ''alice'' ''cf-space-1'' = Inr rec
          \<and> SpaceRecord.GUID rec = ''cf-space-1'')
   \<and> DeleteOrg example_repo example_cluster ''alice'' \<lparr> DeleteOrgMessage.GUID = ''cf-org-1'' \<rparr>
       = (Some (NotFoundError (Some (StatusError K8sNotFound)) OrgResourceType), example_cluster)
   \<and> DeleteSpace example_repo example_cluster ''alice''
         \<lparr> DeleteSpaceMessage.GUID = ''cf-space-9'', OrganizationGUID = ''cf-org-2'' \<rparr>
       = (Some (NotFoundError (Some (StatusError K8sNotFound)) SpaceResourceType), example_cluster)"
proof -
  let ?om = "\<lparr> DeleteOrgMessage.GUID = ''cf-org-1'' \<rparr>"
  let ?sm = "\<lparr> DeleteSpaceMessage.GUID = ''cf-space-9'', OrganizationGUID = ''cf-org-2'' \<rparr>"
  note T = GetSpace_selects_DeleteOrg_fetches_DeleteSpace_deletes
    [where c = example_cluster and r = example_repo and info = "''alice''"
       and auth = "[(''cf-space-1'', True)]" and spaceGUID = "''cf-space-1''"
       and orgMessage = ?om and spaceMessage = ?sm]
  have l: "faults example_cluster Privileged VList KSubnamespaceAnchor [] [] = None
      \<and> GetAuthorizedSpaceNamespaces example_cluster ''alice'' = Inr [(''cf-space-1'', True)]"
    by (simp add: example_cluster_def GetAuthorizedSpaceNamespaces_def)
  have h: "faults example_cluster Privileged VGet KHierarchyConfiguration (DeleteOrgMessage.GUID ?om)
          hierarchyMetadataName = None
       \<and> \<not> (\<exists>h \<in> set (hierarchyConfigurations example_cluster).
               hc_Namespace h = DeleteOrgMessage.GUID ?om \<and> hc_Name h = hierarchyMetadataName)"
    by (simp add: example_cluster_def)
  have b: "buildClientFailure example_cluster ''alice'' = None"
    by (simp add: example_cluster_def)
  have d: "Delete_anchor example_cluster (User ''alice'') ''cf-org-2'' ''cf-space-9''
             = (Some (StatusError K8sNotFound), example_cluster)"
    by (simp add: Delete_anchor_def example_defs)
  have g: "\<exists>rec. GetSpace example_repo example_cluster ''alice'' ''cf-space-1'' = Inr rec
          \<and> SpaceRecord.GUID rec = ''cf-space-1''"
    using T [THEN conjunct1, THEN mp, OF l] by (simp add: example_defs)
  note o = T [THEN conjunct2, THEN conjunct2, THEN conjunct1, THEN mp, OF h]
  have s: "DeleteSpace example_repo example_cluster ''alice'' ?sm
       = (Some (NotFoundError (Some (StatusError K8sNotFound)) SpaceResourceType), example_cluster)"
    using T [THEN conjunct2, THEN conjunct2, THEN conjunct2, THEN conjunct2, THEN conjunct1,
             THEN mp, OF b]
    by (simp add: d)
  from g o s show ?thesis by (intro conjI)
qed

text \<open>
  In the example cluster no namespace has a hierarchy configuration: \<open>DeleteOrg\<close>
  reports NotFound and deletes nothing, while \<open>DeleteSpace\<close> succeeds and removes the
  anchor of \<open>cf-space-1\<close>.
\<close>

lemmas eval5_defs = DeleteSpace_def DeleteOrg_def Delete_anchor_def Get_hierarchyConfiguration_def
  BuildClient_def hierarchyMetadataName_def

theorem DeleteSpace_without_fetch_counterexample:
  "Get_hierarchyConfiguration example_cluster Privileged ''cf-space-1'' hierarchyMetadataName
     = Inl (StatusError K8sNotFound)
   \<and> Get_hierarchyConfiguration example_cluster Privileged ''cf-org-2'' hierarchyMetadataName
     = Inl (StatusError K8sNotFound)
   \<and> DeleteSpace example_repo example_cluster ''alice''
         \<lparr> DeleteSpaceMessage.GUID = ''cf-space-1'', OrganizationGUID = ''cf-org-2'' \<rparr>
       = (None, example_cluster
                  \<lparr> anchors := [example_anchors ! 0, example_anchors ! 1, example_anchors ! 3] \<rparr>)
   \<and> DeleteOrg example_repo example_cluster ''alice'' \<lparr> DeleteOrgMessage.GUID = ''cf-space-1'' \<rparr>
       = (Some (NotFoundError (Some (StatusError K8sNotFound)) OrgResourceType), example_cluster)"
  by (simp add: eval5_defs example_defs OrgResourceType_def)

end
